theory Spec2Isabelle
  imports Main
begin

section \<open>Values, strings and JavaScript built-ins\<close>

text \<open>
  The embedding follows the TypeScript sources function by function. An \<^verbatim>\<open>async\<close>
  method that may throw returns a sum (\<open>Inl\<close> the exception) together with the state it
  leaves behind; what a method does to the outside (child processes, requests to backends
  and to the LLM provider) is recorded in a \<open>world\<close> value that is passed along. Console
  output, debug output and progress reports are left out.

  Tool arguments, tool results and schemas are JSON values. JavaScript strings are
  modelled as \<^typ>\<open>string\<close>; the separator and every character the code inspects are ASCII.
\<close>

datatype json =
    JNull
  | JBool bool
  | JNum int
  | JStr string
  | JArr "json list"
  | JObj "(string \<times> json) list"

text \<open>\<^verbatim>\<open>Array.prototype.join\<close> on an array of strings.\<close>

fun join :: "string \<Rightarrow> string list \<Rightarrow> string" where
  "join sep [] = []"
| "join sep [x] = x"
| "join sep (x # y # ys) = x @ sep @ join sep (y # ys)"

text \<open>
  \<^verbatim>\<open>fullName.split("__")\<close>: the string is cut at every occurrence of the separator,
  scanning from the left, and a match consumes both underscores. The result always has at
  least one segment; segments may be empty.
\<close>

definition separator :: string where
  "separator = ''__''"

fun js_split :: "string \<Rightarrow> string list" where
  "js_split [] = [[]]"
| "js_split [c] = [[c]]"
| "js_split (c # d # cs) =
     (if c = CHR ''_'' \<and> d = CHR ''_'' then [] # js_split cs
      else (case js_split (d # cs) of
              [] \<Rightarrow> [[c]]
            | w # ws \<Rightarrow> (c # w) # ws))"

text \<open>
  Array destructuring \<^verbatim>\<open>const [a, b] = xs\<close> reads an index that may be missing
  (\<^verbatim>\<open>undefined\<close>); \<^verbatim>\<open>!s\<close> on a string-or-undefined holds for \<^verbatim>\<open>undefined\<close> and
  for the empty string.
\<close>

definition element :: "'a list \<Rightarrow> nat \<Rightarrow> 'a option" where
  "element xs i = (if i < length xs then Some (xs ! i) else None)"

definition falsy :: "string option \<Rightarrow> bool" where
  "falsy s = (s = None \<or> s = Some [])"

text \<open>A \<^verbatim>\<open>Map\<close> keeps insertion order; \<^verbatim>\<open>set\<close> on a present key replaces the
  value in place, on a new key it appends.\<close>

fun map_set :: "'k \<Rightarrow> 'v \<Rightarrow> ('k \<times> 'v) list \<Rightarrow> ('k \<times> 'v) list" where
  "map_set k v [] = [(k, v)]"
| "map_set k v (p # ps) = (if fst p = k then (k, v) # ps else p # map_set k v ps)"

definition map_get :: "('k \<times> 'v) list \<Rightarrow> 'k \<Rightarrow> 'v option" where
  "map_get m k = map_of m k"

definition map_has :: "('k \<times> 'v) list \<Rightarrow> 'k \<Rightarrow> bool" where
  "map_has m k = (map_of m k \<noteq> None)"

definition map_delete :: "'k \<Rightarrow> ('k \<times> 'v) list \<Rightarrow> ('k \<times> 'v) list" where
  "map_delete k m = filter (\<lambda>p. fst p \<noteq> k) m"

definition map_keys :: "('k \<times> 'v) list \<Rightarrow> 'k list" where
  "map_keys m = map fst m"

text \<open>Non-ASCII letters of the source's messages, as their UTF-8 bytes.\<close>

definition uuml :: string where "uuml = [CHR 0xC3, CHR 0xBC]"
definition auml :: string where "auml = [CHR 0xC3, CHR 0xA4]"
definition ouml :: string where "ouml = [CHR 0xC3, CHR 0xB6]"
definition nl :: string where "nl = [CHR 0x0A]"
definition fence :: string where "fence = [CHR 0x60, CHR 0x60, CHR 0x60]"
definition quote :: string where "quote = [CHR 0x27]"
definition dquote :: string where "dquote = [CHR 0x22]"

text \<open>Decimal rendering of a count inside a template literal.\<close>

fun string_of_nat :: "nat \<Rightarrow> string" where
  "string_of_nat n =
     (if n < 10 then [''0123456789'' ! n]
      else string_of_nat (n div 10) @ [''0123456789'' ! (n mod 10)])"

declare string_of_nat.simps [simp del]

section \<open>Errors\<close>

text \<open>
  Every \<^verbatim>\<open>throw\<close> of the source is a constructor; \<open>Thrown\<close> is an exception raised by
  the MCP SDK, an LLM SDK or a built-in, carrying the text the catch blocks derive from it
  (\<^verbatim>\<open>error instanceof Error ? error.message : String(error)\<close>).
\<close>

datatype exn =
    CommandRequiredStdio string
  | CommandRequired string
  | ServerNotConnected string
  | InvalidToolNameExpected string
  | InvalidToolName string
  | NoApiKey string
  | OpenAINotInitialised
  | AnthropicNotInitialised
  | NoProviderInitialised
  | OpenAIKeyMissing
  | AnthropicKeyMissing
  | Thrown string

fun message :: "exn \<Rightarrow> string" where
  "message (CommandRequiredStdio n) =
     ''Server '' @ n @ '': '' @ quote @ ''command'' @ quote @ '' ist erforderlich f'' @ uuml @ ''r stdio-Transport''"
| "message (CommandRequired n) = ''Server '' @ n @ '': '' @ quote @ ''command'' @ quote @ '' ist erforderlich''"
| "message (ServerNotConnected s) = ''Server '' @ quote @ s @ quote @ '' nicht verbunden''"
| "message (InvalidToolNameExpected f) =
     ''Ung'' @ uuml @ ''ltiger Tool-Name: '' @ f @ ''. Erwartet: server__tool''"
| "message (InvalidToolName f) = ''Ung'' @ uuml @ ''ltiger Tool-Name: '' @ f"
| "message (NoApiKey p) = ''Kein API Key f'' @ uuml @ ''r Provider '' @ quote @ p @ quote @ '' gefunden''"
| "message OpenAINotInitialised = ''OpenAI nicht initialisiert''"
| "message AnthropicNotInitialised = ''Anthropic nicht initialisiert''"
| "message NoProviderInitialised = ''Kein LLM-Provider initialisiert''"
| "message OpenAIKeyMissing = ''OpenAI API Key nicht konfiguriert''"
| "message AnthropicKeyMissing = ''Anthropic API Key nicht konfiguriert''"
| "message (Thrown m) = m"

section \<open>The MCP client manager (agent/src/client.ts)\<close>

record Tool =
  tool_name :: string
  tool_description :: "string option"
  inputSchema :: json

record Resource =
  resource_uri :: string
  resource_name :: string

datatype transport_type = Stdio | Http

record ServerConfig =
  transport :: transport_type
  command :: "string option"
  args :: "string list option"
  url :: "string option"
  description :: "string option"

text \<open>
  A connection holds the handle of its SDK client; the client owns the transport and the
  child process that \<^verbatim>\<open>client.connect(transport)\<close> started.
\<close>

record McpServerConnection =
  conn_name :: string
  conn_config :: ServerConfig
  client :: nat
  tools :: "Tool list"
  resources :: "Resource list"

record McpClientManager =
  connections :: "(string \<times> McpServerConnection) list"

text \<open>
  What lies outside the repository: \<open>live\<close> are the running child processes (client
  handle and the backend name they were started for), \<open>spawned\<close> counts the processes
  started so far and is the next handle, \<open>sent\<close> are the tool-call requests delivered
  to backends, \<open>completions\<close> counts the requests made to the LLM provider.
\<close>

record world =
  live :: "(nat \<times> string) list"
  spawned :: nat
  sent :: "(nat \<times> string \<times> json) list"
  completions :: nat

text \<open>
  The MCP SDK and the backends behind it are a parameter: each call may depend on the
  whole history (the \<^typ>\<open>world\<close>) and either resolves or rejects with a message.
\<close>

record mcp_sdk =
  client_connect :: "world \<Rightarrow> string \<Rightarrow> string list \<Rightarrow> string option"
  listTools :: "world \<Rightarrow> nat \<Rightarrow> string + Tool list"
  listResources :: "world \<Rightarrow> nat \<Rightarrow> string + Resource list"
  client_callTool :: "world \<Rightarrow> nat \<Rightarrow> string \<Rightarrow> json \<Rightarrow> string + json"
  client_close :: "world \<Rightarrow> nat \<Rightarrow> string option"

text \<open>\<^verbatim>\<open>client.connect(transport)\<close> starts the child process; \<^verbatim>\<open>client.close()\<close>
  ends it. \<open>processes_of\<close> are the handles of the running processes started for a name.\<close>

definition start_process :: "world \<Rightarrow> string \<Rightarrow> world" where
  "start_process w n = w\<lparr>live := live w @ [(spawned w, n)], spawned := spawned w + 1\<rparr>"

definition end_process :: "world \<Rightarrow> nat \<Rightarrow> world" where
  "end_process w h = w\<lparr>live := filter (\<lambda>p. fst p \<noteq> h) (live w)\<rparr>"

definition processes_of :: "world \<Rightarrow> string \<Rightarrow> nat list" where
  "processes_of w n = map fst (filter (\<lambda>p. snd p = n) (live w))"

text \<open>
  \<^verbatim>\<open>connectStdio\<close>: the command is required; then the client connects, lists tools and
  resources, and the connection is stored under the name with \<^verbatim>\<open>Map.set\<close>. There is no
  look-up of the name before. When listing fails the process is running and nothing is
  stored.
\<close>

definition connectStdio ::
  "mcp_sdk \<Rightarrow> McpClientManager \<Rightarrow> world \<Rightarrow> string \<Rightarrow> ServerConfig
     \<Rightarrow> (exn + McpServerConnection) \<times> McpClientManager \<times> world" where
  "connectStdio sdk m w n config =
     (if falsy (command config) then (Inl (CommandRequiredStdio n), m, w)
      else
        (case client_connect sdk w (the (command config))
                (case args config of None \<Rightarrow> [] | Some a \<Rightarrow> a) of
           Some e \<Rightarrow> (Inl (Thrown e), m, w)
         | None \<Rightarrow>
            (let h = spawned w; w1 = start_process w n in
             (case listTools sdk w1 h of
                Inl e \<Rightarrow> (Inl (Thrown e), m, w1)
              | Inr ts \<Rightarrow>
                 (case listResources sdk w1 h of
                    Inl e \<Rightarrow> (Inl (Thrown e), m, w1)
                  | Inr rs \<Rightarrow>
                     (let connection = \<lparr>conn_name = n, conn_config = config, client = h,
                                         tools = ts, resources = rs\<rparr>
                      in (Inr connection,
                          m\<lparr>connections := map_set n connection (connections m)\<rparr>,
                          w1)))))))"

text \<open>\<^verbatim>\<open>getAllTools\<close> walks the connections in insertion order and tags each tool with the
  name of its backend; \<^verbatim>\<open>getToolsForLLM\<close> composes the visible name.\<close>

record ServerTool = Tool +
  serverName :: string

definition with_server :: "string \<Rightarrow> Tool \<Rightarrow> ServerTool" where
  "with_server s t =
     \<lparr>tool_name = tool_name t, tool_description = tool_description t,
      inputSchema = inputSchema t, serverName = s\<rparr>"

definition getAllTools :: "McpClientManager \<Rightarrow> ServerTool list" where
  "getAllTools m =
     concat (map (\<lambda>(s, connection). map (with_server s) (tools connection)) (connections m))"

record LLMTool =
  llm_name :: string
  llm_description :: string
  input_schema :: json

definition namespaced :: "string \<Rightarrow> string \<Rightarrow> string" where
  "namespaced s t = s @ ''__'' @ t"

definition getToolsForLLM :: "McpClientManager \<Rightarrow> LLMTool list" where
  "getToolsForLLM m =
     map (\<lambda>t. \<lparr>llm_name = namespaced (serverName t) (tool_name t),
                llm_description =
                  (case tool_description t of
                     None \<Rightarrow> ''Tool: '' @ tool_name t
                   | Some d \<Rightarrow> d),
                input_schema = inputSchema t\<rparr>)
         (getAllTools m)"

text \<open>\<^verbatim>\<open>callTool\<close> throws when the name has no connection, otherwise it sends the request
  to the connection's client; \<^verbatim>\<open>callToolByFullName\<close> splits the name first.\<close>

definition callTool ::
  "mcp_sdk \<Rightarrow> McpClientManager \<Rightarrow> world \<Rightarrow> string \<Rightarrow> string \<Rightarrow> json
     \<Rightarrow> (exn + json) \<times> world" where
  "callTool sdk m w s t a =
     (case map_get (connections m) s of
        None \<Rightarrow> (Inl (ServerNotConnected s), w)
      | Some connection \<Rightarrow>
         (let w1 = w\<lparr>sent := sent w @ [(client connection, t, a)]\<rparr> in
          (case client_callTool sdk w (client connection) t a of
             Inl e \<Rightarrow> (Inl (Thrown e), w1)
           | Inr r \<Rightarrow> (Inr r, w1))))"

definition callToolByFullName ::
  "mcp_sdk \<Rightarrow> McpClientManager \<Rightarrow> world \<Rightarrow> string \<Rightarrow> json \<Rightarrow> (exn + json) \<times> world" where
  "callToolByFullName sdk m w fullName a =
     (let parts = js_split fullName;
          s = element parts 0;
          t = element parts 1
      in if falsy s \<or> falsy t then (Inl (InvalidToolNameExpected fullName), w)
         else callTool sdk m w (the s) (the t) a)"

text \<open>\<^verbatim>\<open>disconnect\<close> returns at once for a name without connection; otherwise it closes
  the client and deletes the entry. When closing throws, the entry stays.\<close>

definition disconnect ::
  "mcp_sdk \<Rightarrow> McpClientManager \<Rightarrow> world \<Rightarrow> string
     \<Rightarrow> (exn + unit) \<times> McpClientManager \<times> world" where
  "disconnect sdk m w s =
     (case map_get (connections m) s of
        None \<Rightarrow> (Inr (), m, w)
      | Some connection \<Rightarrow>
         (case client_close sdk w (client connection) of
            Some e \<Rightarrow> (Inl (Thrown e), m, w)
          | None \<Rightarrow>
             (Inr (),
              m\<lparr>connections := map_delete s (connections m)\<rparr>,
              end_process w (client connection))))"

section \<open>The tool registry (agent/src/registry.ts)\<close>

text \<open>
  The registry is a catalog of its own: a \<^verbatim>\<open>Map\<close> from full names to tools, with an
  index by category and one by tag (a \<^verbatim>\<open>Set\<close> of full names each, in insertion order).
  It holds no reference to the manager; it changes only when \<^verbatim>\<open>register\<close>,
  \<^verbatim>\<open>registerFromServer\<close> or \<^verbatim>\<open>unregisterServer\<close> is called.
\<close>

record RegisteredTool = ServerTool +
  category :: "string option"
  tags :: "string list option"
  priority :: "int option"

record ToolRegistry =
  registry_tools :: "(string \<times> RegisteredTool) list"
  categoryIndex :: "(string \<times> string list) list"
  tagIndex :: "(string \<times> string list) list"

definition new_ToolRegistry :: ToolRegistry where
  "new_ToolRegistry = \<lparr>registry_tools = [], categoryIndex = [], tagIndex = []\<rparr>"

text \<open>\<^verbatim>\<open>Set.add\<close>, and the two statements that put a full name into an index: the set
  for the key is created when missing, then the name is added to it.\<close>

definition set_add :: "'a \<Rightarrow> 'a list \<Rightarrow> 'a list" where
  "set_add x xs = (if x \<in> set xs then xs else xs @ [x])"

definition index_add ::
  "string \<Rightarrow> string \<Rightarrow> (string \<times> string list) list \<Rightarrow> (string \<times> string list) list" where
  "index_add k fullName idx =
     (let idx1 = (if map_has idx k then idx else map_set k [] idx)
      in map_set k (set_add fullName (the (map_get idx1 k))) idx1)"

text \<open>\<^verbatim>\<open>index.get(key)?.delete(fullName)\<close>.\<close>

definition index_delete ::
  "string \<Rightarrow> string \<Rightarrow> (string \<times> string list) list \<Rightarrow> (string \<times> string list) list" where
  "index_delete k fullName idx =
     (case map_get idx k of
        None \<Rightarrow> idx
      | Some names \<Rightarrow> map_set k (filter (\<lambda>x. x \<noteq> fullName) names) idx)"

definition register :: "ToolRegistry \<Rightarrow> RegisteredTool \<Rightarrow> ToolRegistry" where
  "register r tool =
     (let fullName = serverName tool @ ''__'' @ tool_name tool;
          r1 = r\<lparr>registry_tools := map_set fullName tool (registry_tools r)\<rparr>;
          r2 = (if falsy (category tool) then r1
                else r1\<lparr>categoryIndex :=
                          index_add (the (category tool)) fullName (categoryIndex r1)\<rparr>)
      in (case tags tool of
            None \<Rightarrow> r2
          | Some ts \<Rightarrow>
              r2\<lparr>tagIndex := fold (\<lambda>tag idx. index_add tag fullName idx) ts (tagIndex r2)\<rparr>))"

definition registerFromServer ::
  "ToolRegistry \<Rightarrow> string \<Rightarrow> Tool list \<Rightarrow> string option \<Rightarrow> string list option
     \<Rightarrow> ToolRegistry" where
  "registerFromServer r s ts cat tgs =
     fold (\<lambda>t r1. register r1
                     \<lparr>tool_name = tool_name t, tool_description = tool_description t,
                      inputSchema = inputSchema t, serverName = s,
                      category = cat, tags = tgs, priority = None\<rparr>)
          ts r"

text \<open>\<^verbatim>\<open>unregisterServer\<close> collects the full names of the server's tools first and then
  removes each from the indexes and from the map.\<close>

definition unregister :: "ToolRegistry \<Rightarrow> string \<Rightarrow> ToolRegistry" where
  "unregister r fullName =
     (case map_get (registry_tools r) fullName of
        None \<Rightarrow> r
      | Some tool \<Rightarrow>
         (let r1 = (if falsy (category tool) then r
                    else r\<lparr>categoryIndex :=
                             index_delete (the (category tool)) fullName (categoryIndex r)\<rparr>);
              r2 = (case tags tool of
                      None \<Rightarrow> r1
                    | Some ts \<Rightarrow>
                        r1\<lparr>tagIndex :=
                              fold (\<lambda>tag idx. index_delete tag fullName idx) ts (tagIndex r1)\<rparr>)
          in r2\<lparr>registry_tools := map_delete fullName (registry_tools r2)\<rparr>))"

definition unregisterServer :: "ToolRegistry \<Rightarrow> string \<Rightarrow> ToolRegistry" where
  "unregisterServer r s =
     fold (\<lambda>fullName r1. unregister r1 fullName)
          (map fst (filter (\<lambda>p. serverName (snd p) = s) (registry_tools r)))
          r"

definition getAll :: "ToolRegistry \<Rightarrow> RegisteredTool list" where
  "getAll r = map snd (registry_tools r)"

text \<open>\<^verbatim>\<open>getForLLM()\<close> as the agent calls it, without search options (with options the
  tools come from \<^verbatim>\<open>search\<close>, which nothing in the repository calls).\<close>

definition getForLLM :: "ToolRegistry \<Rightarrow> LLMTool list" where
  "getForLLM r =
     map (\<lambda>tool. \<lparr>llm_name = serverName tool @ ''__'' @ tool_name tool,
                   llm_description =
                     (case tool_description tool of
                        None \<Rightarrow> ''Tool: '' @ tool_name tool
                      | Some d \<Rightarrow> d),
                   input_schema = inputSchema tool\<rparr>)
         (getAll r)"

text \<open>How \<^verbatim>\<open>main\<close> (agent/src/index.ts) fills the registry, once, after the backends
  are connected: every tool of \<^verbatim>\<open>getAllTools()\<close> is registered with its server name.\<close>

definition main_registry :: "McpClientManager \<Rightarrow> ToolRegistry" where
  "main_registry m =
     fold (\<lambda>t r. register r
                    \<lparr>tool_name = tool_name t, tool_description = tool_description t,
                     inputSchema = inputSchema t, serverName = serverName t,
                     category = None, tags = None, priority = None\<rparr>)
          (getAllTools m) new_ToolRegistry"

section \<open>The extension's bridge: connections (extension/src/bridge.ts)\<close>

record McpConnection =
  mc_name :: string
  mc_client :: nat
  mc_tools :: "Tool list"

record ServersJson =
  servers :: "(string \<times> ServerConfig) list"
  defaults_activeServers :: "string list option"

datatype bridge_provider = P_openai | P_anthropic | P_ollama | P_azure | P_google

record BridgeConfig =
  bridge_provider :: bridge_provider
  openaiApiKey :: "string option"
  anthropicApiKey :: "string option"
  bridge_model :: "string option"
  activeServers :: "string list option"

text \<open>
  \<open>openai_ready\<close> and \<open>anthropic_ready\<close> say whether the fields \<^verbatim>\<open>openai\<close> and
  \<^verbatim>\<open>anthropic\<close> hold a client (are not \<^verbatim>\<open>null\<close>).
\<close>

record AgentBridge =
  anthropic_ready :: bool
  openai_ready :: bool
  bridge_connections :: "(string \<times> McpConnection) list"
  bridge_config :: BridgeConfig
  allTools :: "ServerTool list"
  serversConfig :: "ServersJson option"

text \<open>
  The constructor stores the configuration. \<^verbatim>\<open>initialize\<close> creates the client of the
  configured provider (the OpenAI client for \<open>openai\<close>, the Anthropic client for every
  other provider) or throws when its API key is missing, then loads the server
  configuration; \<open>loaded\<close> is what \<^verbatim>\<open>loadServersConfig\<close> finds on disk, if anything.
\<close>

definition new_AgentBridge :: "BridgeConfig \<Rightarrow> AgentBridge" where
  "new_AgentBridge c =
     \<lparr>anthropic_ready = False, openai_ready = False, bridge_connections = [],
      bridge_config = c, allTools = [], serversConfig = None\<rparr>"

definition initialize :: "ServersJson option \<Rightarrow> AgentBridge \<Rightarrow> exn + AgentBridge" where
  "initialize loaded b =
     (let load = (\<lambda>b1. (case loaded of
                            None \<Rightarrow> b1
                          | Some sc \<Rightarrow> b1\<lparr>serversConfig := Some sc\<rparr>))
      in if bridge_provider (bridge_config b) = P_openai
         then (if falsy (openaiApiKey (bridge_config b)) then Inl OpenAIKeyMissing
               else Inr (load (b\<lparr>openai_ready := True\<rparr>)))
         else (if falsy (anthropicApiKey (bridge_config b)) then Inl AnthropicKeyMissing
               else Inr (load (b\<lparr>anthropic_ready := True\<rparr>))))"

definition connectServer ::
  "mcp_sdk \<Rightarrow> AgentBridge \<Rightarrow> world \<Rightarrow> string \<Rightarrow> ServerConfig
     \<Rightarrow> (exn + unit) \<times> AgentBridge \<times> world" where
  "connectServer sdk b w n config =
     (if falsy (command config) then (Inl (CommandRequired n), b, w)
      else if map_has (bridge_connections b) n then (Inr (), b, w)
      else
        (case client_connect sdk w (the (command config))
                (case args config of None \<Rightarrow> [] | Some a \<Rightarrow> a) of
           Some e \<Rightarrow> (Inl (Thrown e), b, w)
         | None \<Rightarrow>
            (let h = spawned w; w1 = start_process w n in
             (case listTools sdk w1 h of
                Inl e \<Rightarrow> (Inl (Thrown e), b, w1)
              | Inr ts \<Rightarrow>
                 (let connection = \<lparr>mc_name = n, mc_client = h, mc_tools = ts\<rparr>
                  in (Inr (),
                      b\<lparr>bridge_connections := map_set n connection (bridge_connections b),
                        allTools := allTools b @ map (with_server n) ts\<rparr>,
                      w1))))))"

text \<open>\<^verbatim>\<open>connectActiveServers\<close>: a failing connect is logged and the loop goes on.\<close>

fun connectEach ::
  "mcp_sdk \<Rightarrow> (string \<times> ServerConfig) list \<Rightarrow> AgentBridge \<Rightarrow> world \<Rightarrow> string list
     \<Rightarrow> AgentBridge \<times> world" where
  "connectEach sdk srv b w [] = (b, w)"
| "connectEach sdk srv b w (n # ns) =
     (case map_of srv n of
        None \<Rightarrow> connectEach sdk srv b w ns
      | Some config \<Rightarrow>
         (case connectServer sdk b w n config of
            (r, b1, w1) \<Rightarrow> connectEach sdk srv b1 w1 ns))"

definition connectActiveServers :: "mcp_sdk \<Rightarrow> AgentBridge \<Rightarrow> world \<Rightarrow> AgentBridge \<times> world" where
  "connectActiveServers sdk b w =
     (case serversConfig b of
        None \<Rightarrow> (b, w)
      | Some sc \<Rightarrow>
         connectEach sdk (servers sc) b w
           (case activeServers (bridge_config b) of
              Some a \<Rightarrow> a
            | None \<Rightarrow>
               (case defaults_activeServers sc of
                  Some a \<Rightarrow> a
                | None \<Rightarrow> [''demo'', ''filesystem''])))"

text \<open>\<^verbatim>\<open>disconnectAll\<close>: every client is closed, a failing close is logged; then both
  the connection map and the tool list are emptied.\<close>

fun closeEach :: "mcp_sdk \<Rightarrow> world \<Rightarrow> McpConnection list \<Rightarrow> world" where
  "closeEach sdk w [] = w"
| "closeEach sdk w (c # cs) =
     closeEach sdk
       (case client_close sdk w (mc_client c) of
          None \<Rightarrow> end_process w (mc_client c)
        | Some e \<Rightarrow> w)
       cs"

definition disconnectAll :: "mcp_sdk \<Rightarrow> AgentBridge \<Rightarrow> world \<Rightarrow> AgentBridge \<times> world" where
  "disconnectAll sdk b w =
     (b\<lparr>bridge_connections := [], allTools := []\<rparr>,
      closeEach sdk w (map snd (bridge_connections b)))"

definition bridge_callTool ::
  "mcp_sdk \<Rightarrow> AgentBridge \<Rightarrow> world \<Rightarrow> string \<Rightarrow> json \<Rightarrow> (exn + json) \<times> world" where
  "bridge_callTool sdk b w fullName a =
     (let parts = js_split fullName;
          s = element parts 0;
          t = element parts 1
      in if falsy s \<or> falsy t then (Inl (InvalidToolName fullName), w)
         else
           (case map_get (bridge_connections b) (the s) of
              None \<Rightarrow> (Inl (ServerNotConnected (the s)), w)
            | Some connection \<Rightarrow>
               (let w1 = w\<lparr>sent := sent w @ [(mc_client connection, the t, a)]\<rparr> in
                (case client_callTool sdk w (mc_client connection) (the t) a of
                   Inl e \<Rightarrow> (Inl (Thrown e), w1)
                 | Inr r \<Rightarrow> (Inr r, w1)))))"

text \<open>The catalog as the connections determine it; the bridge stores its own copy in
  \<open>allTools\<close>.\<close>

definition bridge_catalog :: "(string \<times> McpConnection) list \<Rightarrow> ServerTool list" where
  "bridge_catalog cs = concat (map (\<lambda>(s, c). map (with_server s) (mc_tools c)) cs)"

section \<open>Rendering the context into the system prompt\<close>

text \<open>
  Both renderings are methods that build a local array \<^verbatim>\<open>parts\<close>, push one line per
  statement and join the lines. They are embedded like the other methods: next to the
  string they return the objects they were given, as the method leaves them. The array
  methods they call on these objects (\<^verbatim>\<open>join\<close>, \<^verbatim>\<open>slice\<close>, \<^verbatim>\<open>keys\<close>) read their
  receiver; \<^verbatim>\<open>push\<close> is called on \<^verbatim>\<open>parts\<close> only.
\<close>

record BridgeContext =
  bc_workspaceFolders :: "string list"
  bc_openFiles :: "string list"
  bc_currentFile :: "string option"
  bc_selection :: "string option"

text \<open>\<^verbatim>\<open>buildSystemPrompt\<close> of the bridge: the receiver is the bridge, the argument the
  context.\<close>

definition buildSystemPrompt ::
  "AgentBridge \<Rightarrow> BridgeContext \<Rightarrow> string \<times> AgentBridge \<times> BridgeContext" where
  "buildSystemPrompt b c =
     (let parts = [''Du bist ein hilfreicher KI-Assistent in VS Code.'',
                   ''Du hast Zugriff auf MCP-Tools um Aufgaben auszuf'' @ uuml @ ''hren.'',
                   ''Antworte auf Deutsch, kurz und pr'' @ auml @ ''zise.'',
                   [],
                   ''--- Aktueller Kontext ---''];
          parts = (if length (bc_workspaceFolders c) > 0
                   then parts @ [''Workspace: '' @ join '', '' (bc_workspaceFolders c)]
                   else parts);
          parts = (if length (bc_openFiles c) > 0
                   then parts @ [''Offene Dateien: '' @ join '', '' (take 5 (bc_openFiles c))]
                   else parts);
          parts = (if \<not> falsy (bc_currentFile c)
                   then parts @ [''Aktuelle Datei: '' @ the (bc_currentFile c)]
                   else parts);
          parts = (if \<not> falsy (bc_selection c)
                   then parts @ [nl @ ''Selektion:'' @ nl @ fence @ nl @ the (bc_selection c)
                                 @ nl @ fence]
                   else parts);
          parts = parts @ [[]];
          parts = parts @ [''Verf'' @ uuml @ ''gbare Server: ''
                           @ join '', '' (map_keys (bridge_connections b))];
          parts = parts @ [''Verf'' @ uuml @ ''gbare Tools: ''
                           @ string_of_nat (length (allTools b))]
      in (join nl parts, b, c))"

text \<open>
  The agent's context (agent/src/agent.ts): every field is optional. The custom context
  is JSON data, on which \<^verbatim>\<open>JSON.stringify\<close> returns a string.
\<close>

record AgentContext =
  workspaceFolders :: "string list option"
  openFiles :: "string list option"
  currentFile :: "string option"
  selection :: "string option"
  customContext :: "json option"

text \<open>\<^verbatim>\<open>xs?.length\<close> is truthy for a present, non-empty array. A present value is
  falsy when it is \<^verbatim>\<open>null\<close>, \<^verbatim>\<open>false\<close>, \<open>0\<close> or the empty string.\<close>

definition has_length :: "'a list option \<Rightarrow> bool" where
  "has_length xs = (case xs of None \<Rightarrow> False | Some ys \<Rightarrow> length ys > 0)"

definition falsy_value :: "json option \<Rightarrow> bool" where
  "falsy_value v =
     (v = None \<or> v = Some JNull \<or> v = Some (JBool False) \<or> v = Some (JNum 0)
      \<or> v = Some (JStr []))"

text \<open>\<^verbatim>\<open>buildContextSection\<close> of the agent; it does not read the agent, the argument is
  the context.\<close>

definition buildContextSection ::
  "(json \<Rightarrow> string) \<Rightarrow> AgentContext \<Rightarrow> string \<times> AgentContext" where
  "buildContextSection stringify c =
     (let parts = [nl @ nl @ ''--- Aktueller Kontext ---''];
          parts = (if has_length (workspaceFolders c)
                   then parts @ [''Workspace: '' @ join '', '' (the (workspaceFolders c))]
                   else parts);
          parts = (if has_length (openFiles c)
                   then parts @ [''Offene Dateien: '' @ join '', '' (the (openFiles c))]
                   else parts);
          parts = (if \<not> falsy (currentFile c)
                   then parts @ [''Aktuelle Datei: '' @ the (currentFile c)]
                   else parts);
          parts = (if \<not> falsy (selection c)
                   then parts @ [''Selektion:'' @ nl @ fence @ nl @ the (selection c) @ nl @ fence]
                   else parts);
          parts = (if \<not> falsy_value (customContext c)
                   then parts @ [''Zus'' @ auml @ ''tzlicher Kontext: ''
                                 @ stringify (the (customContext c))]
                   else parts)
      in (join nl parts, c))"

section \<open>The completion providers\<close>

text \<open>Anthropic's Messages API, as far as the loops read and write it.\<close>

record ToolUse =
  tu_id :: string
  tu_name :: string
  tu_input :: json

datatype content_block = TextBlock string | ToolUseBlock ToolUse | OtherBlock

datatype stop_reason = end_turn | tool_use | max_tokens | stop_sequence | no_stop_reason

record AnthropicResponse =
  stop_reason :: stop_reason
  content :: "content_block list"

text \<open>A tool result without \<^verbatim>\<open>is_error\<close> has \<open>is_error = False\<close>.\<close>

record ToolResultBlockParam =
  tool_use_id :: string
  result_content :: string
  is_error :: bool

datatype MessageParam =
    UserText string
  | AssistantContent "content_block list"
  | UserToolResults "ToolResultBlockParam list"

record AnthropicRequest =
  a_model :: string
  a_max_tokens :: nat
  a_system :: string
  a_tools :: "LLMTool list option"
  a_messages :: "MessageParam list"

text \<open>OpenAI's chat completions.\<close>

record ToolCall =
  tc_id :: string
  tc_name :: string
  tc_arguments :: string

record ChatMessage =
  msg_content :: "string option"
  tool_calls :: "ToolCall list option"

record Choice =
  finish_reason :: string
  choice_message :: ChatMessage

record OpenAIResponse =
  choices :: "Choice list"

datatype ChatParam =
    SystemMsg string
  | UserMsg string
  | AssistantMsg ChatMessage
  | ToolMsg string string

record OpenAIRequest =
  o_model :: string
  o_max_tokens :: "nat option"
  o_messages :: "ChatParam list"
  o_tools :: "LLMTool list option"
  o_tool_choice :: "string option"

text \<open>
  The providers and the JSON built-ins are a parameter. A request resolves with a
  response or rejects with a message; \<^verbatim>\<open>JSON.parse\<close> returns a value or throws a
  \<^verbatim>\<open>SyntaxError\<close> with a message.
\<close>

record llm_sdk =
  messages_create :: "world \<Rightarrow> AnthropicRequest \<Rightarrow> string + AnthropicResponse"
  chat_completions_create :: "world \<Rightarrow> OpenAIRequest \<Rightarrow> string + OpenAIResponse"
  JSON_stringify :: "json \<Rightarrow> string"
  JSON_parse :: "string \<Rightarrow> string + json"

definition llm_called :: "world \<Rightarrow> world" where
  "llm_called w = w\<lparr>completions := completions w + 1\<rparr>"

text \<open>Reading \<^verbatim>\<open>choice.message\<close> when \<^verbatim>\<open>response.choices[0]\<close> is
  \<^verbatim>\<open>undefined\<close> throws a \<^verbatim>\<open>TypeError\<close>.\<close>

definition undefined_message :: string where
  "undefined_message =
     ''Cannot read properties of undefined (reading '' @ quote @ ''message'' @ quote @ '')''"

definition error_payload :: "string \<Rightarrow> json" where
  "error_payload errorMessage = JObj [(''error'', JStr errorMessage)]"

section \<open>The agent (agent/src/agent.ts)\<close>

datatype LLMProvider = Anthropic | OpenAI

definition provider_name :: "LLMProvider \<Rightarrow> string" where
  "provider_name p = (case p of Anthropic \<Rightarrow> ''anthropic'' | OpenAI \<Rightarrow> ''openai'')"

record AgentConfig =
  cfg_model :: "string option"
  cfg_maxTokens :: "nat option"
  cfg_maxIterations :: "nat option"
  cfg_systemPrompt :: "string option"
  cfg_debug :: "bool option"
  cfg_provider :: "LLMProvider option"

record RequiredAgentConfig =
  model :: string
  maxTokens :: nat
  maxIterations :: nat
  systemPrompt :: string
  debug :: bool
  provider :: LLMProvider

record ToolCallRecord =
  rec_tool :: string
  rec_args :: json
  rec_result :: json

record AgentResult =
  success :: bool
  answer :: string
  toolCalls :: "ToolCallRecord list"
  iterations :: nat
  error :: "string option"

definition DEFAULT_SYSTEM_PROMPT :: string where
  "DEFAULT_SYSTEM_PROMPT =
     join nl
       [''Du bist ein hilfreicher KI-Assistent mit Zugriff auf verschiedene Tools.'',
        [],
        ''Deine Aufgaben:'',
        ''1. Verstehe die Anfrage des Nutzers genau'',
        ''2. Nutze die verf'' @ uuml @ ''gbaren Tools, um Informationen zu sammeln oder Aktionen auszuf''
          @ uuml @ ''hren'',
        ''3. Erkl'' @ auml @ ''re dem Nutzer, was du tust'',
        ''4. Gib eine klare, hilfreiche Antwort'',
        [],
        ''Regeln:'',
        ''- Nutze Tools nur wenn n'' @ ouml @ ''tig'',
        ''- Erkl'' @ auml @ ''re deine Schritte'',
        ''- Bei Fehlern: Versuche es anders oder erkl'' @ auml @ ''re das Problem'',
        ''- Sei pr'' @ auml @ ''zise und hilfreich'']"

text \<open>
  \<open>anthropic\<close> and \<open>openai\<close> say whether the field holds a client. \<open>agent_registry\<close>
  is the registry the agent refers to, with the content it has when the run starts; each
  run reads it once, before the loop. The agent's \<^verbatim>\<open>mcpClient\<close> is a reference to
  the shared manager and is passed to each run.
\<close>

record McpAgent =
  anthropic :: bool
  openai :: bool
  agent_provider :: LLMProvider
  agent_registry :: ToolRegistry
  config :: RequiredAgentConfig

text \<open>The constructor; \<open>hasAnthropic\<close> and \<open>hasOpenAI\<close> say whether the API keys are set
  in the environment.\<close>

definition new_McpAgent ::
  "bool \<Rightarrow> bool \<Rightarrow> ToolRegistry \<Rightarrow> AgentConfig \<Rightarrow> exn + McpAgent" where
  "new_McpAgent hasAnthropic hasOpenAI registry c =
     (let p = (case cfg_provider c of
                 Some q \<Rightarrow> q
               | None \<Rightarrow> (if hasOpenAI then OpenAI else Anthropic));
          required =
            \<lparr>model = (case cfg_model c of
                        Some x \<Rightarrow> x
                      | None \<Rightarrow> (if p = OpenAI then ''gpt-4o'' else ''claude-sonnet-4-20250514'')),
             maxTokens = (case cfg_maxTokens c of Some x \<Rightarrow> x | None \<Rightarrow> 4096),
             maxIterations = (case cfg_maxIterations c of Some x \<Rightarrow> x | None \<Rightarrow> 10),
             systemPrompt =
               (case cfg_systemPrompt c of Some x \<Rightarrow> x | None \<Rightarrow> DEFAULT_SYSTEM_PROMPT),
             debug = (case cfg_debug c of Some x \<Rightarrow> x | None \<Rightarrow> False),
             provider = p\<rparr>
      in if p = Anthropic \<and> hasAnthropic
         then Inr \<lparr>anthropic = True, openai = False, agent_provider = p,
                   agent_registry = registry, config = required\<rparr>
         else if p = OpenAI \<and> hasOpenAI
         then Inr \<lparr>anthropic = False, openai = True, agent_provider = p,
                   agent_registry = registry, config = required\<rparr>
         else Inl (NoApiKey (provider_name p)))"

text \<open>How one trip through the body of a loop ends: with the run's result, or with the
  conversation for the next iteration.\<close>

datatype 'm flow = Done AgentResult | Next 'm

subsection \<open>The loop over Anthropic\<close>

text \<open>One requested tool, inside its own \<^verbatim>\<open>try\<close>/\<^verbatim>\<open>catch\<close>: the record for
  \<^verbatim>\<open>toolCalls\<close>, the block for \<^verbatim>\<open>toolResults\<close>.\<close>

definition execToolUse ::
  "llm_sdk \<Rightarrow> mcp_sdk \<Rightarrow> McpClientManager \<Rightarrow> world \<Rightarrow> ToolUse
     \<Rightarrow> ToolCallRecord \<times> ToolResultBlockParam \<times> world" where
  "execToolUse llm sdk m w toolUse =
     (case callToolByFullName sdk m w (tu_name toolUse) (tu_input toolUse) of
        (Inr r, w1) \<Rightarrow>
          (\<lparr>rec_tool = tu_name toolUse, rec_args = tu_input toolUse, rec_result = r\<rparr>,
           \<lparr>tool_use_id = tu_id toolUse, result_content = JSON_stringify llm r,
            is_error = False\<rparr>,
           w1)
      | (Inl e, w1) \<Rightarrow>
          (\<lparr>rec_tool = tu_name toolUse, rec_args = tu_input toolUse,
            rec_result = error_payload (message e)\<rparr>,
           \<lparr>tool_use_id = tu_id toolUse,
            result_content = JSON_stringify llm (error_payload (message e)),
            is_error = True\<rparr>,
           w1))"

fun execToolUses ::
  "llm_sdk \<Rightarrow> mcp_sdk \<Rightarrow> McpClientManager \<Rightarrow> ToolCallRecord list \<Rightarrow> ToolResultBlockParam list
     \<Rightarrow> world \<Rightarrow> ToolUse list
     \<Rightarrow> ToolCallRecord list \<times> ToolResultBlockParam list \<times> world" where
  "execToolUses llm sdk m calls toolResults w [] = (calls, toolResults, w)"
| "execToolUses llm sdk m calls toolResults w (toolUse # rest) =
     (case execToolUse llm sdk m w toolUse of
        (c, r, w1) \<Rightarrow> execToolUses llm sdk m (calls @ [c]) (toolResults @ [r]) w1 rest)"

definition toolUseBlocks :: "content_block list \<Rightarrow> ToolUse list" where
  "toolUseBlocks bs = List.map_filter (\<lambda>b. case b of ToolUseBlock u \<Rightarrow> Some u | _ \<Rightarrow> None) bs"

definition textContent :: "content_block list \<Rightarrow> string option" where
  "textContent bs =
     (case filter (\<lambda>b. case b of TextBlock t \<Rightarrow> True | _ \<Rightarrow> False) bs of
        TextBlock t # _ \<Rightarrow> Some t
      | _ \<Rightarrow> None)"

text \<open>The argument of \<^verbatim>\<open>this.anthropic.messages.create\<close>.\<close>

definition anthropicRequest ::
  "RequiredAgentConfig \<Rightarrow> string \<Rightarrow> LLMTool list \<Rightarrow> MessageParam list \<Rightarrow> AnthropicRequest" where
  "anthropicRequest c sys tls msgs =
     \<lparr>a_model = model c, a_max_tokens = maxTokens c, a_system = sys,
      a_tools = Some tls, a_messages = msgs\<rparr>"

text \<open>The body of the \<^verbatim>\<open>try\<close> block: \<open>Inl\<close> is an exception on its way to the
  \<^verbatim>\<open>catch\<close>. \<open>toolCalls\<close> is changed in place, so it is returned either way.\<close>

definition tryAnthropic ::
  "llm_sdk \<Rightarrow> mcp_sdk \<Rightarrow> RequiredAgentConfig \<Rightarrow> McpClientManager \<Rightarrow> string \<Rightarrow> LLMTool list
     \<Rightarrow> MessageParam list \<Rightarrow> ToolCallRecord list \<Rightarrow> nat \<Rightarrow> world
     \<Rightarrow> (exn + MessageParam list flow) \<times> ToolCallRecord list \<times> world" where
  "tryAnthropic llm sdk c m sys tls msgs calls its w =
     (case messages_create llm w (anthropicRequest c sys tls msgs) of
        Inl e \<Rightarrow> (Inl (Thrown e), calls, llm_called w)
      | Inr response \<Rightarrow>
         (let w1 = llm_called w in
          if stop_reason response = end_turn
          then (Inr (Done \<lparr>success = True,
                           answer = (case textContent (content response) of
                                       Some t \<Rightarrow> t
                                     | None \<Rightarrow> ''Keine Antwort generiert.''),
                           toolCalls = calls, iterations = its, error = None\<rparr>),
                calls, w1)
          else if stop_reason response = tool_use
          then (case execToolUses llm sdk m calls [] w1 (toolUseBlocks (content response)) of
                  (calls1, toolResults, w2) \<Rightarrow>
                    (Inr (Next (msgs @ [AssistantContent (content response),
                                        UserToolResults toolResults])),
                     calls1, w2))
          else (Inr (Next msgs), calls, w1)))"

function loopAnthropic ::
  "llm_sdk \<Rightarrow> mcp_sdk \<Rightarrow> RequiredAgentConfig \<Rightarrow> McpClientManager \<Rightarrow> string \<Rightarrow> LLMTool list
     \<Rightarrow> MessageParam list \<Rightarrow> ToolCallRecord list \<Rightarrow> nat \<Rightarrow> world \<Rightarrow> AgentResult \<times> world" where
  "loopAnthropic llm sdk c m sys tls msgs calls its w =
     (if its < maxIterations c
      then (case tryAnthropic llm sdk c m sys tls msgs calls (its + 1) w of
              (Inl e, calls1, w1) \<Rightarrow>
                (\<lparr>success = False,
                  answer = ''Fehler w'' @ auml @ ''hrend der Agent-Ausf'' @ uuml @ ''hrung: ''
                           @ message e,
                  toolCalls = calls1, iterations = its + 1, error = Some (message e)\<rparr>,
                 w1)
            | (Inr (Done r), calls1, w1) \<Rightarrow> (r, w1)
            | (Inr (Next msgs1), calls1, w1) \<Rightarrow>
                loopAnthropic llm sdk c m sys tls msgs1 calls1 (its + 1) w1)
      else (\<lparr>success = False,
             answer = ''Maximale Anzahl an Iterationen ('' @ string_of_nat (maxIterations c)
                      @ '') erreicht.'',
             toolCalls = calls, iterations = its, error = Some ''Max iterations reached''\<rparr>,
            w))"
  by pat_completeness auto
termination
  by (relation "measure (\<lambda>(llm, sdk, c, m, sys, tls, msgs, calls, its, w). maxIterations c - its)")
     auto

declare loopAnthropic.simps [simp del]

definition runWithAnthropic ::
  "llm_sdk \<Rightarrow> mcp_sdk \<Rightarrow> McpAgent \<Rightarrow> McpClientManager \<Rightarrow> world \<Rightarrow> string
     \<Rightarrow> AgentContext option \<Rightarrow> (exn + AgentResult) \<times> world" where
  "runWithAnthropic llm sdk ag m w userPrompt ctx =
     (if \<not> anthropic ag then (Inl AnthropicNotInitialised, w)
      else
        (let sys = systemPrompt (config ag)
                   @ (case ctx of
                        None \<Rightarrow> []
                      | Some c \<Rightarrow> fst (buildContextSection (JSON_stringify llm) c))
         in (case loopAnthropic llm sdk (config ag) m sys (getForLLM (agent_registry ag))
                    [UserText userPrompt] [] 0 w of
               (r, w1) \<Rightarrow> (Inr r, w1))))"

subsection \<open>The loop over OpenAI\<close>

text \<open>The requested tools of one response. \<^verbatim>\<open>JSON.parse\<close> of the arguments stands
  before the inner \<^verbatim>\<open>try\<close>: when it throws, the exception leaves the \<^verbatim>\<open>for\<close> loop.\<close>

fun execToolCalls ::
  "llm_sdk \<Rightarrow> mcp_sdk \<Rightarrow> McpClientManager \<Rightarrow> ChatParam list \<Rightarrow> ToolCallRecord list \<Rightarrow> world
     \<Rightarrow> ToolCall list \<Rightarrow> (exn + ChatParam list) \<times> ToolCallRecord list \<times> world" where
  "execToolCalls llm sdk m msgs calls w [] = (Inr msgs, calls, w)"
| "execToolCalls llm sdk m msgs calls w (toolCall # rest) =
     (case JSON_parse llm (tc_arguments toolCall) of
        Inl e \<Rightarrow> (Inl (Thrown e), calls, w)
      | Inr a \<Rightarrow>
         (case callToolByFullName sdk m w (tc_name toolCall) a of
            (Inr r, w1) \<Rightarrow>
              execToolCalls llm sdk m
                (msgs @ [ToolMsg (tc_id toolCall) (JSON_stringify llm r)])
                (calls @ [\<lparr>rec_tool = tc_name toolCall, rec_args = a, rec_result = r\<rparr>])
                w1 rest
          | (Inl e, w1) \<Rightarrow>
              execToolCalls llm sdk m
                (msgs @ [ToolMsg (tc_id toolCall)
                           (JSON_stringify llm (error_payload (message e)))])
                (calls @ [\<lparr>rec_tool = tc_name toolCall, rec_args = a,
                           rec_result = error_payload (message e)\<rparr>])
                w1 rest))"

text \<open>The argument of \<^verbatim>\<open>this.openai.chat.completions.create\<close>.\<close>

definition openaiRequest ::
  "RequiredAgentConfig \<Rightarrow> LLMTool list \<Rightarrow> ChatParam list \<Rightarrow> OpenAIRequest" where
  "openaiRequest c tls msgs =
     \<lparr>o_model = model c, o_max_tokens = Some (maxTokens c), o_messages = msgs,
      o_tools = (if length tls > 0 then Some tls else None),
      o_tool_choice = None\<rparr>"

definition tryOpenAI ::
  "llm_sdk \<Rightarrow> mcp_sdk \<Rightarrow> RequiredAgentConfig \<Rightarrow> McpClientManager \<Rightarrow> LLMTool list
     \<Rightarrow> ChatParam list \<Rightarrow> ToolCallRecord list \<Rightarrow> nat \<Rightarrow> world
     \<Rightarrow> (exn + ChatParam list flow) \<times> ToolCallRecord list \<times> world" where
  "tryOpenAI llm sdk c m tls msgs calls its w =
     (case chat_completions_create llm w (openaiRequest c tls msgs) of
        Inl e \<Rightarrow> (Inl (Thrown e), calls, llm_called w)
      | Inr response \<Rightarrow>
         (let w1 = llm_called w in
          (case choices response of
             [] \<Rightarrow> (Inl (Thrown undefined_message), calls, w1)
           | choice # _ \<Rightarrow>
              (let msg = choice_message choice in
               if finish_reason choice = ''stop'' \<or> tool_calls msg = None
               then (Inr (Done \<lparr>success = True,
                                answer = (case msg_content msg of
                                            Some t \<Rightarrow> t
                                          | None \<Rightarrow> ''Keine Antwort generiert.''),
                                toolCalls = calls, iterations = its, error = None\<rparr>),
                     calls, w1)
               else if length (the (tool_calls msg)) > 0
               then (case execToolCalls llm sdk m (msgs @ [AssistantMsg msg]) calls w1
                            (the (tool_calls msg)) of
                       (Inl e, calls1, w2) \<Rightarrow> (Inl e, calls1, w2)
                     | (Inr msgs1, calls1, w2) \<Rightarrow> (Inr (Next msgs1), calls1, w2))
               else (Inr (Next msgs), calls, w1)))))"

function loopOpenAI ::
  "llm_sdk \<Rightarrow> mcp_sdk \<Rightarrow> RequiredAgentConfig \<Rightarrow> McpClientManager \<Rightarrow> LLMTool list
     \<Rightarrow> ChatParam list \<Rightarrow> ToolCallRecord list \<Rightarrow> nat \<Rightarrow> world \<Rightarrow> AgentResult \<times> world" where
  "loopOpenAI llm sdk c m tls msgs calls its w =
     (if its < maxIterations c
      then (case tryOpenAI llm sdk c m tls msgs calls (its + 1) w of
              (Inl e, calls1, w1) \<Rightarrow>
                (\<lparr>success = False, answer = ''Fehler: '' @ message e,
                  toolCalls = calls1, iterations = its + 1, error = Some (message e)\<rparr>,
                 w1)
            | (Inr (Done r), calls1, w1) \<Rightarrow> (r, w1)
            | (Inr (Next msgs1), calls1, w1) \<Rightarrow>
                loopOpenAI llm sdk c m tls msgs1 calls1 (its + 1) w1)
      else (\<lparr>success = False,
             answer = ''Maximale Iterationen ('' @ string_of_nat (maxIterations c)
                      @ '') erreicht.'',
             toolCalls = calls, iterations = its, error = Some ''Max iterations reached''\<rparr>,
            w))"
  by pat_completeness auto
termination
  by (relation "measure (\<lambda>(llm, sdk, c, m, tls, msgs, calls, its, w). maxIterations c - its)")
     auto

declare loopOpenAI.simps [simp del]

definition runWithOpenAI ::
  "llm_sdk \<Rightarrow> mcp_sdk \<Rightarrow> McpAgent \<Rightarrow> McpClientManager \<Rightarrow> world \<Rightarrow> string
     \<Rightarrow> AgentContext option \<Rightarrow> (exn + AgentResult) \<times> world" where
  "runWithOpenAI llm sdk ag m w userPrompt ctx =
     (if \<not> openai ag then (Inl OpenAINotInitialised, w)
      else
        (let sys = systemPrompt (config ag)
                   @ (case ctx of
                        None \<Rightarrow> []
                      | Some c \<Rightarrow> fst (buildContextSection (JSON_stringify llm) c))
         in (case loopOpenAI llm sdk (config ag) m (getForLLM (agent_registry ag))
                    [SystemMsg sys, UserMsg userPrompt] [] 0 w of
               (r, w1) \<Rightarrow> (Inr r, w1))))"

definition run ::
  "llm_sdk \<Rightarrow> mcp_sdk \<Rightarrow> McpAgent \<Rightarrow> McpClientManager \<Rightarrow> world \<Rightarrow> string
     \<Rightarrow> AgentContext option \<Rightarrow> (exn + AgentResult) \<times> world" where
  "run llm sdk ag m w userPrompt ctx =
     (if agent_provider ag = OpenAI then runWithOpenAI llm sdk ag m w userPrompt ctx
      else runWithAnthropic llm sdk ag m w userPrompt ctx)"

section \<open>The extension's bridge: the agent loops (extension/src/bridge.ts)\<close>

definition bridge_tools :: "AgentBridge \<Rightarrow> LLMTool list" where
  "bridge_tools b =
     map (\<lambda>t. \<lparr>llm_name = namespaced (serverName t) (tool_name t),
                llm_description =
                  (case tool_description t of None \<Rightarrow> tool_name t | Some d \<Rightarrow> d),
                input_schema = inputSchema t\<rparr>)
         (allTools b)"

text \<open>One requested tool of the OpenAI loop: parsing the arguments and the call are both
  inside the \<^verbatim>\<open>try\<close>; empty arguments are read as \<^verbatim>\<open>"{}"\<close>.\<close>

definition bridge_execToolCall ::
  "llm_sdk \<Rightarrow> mcp_sdk \<Rightarrow> AgentBridge \<Rightarrow> world \<Rightarrow> ToolCall \<Rightarrow> ChatParam \<times> world" where
  "bridge_execToolCall llm sdk b w toolCall =
     (case JSON_parse llm (if tc_arguments toolCall = [] then ''{}'' else tc_arguments toolCall) of
        Inl e \<Rightarrow> (ToolMsg (tc_id toolCall) (JSON_stringify llm (error_payload e)), w)
      | Inr a \<Rightarrow>
         (case bridge_callTool sdk b w (tc_name toolCall) a of
            (Inr r, w1) \<Rightarrow> (ToolMsg (tc_id toolCall) (JSON_stringify llm r), w1)
          | (Inl e, w1) \<Rightarrow>
              (ToolMsg (tc_id toolCall) (JSON_stringify llm (error_payload (message e))), w1)))"

fun bridge_execToolCalls ::
  "llm_sdk \<Rightarrow> mcp_sdk \<Rightarrow> AgentBridge \<Rightarrow> ChatParam list \<Rightarrow> world \<Rightarrow> ToolCall list
     \<Rightarrow> ChatParam list \<times> world" where
  "bridge_execToolCalls llm sdk b msgs w [] = (msgs, w)"
| "bridge_execToolCalls llm sdk b msgs w (toolCall # rest) =
     (case bridge_execToolCall llm sdk b w toolCall of
        (r, w1) \<Rightarrow> bridge_execToolCalls llm sdk b (msgs @ [r]) w1 rest)"

definition bridge_openaiRequest :: "AgentBridge \<Rightarrow> ChatParam list \<Rightarrow> OpenAIRequest" where
  "bridge_openaiRequest b msgs =
     \<lparr>o_model = (case bridge_model (bridge_config b) of Some x \<Rightarrow> x | None \<Rightarrow> ''gpt-4o''),
      o_max_tokens = None, o_messages = msgs,
      o_tools = (if length (bridge_tools b) > 0 then Some (bridge_tools b) else None),
      o_tool_choice = (if length (bridge_tools b) > 0 then Some ''auto'' else None)\<rparr>"

function bridge_loopOpenAI ::
  "llm_sdk \<Rightarrow> mcp_sdk \<Rightarrow> AgentBridge \<Rightarrow> ChatParam list \<Rightarrow> nat \<Rightarrow> world
     \<Rightarrow> (exn + string) \<times> world" where
  "bridge_loopOpenAI llm sdk b msgs its w =
     (if its < 10
      then (case chat_completions_create llm w (bridge_openaiRequest b msgs) of
              Inl e \<Rightarrow> (Inl (Thrown e), llm_called w)
            | Inr response \<Rightarrow>
               (case choices response of
                  [] \<Rightarrow> (Inl (Thrown undefined_message), llm_called w)
                | choice # _ \<Rightarrow>
                   (if finish_reason choice = ''stop''
                       \<or> \<not> has_length (tool_calls (choice_message choice))
                    then (Inr (case msg_content (choice_message choice) of
                                 Some t \<Rightarrow> t
                               | None \<Rightarrow> ''Keine Antwort generiert.''),
                          llm_called w)
                    else (case bridge_execToolCalls llm sdk b
                                 (msgs @ [AssistantMsg (choice_message choice)])
                                 (llm_called w)
                                 (the (tool_calls (choice_message choice))) of
                            (msgs1, w1) \<Rightarrow>
                              bridge_loopOpenAI llm sdk b msgs1 (its + 1) w1))))
      else (Inr ''Maximale Iterationen erreicht.'', w))"
  by pat_completeness auto
termination
  by (relation "measure (\<lambda>(llm, sdk, b, msgs, its, w). 10 - its)") auto

declare bridge_loopOpenAI.simps [simp del]

definition bridge_runWithOpenAI ::
  "llm_sdk \<Rightarrow> mcp_sdk \<Rightarrow> AgentBridge \<Rightarrow> world \<Rightarrow> string \<Rightarrow> BridgeContext
     \<Rightarrow> (exn + string) \<times> world" where
  "bridge_runWithOpenAI llm sdk b w prompt ctx =
     (case buildSystemPrompt b ctx of
        (sys, b1, ctx1) \<Rightarrow>
          bridge_loopOpenAI llm sdk b1 [SystemMsg sys, UserMsg prompt] 0 w)"

text \<open>One requested tool of the Anthropic loop.\<close>

definition bridge_execToolUse ::
  "llm_sdk \<Rightarrow> mcp_sdk \<Rightarrow> AgentBridge \<Rightarrow> world \<Rightarrow> ToolUse \<Rightarrow> ToolResultBlockParam \<times> world" where
  "bridge_execToolUse llm sdk b w toolUse =
     (case bridge_callTool sdk b w (tu_name toolUse) (tu_input toolUse) of
        (Inr r, w1) \<Rightarrow>
          (\<lparr>tool_use_id = tu_id toolUse, result_content = JSON_stringify llm r,
            is_error = False\<rparr>, w1)
      | (Inl e, w1) \<Rightarrow>
          (\<lparr>tool_use_id = tu_id toolUse,
            result_content = JSON_stringify llm (error_payload (message e)),
            is_error = True\<rparr>, w1))"

fun bridge_execToolUses ::
  "llm_sdk \<Rightarrow> mcp_sdk \<Rightarrow> AgentBridge \<Rightarrow> ToolResultBlockParam list \<Rightarrow> world \<Rightarrow> ToolUse list
     \<Rightarrow> ToolResultBlockParam list \<times> world" where
  "bridge_execToolUses llm sdk b toolResults w [] = (toolResults, w)"
| "bridge_execToolUses llm sdk b toolResults w (toolUse # rest) =
     (case bridge_execToolUse llm sdk b w toolUse of
        (r, w1) \<Rightarrow> bridge_execToolUses llm sdk b (toolResults @ [r]) w1 rest)"

definition bridge_anthropicRequest ::
  "AgentBridge \<Rightarrow> string \<Rightarrow> MessageParam list \<Rightarrow> AnthropicRequest" where
  "bridge_anthropicRequest b sys msgs =
     \<lparr>a_model = (case bridge_model (bridge_config b) of
                   Some x \<Rightarrow> x | None \<Rightarrow> ''claude-sonnet-4-20250514''),
      a_max_tokens = 4096, a_system = sys,
      a_tools = (if length (bridge_tools b) > 0 then Some (bridge_tools b) else None),
      a_messages = msgs\<rparr>"

function bridge_loopAnthropic ::
  "llm_sdk \<Rightarrow> mcp_sdk \<Rightarrow> AgentBridge \<Rightarrow> string \<Rightarrow> MessageParam list \<Rightarrow> nat \<Rightarrow> world
     \<Rightarrow> (exn + string) \<times> world" where
  "bridge_loopAnthropic llm sdk b sys msgs its w =
     (if its < 10
      then (case messages_create llm w (bridge_anthropicRequest b sys msgs) of
              Inl e \<Rightarrow> (Inl (Thrown e), llm_called w)
            | Inr response \<Rightarrow>
               (if stop_reason response = end_turn
                then (Inr (case textContent (content response) of
                             Some t \<Rightarrow> t
                           | None \<Rightarrow> ''Keine Antwort generiert.''),
                      llm_called w)
                else if stop_reason response = tool_use
                then (case bridge_execToolUses llm sdk b [] (llm_called w)
                             (toolUseBlocks (content response)) of
                        (toolResults, w1) \<Rightarrow>
                          bridge_loopAnthropic llm sdk b sys
                            (msgs @ [AssistantContent (content response),
                                     UserToolResults toolResults])
                            (its + 1) w1)
                else bridge_loopAnthropic llm sdk b sys msgs (its + 1) (llm_called w)))
      else (Inr ''Maximale Iterationen erreicht.'', w))"
  by pat_completeness auto
termination
  by (relation "measure (\<lambda>(llm, sdk, b, sys, msgs, its, w). 10 - its)") auto

declare bridge_loopAnthropic.simps [simp del]

definition bridge_runWithAnthropic ::
  "llm_sdk \<Rightarrow> mcp_sdk \<Rightarrow> AgentBridge \<Rightarrow> world \<Rightarrow> string \<Rightarrow> BridgeContext
     \<Rightarrow> (exn + string) \<times> world" where
  "bridge_runWithAnthropic llm sdk b w prompt ctx =
     (case buildSystemPrompt b ctx of
        (sys, b1, ctx1) \<Rightarrow>
          bridge_loopAnthropic llm sdk b1 sys [UserText prompt] 0 w)"

definition runAgent ::
  "llm_sdk \<Rightarrow> mcp_sdk \<Rightarrow> AgentBridge \<Rightarrow> world \<Rightarrow> string \<Rightarrow> BridgeContext
     \<Rightarrow> (exn + string) \<times> world" where
  "runAgent llm sdk b w prompt ctx =
     (if bridge_provider (bridge_config b) = P_openai \<and> openai_ready b
      then bridge_runWithOpenAI llm sdk b w prompt ctx
      else if anthropic_ready b
      then bridge_runWithAnthropic llm sdk b w prompt ctx
      else (Inl NoProviderInitialised, w))"

section \<open>Example data\<close>

definition add_tool :: Tool where
  "add_tool = \<lparr>tool_name = ''add'', tool_description = Some ''Adds two numbers'',
               inputSchema = JObj []\<rparr>"

definition demo_config :: ServerConfig where
  "demo_config = \<lparr>transport = Stdio, command = Some ''python'', args = Some [''server.py''],
                  url = None, description = None\<rparr>"

definition world0 :: world where
  "world0 = \<lparr>live = [], spawned = 0, sent = [], completions = 0\<rparr>"

text \<open>Backends that always start, list one tool and answer every call with \<open>8\<close>.\<close>

definition demo_sdk :: mcp_sdk where
  "demo_sdk =
     \<lparr>client_connect = (\<lambda>w cmd a. None),
      listTools = (\<lambda>w h. Inr [add_tool]),
      listResources = (\<lambda>w h. Inr []),
      client_callTool = (\<lambda>w h t a. Inr (JNum 8)),
      client_close = (\<lambda>w h. None)\<rparr>"

definition manager0 :: McpClientManager where
  "manager0 = \<lparr>connections = []\<rparr>"

definition bridge0 :: AgentBridge where
  "bridge0 =
     \<lparr>anthropic_ready = False, openai_ready = True, bridge_connections = [],
      bridge_config = \<lparr>bridge_provider = P_openai, openaiApiKey = Some ''sk-1'',
                       anthropicApiKey = None, bridge_model = None, activeServers = None\<rparr>,
      allTools = [],
      serversConfig = Some \<lparr>servers = [(''demo'', demo_config)],
                             defaults_activeServers = None\<rparr>\<rparr>"

text \<open>The same with Anthropic as the configured provider.\<close>

definition bridge_claude :: AgentBridge where
  "bridge_claude =
     \<lparr>anthropic_ready = True, openai_ready = False, bridge_connections = [],
      bridge_config = \<lparr>bridge_provider = P_anthropic, openaiApiKey = None,
                       anthropicApiKey = Some ''sk-2'', bridge_model = None,
                       activeServers = None\<rparr>,
      allTools = [],
      serversConfig = Some \<lparr>servers = [(''demo'', demo_config)],
                             defaults_activeServers = None\<rparr>\<rparr>"

text \<open>The world after one backend was started for \<open>demo\<close>.\<close>

definition world1 :: world where
  "world1 = \<lparr>live = [(0, ''demo'')], spawned = 1, sent = [], completions = 0\<rparr>"

text \<open>A stand-in for \<^verbatim>\<open>JSON.stringify\<close> that is right on the empty object, on natural
  numbers and on an object with one string member that needs no escaping, and one for
  \<^verbatim>\<open>JSON.parse\<close> that accepts the empty object only.\<close>

definition stringify0 :: "json \<Rightarrow> string" where
  "stringify0 j =
     (case j of
        JObj [] \<Rightarrow> ''{}''
      | JObj [(k, JStr v)] \<Rightarrow>
          ''{'' @ dquote @ k @ dquote @ '':'' @ dquote @ v @ dquote @ ''}''
      | JNum n \<Rightarrow> string_of_nat (nat n)
      | _ \<Rightarrow> ''null'')"

definition parse0 :: "string \<Rightarrow> string + json" where
  "parse0 s = (if s = ''{}'' then Inr (JObj []) else Inl ''Unexpected end of JSON input'')"

text \<open>A provider that asks for a tool of a backend nobody connected, every time.\<close>

definition looping_llm :: llm_sdk where
  "looping_llm =
     \<lparr>messages_create =
        (\<lambda>w r. Inr \<lparr>stop_reason = tool_use,
                       content = [ToolUseBlock \<lparr>tu_id = ''t1'', tu_name = ''ghost__tool'',
                                                tu_input = JObj []\<rparr>]\<rparr>),
      chat_completions_create =
        (\<lambda>w r. Inr \<lparr>choices =
                        [\<lparr>finish_reason = ''tool_calls'',
                          choice_message =
                            \<lparr>msg_content = None,
                             tool_calls = Some [\<lparr>tc_id = ''c1'', tc_name = ''ghost__tool'',
                                                 tc_arguments = ''{}''\<rparr>]\<rparr>\<rparr>]\<rparr>),
      JSON_stringify = stringify0,
      JSON_parse = parse0\<rparr>"

text \<open>A provider whose every request is rejected.\<close>

definition failing_llm :: llm_sdk where
  "failing_llm =
     \<lparr>messages_create = (\<lambda>w r. Inl ''401 Unauthorized''),
      chat_completions_create = (\<lambda>w r. Inl ''401 Unauthorized''),
      JSON_stringify = stringify0,
      JSON_parse = parse0\<rparr>"

text \<open>A response that asks for three tools at once; the arguments of the second are not
  JSON. And a provider that gives this response.\<close>

definition three_requests :: OpenAIResponse where
  "three_requests =
     \<lparr>choices =
        [\<lparr>finish_reason = ''tool_calls'',
          choice_message =
            \<lparr>msg_content = None,
             tool_calls =
               Some [\<lparr>tc_id = ''c1'', tc_name = ''demo__add'', tc_arguments = ''{}''\<rparr>,
                     \<lparr>tc_id = ''c2'', tc_name = ''demo__add'', tc_arguments = ''{''\<rparr>,
                     \<lparr>tc_id = ''c3'', tc_name = ''demo__add'', tc_arguments = ''{}''\<rparr>]\<rparr>\<rparr>]\<rparr>"

definition malformed_llm :: llm_sdk where
  "malformed_llm =
     \<lparr>messages_create = (\<lambda>w r. Inl ''401 Unauthorized''),
      chat_completions_create = (\<lambda>w r. Inr three_requests),
      JSON_stringify = stringify0,
      JSON_parse = parse0\<rparr>"

definition default_config :: AgentConfig where
  "default_config =
     \<lparr>cfg_model = None, cfg_maxTokens = None, cfg_maxIterations = None,
      cfg_systemPrompt = None, cfg_debug = None, cfg_provider = None\<rparr>"

text \<open>The agents the constructor builds from the default configuration when only one API
  key is set.\<close>

definition anthropic_agent :: McpAgent where
  "anthropic_agent =
     \<lparr>anthropic = True, openai = False, agent_provider = Anthropic,
      agent_registry = new_ToolRegistry,
      config = \<lparr>model = ''claude-sonnet-4-20250514'', maxTokens = 4096, maxIterations = 10,
                systemPrompt = DEFAULT_SYSTEM_PROMPT, debug = False, provider = Anthropic\<rparr>\<rparr>"

definition openai_agent :: McpAgent where
  "openai_agent =
     \<lparr>anthropic = False, openai = True, agent_provider = OpenAI,
      agent_registry = new_ToolRegistry,
      config = \<lparr>model = ''gpt-4o'', maxTokens = 4096, maxIterations = 10,
                systemPrompt = DEFAULT_SYSTEM_PROMPT, debug = False, provider = OpenAI\<rparr>\<rparr>"

definition context_a :: AgentContext where
  "context_a = \<lparr>workspaceFolders = Some [''/work''], openFiles = None, currentFile = None,
                 selection = None, customContext = None\<rparr>"

definition context_b :: AgentContext where
  "context_b = context_a\<lparr>customContext := Some (JObj [])\<rparr>"

text \<open>A context that differs from \<open>context_a\<close> in four fields, all of them empty or
  falsy.\<close>

definition context_c :: AgentContext where
  "context_c = \<lparr>workspaceFolders = Some [''/work''], openFiles = Some [],
                 currentFile = Some [], selection = None, customContext = Some JNull\<rparr>"

definition bridge_context0 :: BridgeContext where
  "bridge_context0 = \<lparr>bc_workspaceFolders = [''/work''], bc_openFiles = [],
                       bc_currentFile = None, bc_selection = None\<rparr>"

text \<open>The requests of \<open>looping_llm\<close>.\<close>

definition ghost_use :: ToolUse where
  "ghost_use = \<lparr>tu_id = ''t1'', tu_name = ''ghost__tool'', tu_input = JObj []\<rparr>"

definition ghost_call :: ToolCall where
  "ghost_call = \<lparr>tc_id = ''c1'', tc_name = ''ghost__tool'', tc_arguments = ''{}''\<rparr>"

text \<open>Two contexts of the bridge that differ in the sixth open file only.\<close>

definition six_files_a :: BridgeContext where
  "six_files_a =
     bridge_context0\<lparr>bc_openFiles := [''a.ts'', ''b.ts'', ''c.ts'', ''d.ts'', ''e.ts'', ''f.ts'']\<rparr>"

definition six_files_b :: BridgeContext where
  "six_files_b =
     bridge_context0\<lparr>bc_openFiles := [''a.ts'', ''b.ts'', ''c.ts'', ''d.ts'', ''e.ts'', ''g.ts'']\<rparr>"

text \<open>
  A provider that asks for the tool of the unconnected backend first and, once the
  conversation ends with a tool result, answers with the content of that result.
\<close>

definition recovering_llm :: llm_sdk where
  "recovering_llm =
     \<lparr>messages_create =
        (\<lambda>w r. (case last (a_messages r) of
                    UserToolResults (t # ts) \<Rightarrow>
                      Inr \<lparr>stop_reason = end_turn, content = [TextBlock (result_content t)]\<rparr>
                  | _ \<Rightarrow>
                      Inr \<lparr>stop_reason = tool_use, content = [ToolUseBlock ghost_use]\<rparr>)),
      chat_completions_create =
        (\<lambda>w r. (case last (o_messages r) of
                    ToolMsg i c \<Rightarrow>
                      Inr \<lparr>choices =
                             [\<lparr>finish_reason = ''stop'',
                               choice_message = \<lparr>msg_content = Some c, tool_calls = None\<rparr>\<rparr>]\<rparr>
                  | _ \<Rightarrow>
                      Inr \<lparr>choices =
                             [\<lparr>finish_reason = ''tool_calls'',
                               choice_message =
                                 \<lparr>msg_content = None, tool_calls = Some [ghost_call]\<rparr>\<rparr>]\<rparr>)),
      JSON_stringify = stringify0,
      JSON_parse = parse0\<rparr>"

text \<open>A provider that answers at once with the names of the tools it was offered.\<close>

definition echo_llm :: llm_sdk where
  "echo_llm =
     \<lparr>messages_create =
        (\<lambda>w r. Inr \<lparr>stop_reason = end_turn,
                       content = [TextBlock (join '', ''
                                    (map llm_name (case a_tools r of None \<Rightarrow> [] | Some ts \<Rightarrow> ts)))]\<rparr>),
      chat_completions_create = (\<lambda>w r. Inl ''401 Unauthorized''),
      JSON_stringify = stringify0,
      JSON_parse = parse0\<rparr>"

text \<open>The agent that \<^verbatim>\<open>main\<close> builds after \<open>demo\<close> was connected.\<close>

definition demo_agent :: McpAgent where
  "demo_agent =
     anthropic_agent\<lparr>agent_registry :=
       main_registry (fst (snd (connectStdio demo_sdk manager0 world0 ''demo'' demo_config)))\<rparr>"

section \<open>Notions the properties are stated with\<close>

text \<open>\<^verbatim>\<open>s.includes("__")\<close>: the separator occurs in the string.\<close>

fun contains_sep :: "string \<Rightarrow> bool" where
  "contains_sep (c # d # cs) = ((c = CHR ''_'' \<and> d = CHR ''_'') \<or> contains_sep (d # cs))"
| "contains_sep cs = False"

text \<open>The manager after \<^verbatim>\<open>connectStdio("demo", ...)\<close>, and after connecting a backend
  whose name ends in an underscore.\<close>

definition demo_manager :: McpClientManager where
  "demo_manager = fst (snd (connectStdio demo_sdk manager0 world0 ''demo'' demo_config))"

definition trailing_manager :: McpClientManager where
  "trailing_manager = fst (snd (connectStdio demo_sdk manager0 world0 ''dev_'' demo_config))"

text \<open>The bridge after \<^verbatim>\<open>connectServer("demo", ...)\<close>.\<close>

definition bridge_demo :: AgentBridge where
  "bridge_demo = fst (snd (connectServer demo_sdk bridge0 world0 ''demo'' demo_config))"

text \<open>A full name is rejected when its first segment is empty or its second segment is
  missing or empty.\<close>

definition invalid_full_name :: "string \<Rightarrow> bool" where
  "invalid_full_name f =
     (case js_split f of a # b # rest \<Rightarrow> a = [] \<or> b = [] | _ \<Rightarrow> True)"

text \<open>The bridge's stored tool list agrees with its connections.\<close>

definition catalog_consistent :: "AgentBridge \<Rightarrow> bool" where
  "catalog_consistent b = (allTools b = bridge_catalog (bridge_connections b))"

text \<open>A provider that never gives a final answer: every request resolves, and the response
  neither ends the turn (Anthropic) nor stops or comes without tool calls (OpenAI); the
  arguments of the requested tools are JSON.\<close>

definition never_final_anthropic :: "llm_sdk \<Rightarrow> bool" where
  "never_final_anthropic llm =
     (\<forall>w r. \<exists>response. messages_create llm w r = Inr response
                        \<and> stop_reason response \<noteq> end_turn)"

definition never_final_openai :: "llm_sdk \<Rightarrow> bool" where
  "never_final_openai llm =
     (\<forall>w r. \<exists>response choice rest tcs.
        chat_completions_create llm w r = Inr response
        \<and> choices response = choice # rest
        \<and> finish_reason choice \<noteq> ''stop''
        \<and> tool_calls (choice_message choice) = Some tcs
        \<and> (\<forall>tc \<in> set tcs. \<exists>a. JSON_parse llm (tc_arguments tc) = Inr a))"

definition never_final :: "llm_sdk \<Rightarrow> LLMProvider \<Rightarrow> bool" where
  "never_final llm p =
     (case p of Anthropic \<Rightarrow> never_final_anthropic llm | OpenAI \<Rightarrow> never_final_openai llm)"

definition limit_answer :: "LLMProvider \<Rightarrow> nat \<Rightarrow> string" where
  "limit_answer p k =
     (case p of
        Anthropic \<Rightarrow> ''Maximale Anzahl an Iterationen ('' @ string_of_nat k @ '') erreicht.''
      | OpenAI \<Rightarrow> ''Maximale Iterationen ('' @ string_of_nat k @ '') erreicht.'')"

text \<open>The ids of the tool messages of a conversation, in order.\<close>

fun tool_call_ids :: "ChatParam list \<Rightarrow> string list" where
  "tool_call_ids [] = []"
| "tool_call_ids (ToolMsg i c # ps) = i # tool_call_ids ps"
| "tool_call_ids (p # ps) = tool_call_ids ps"

text \<open>
  What the renderings read. Of the agent's context: the two lists, a missing list counting
  as the empty one; the two strings, a missing string counting as the empty one; and the
  custom context unless it is falsy. Of the bridge and its context: the workspace folders,
  the first five open files, the two strings, the names of the connected backends and the
  number of tools in the bridge's list.
\<close>

definition context_inputs ::
  "AgentContext \<Rightarrow> string list \<times> string list \<times> string \<times> string \<times> json option" where
  "context_inputs c =
     (case workspaceFolders c of None \<Rightarrow> [] | Some xs \<Rightarrow> xs,
      case openFiles c of None \<Rightarrow> [] | Some xs \<Rightarrow> xs,
      case currentFile c of None \<Rightarrow> [] | Some s \<Rightarrow> s,
      case selection c of None \<Rightarrow> [] | Some s \<Rightarrow> s,
      if falsy_value (customContext c) then None else customContext c)"

definition bridge_inputs ::
  "AgentBridge \<Rightarrow> BridgeContext
     \<Rightarrow> string list \<times> string list \<times> string \<times> string \<times> string list \<times> nat" where
  "bridge_inputs b c =
     (bc_workspaceFolders c,
      take 5 (bc_openFiles c),
      case bc_currentFile c of None \<Rightarrow> [] | Some s \<Rightarrow> s,
      case bc_selection c of None \<Rightarrow> [] | Some s \<Rightarrow> s,
      map_keys (bridge_connections b),
      length (allTools b))"

section \<open>Properties of the built-ins\<close>

lemma js_split_nonempty: "js_split s \<noteq> []"
  by (induction s rule: js_split.induct) (auto split: list.splits)

lemma join_cons: "ws \<noteq> [] \<Longrightarrow> join sep (w # ws) = w @ sep @ join sep ws"
  by (cases ws) auto

text \<open>\<^verbatim>\<open>s.split("__").join("__") === s\<close>.\<close>

lemma join_js_split: "join ''__'' (js_split s) = s"
proof (induction s rule: js_split.induct)
  case 1
  then show ?case by simp
next
  case (2 c)
  then show ?case by simp
next
  case (3 c d cs)
  show ?case
  proof (cases "c = CHR ''_'' \<and> d = CHR ''_''")
    case True
    then show ?thesis using 3 by (simp add: join_cons js_split_nonempty)
  next
    case False
    obtain w ws where sp: "js_split (d # cs) = w # ws"
      using js_split_nonempty[of "d # cs"] by (cases "js_split (d # cs)") auto
    have "join ''__'' ((c # w) # ws) = c # join ''__'' (w # ws)"
      by (cases ws) auto
    then show ?thesis using 3(2) False sp by auto
  qed
qed

lemma js_split_no_sep: "\<not> contains_sep t \<Longrightarrow> js_split t = [t]"
  by (induction t rule: js_split.induct) (auto split: list.splits)

lemma js_split_append:
  "\<not> contains_sep s \<Longrightarrow> s = [] \<or> last s \<noteq> CHR ''_'' \<Longrightarrow>
   js_split (s @ ''__'' @ t) = s # js_split t"
proof (induction s rule: js_split.induct)
  case 1
  then show ?case by simp
next
  case (2 c)
  then show ?case by (auto split: list.splits simp: js_split_nonempty)
next
  case (3 c d cs)
  then show ?case by (auto split: list.splits simp: js_split_nonempty)
qed

text \<open>\<open>contains_sep\<close> says that the separator occurs, and no segment of a split contains
  it.\<close>

lemma contains_sep_iff: "contains_sep s \<longleftrightarrow> (\<exists>u v. s = u @ ''__'' @ v)"
proof (induction s rule: contains_sep.induct)
  case (1 c d cs)
  show ?case
  proof
    assume "contains_sep (c # d # cs)"
    then consider "c = CHR ''_'' \<and> d = CHR ''_''" | "contains_sep (d # cs)" by auto
    then show "\<exists>u v. c # d # cs = u @ ''__'' @ v"
    proof cases
      case 1
      then have "c # d # cs = [] @ ''__'' @ cs" by simp
      then show ?thesis by blast
    next
      case 2
      then obtain u v where "d # cs = u @ ''__'' @ v" using 1 by blast
      then have "c # d # cs = (c # u) @ ''__'' @ v" by simp
      then show ?thesis by blast
    qed
  next
    assume "\<exists>u v. c # d # cs = u @ ''__'' @ v"
    then obtain u v where uv: "c # d # cs = u @ ''__'' @ v" by blast
    show "contains_sep (c # d # cs)"
    proof (cases u)
      case Nil
      then show ?thesis using uv by simp
    next
      case (Cons a u')
      then have "d # cs = u' @ ''__'' @ v" using uv by simp
      then have "contains_sep (d # cs)" using 1 by blast
      then show ?thesis by simp
    qed
  qed
qed (auto simp: append_eq_Cons_conv)

lemma js_split_hd:
  "js_split s = w # ws \<Longrightarrow> w = [] \<or> (s \<noteq> [] \<and> hd w = hd s)"
  by (induction s arbitrary: w ws rule: js_split.induct) (auto split: if_splits list.splits)

lemma js_split_segments: "w \<in> set (js_split s) \<Longrightarrow> \<not> contains_sep w"
proof (induction s arbitrary: w rule: js_split.induct)
  case 1
  then show ?case by simp
next
  case (2 c)
  then show ?case by simp
next
  case (3 c d cs)
  show ?case
  proof (cases "c = CHR ''_'' \<and> d = CHR ''_''")
    case True
    then show ?thesis using 3 by auto
  next
    case False
    obtain x xs where sp: "js_split (d # cs) = x # xs"
      using js_split_nonempty[of "d # cs"] by (cases "js_split (d # cs)") auto
    then have w: "w = c # x \<or> w \<in> set xs" using 3(3) False by auto
    have nx: "\<not> contains_sep x" and nxs: "\<forall>y \<in> set xs. \<not> contains_sep y"
      using 3(2)[OF False] sp by auto
    have "\<not> contains_sep (c # x)"
    proof (cases x)
      case Nil
      then show ?thesis by simp
    next
      case (Cons a x')
      then have "a = d" using js_split_hd[OF sp] by auto
      then show ?thesis using nx Cons False by auto
    qed
    then show ?thesis using w nxs by auto
  qed
qed

text \<open>The first segment ends where the separator first occurs.\<close>

lemma js_split_first_length: "length (hd (js_split (u @ ''__'' @ v))) \<le> length u"
proof (induction u rule: js_split.induct)
  case 1
  then show ?case by simp
next
  case (2 c)
  then show ?case by (auto split: list.splits)
next
  case (3 c d cs)
  then show ?case by (auto split: list.splits)
qed

lemma in_getToolsForLLM:
  "(s, connection) \<in> set (connections m) \<Longrightarrow> t0 \<in> set (tools connection) \<Longrightarrow>
   \<exists>l \<in> set (getToolsForLLM m). llm_name l = namespaced s (tool_name t0)"
  unfolding getToolsForLLM_def getAllTools_def
  by (force simp: with_server_def)

lemma demo_manager_eq:
  "demo_manager =
     \<lparr>connections = [(''demo'', \<lparr>conn_name = ''demo'', conn_config = demo_config, client = 0,
                                 tools = [add_tool], resources = []\<rparr>)]\<rparr>"
  by (simp add: demo_manager_def connectStdio_def demo_sdk_def manager0_def world0_def
      demo_config_def falsy_def start_process_def Let_def)

lemma bridge_demo_eq:
  "bridge_demo =
     bridge0\<lparr>bridge_connections :=
                [(''demo'', \<lparr>mc_name = ''demo'', mc_client = 0, mc_tools = [add_tool]\<rparr>)],
             allTools := [with_server ''demo'' add_tool]\<rparr>"
  by (simp add: bridge_demo_def connectServer_def demo_sdk_def bridge0_def world0_def
      demo_config_def falsy_def start_process_def Let_def map_has_def)

lemma falsy_elements:
  "(falsy (element (js_split f) 0) \<or> falsy (element (js_split f) (Suc 0))) = invalid_full_name f"
  by (auto simp: invalid_full_name_def falsy_def element_def js_split_nonempty split: list.splits)

lemma callTool_not_invalid: "fst (callTool sdk m w a b x) \<noteq> Inl (InvalidToolNameExpected f)"
  by (simp add: callTool_def Let_def split: option.splits sum.splits)

section \<open>The catalog and the connections\<close>

lemma map_set_mem: "(k, v) \<in> set (map_set k v ps)"
  by (induction ps) auto

lemma map_of_map_set: "map_of (map_set k v ps) k = Some v"
  by (induction ps) auto

lemma map_set_new: "map_of ps k = None \<Longrightarrow> map_set k v ps = ps @ [(k, v)]"
  by (induction ps) (auto split: if_splits)

lemma serverName_with_server [simp]: "serverName (with_server s t) = s"
  by (simp add: with_server_def)

lemma set_getAllTools:
  "set (getAllTools m) = {with_server s t | s c t. (s, c) \<in> set (connections m) \<and> t \<in> set (tools c)}"
  unfolding getAllTools_def by force

lemma bridge_catalog_append:
  "bridge_catalog (cs @ [(n, c)]) = bridge_catalog cs @ map (with_server n) (mc_tools c)"
  by (simp add: bridge_catalog_def)

lemma connectServer_consistent:
  "catalog_consistent b \<Longrightarrow> catalog_consistent (fst (snd (connectServer sdk b w n cfg)))"
  by (auto simp: connectServer_def catalog_consistent_def Let_def map_has_def map_set_new
      bridge_catalog_append split: option.splits sum.splits)

lemma connectEach_consistent:
  "catalog_consistent b \<Longrightarrow> catalog_consistent (fst (connectEach sdk srv b w ns))"
proof (induction ns arbitrary: b w)
  case Nil
  then show ?case by simp
next
  case (Cons n ns)
  show ?case
  proof (cases "map_of srv n")
    case None
    then show ?thesis using Cons by simp
  next
    case (Some cfg)
    obtain r b1 w1 where c: "connectServer sdk b w n cfg = (r, b1, w1)"
      by (cases "connectServer sdk b w n cfg") auto
    then have "catalog_consistent b1"
      using connectServer_consistent[OF Cons.prems, of sdk w n cfg] by simp
    then show ?thesis using Cons.IH Some c by simp
  qed
qed

lemma connectActiveServers_consistent:
  "catalog_consistent b \<Longrightarrow> catalog_consistent (fst (connectActiveServers sdk b w))"
  by (simp add: connectActiveServers_def connectEach_consistent split: option.splits)

lemma disconnectAll_consistent:
  "catalog_consistent (fst (disconnectAll sdk b w)) \<and> allTools (fst (disconnectAll sdk b w)) = []
   \<and> bridge_connections (fst (disconnectAll sdk b w)) = []"
  by (simp add: disconnectAll_def catalog_consistent_def bridge_catalog_def)

lemma connectStdio_demo:
  "connectStdio demo_sdk manager0 world0 ''demo'' demo_config
     = (Inr \<lparr>conn_name = ''demo'', conn_config = demo_config, client = 0,
              tools = [add_tool], resources = []\<rparr>, demo_manager, world1)"
  by (simp add: demo_manager_eq connectStdio_def demo_sdk_def manager0_def world0_def world1_def
      demo_config_def falsy_def start_process_def Let_def)

lemma disconnect_demo:
  "disconnect demo_sdk demo_manager world1 ''demo'' = (Inr (), manager0, world1\<lparr>live := []\<rparr>)"
  by (simp add: demo_manager_eq disconnect_def demo_sdk_def manager0_def world0_def world1_def
      map_get_def map_delete_def end_process_def)

lemma connectServer_demo:
  "connectServer demo_sdk bridge0 world0 ''demo'' demo_config = (Inr (), bridge_demo, world1)"
  by (simp add: bridge_demo_eq connectServer_def demo_sdk_def bridge0_def world0_def world1_def
      demo_config_def falsy_def start_process_def Let_def map_has_def)

lemma bridge0_consistent: "catalog_consistent bridge0"
  by (simp add: catalog_consistent_def bridge0_def bridge_catalog_def)

section \<open>The loops against a provider that never answers\<close>

lemma callTool_completions: "completions (snd (callTool sdk m w s t x)) = completions w"
  by (simp add: callTool_def Let_def split: option.splits sum.splits)

lemma callToolByFullName_completions:
  "completions (snd (callToolByFullName sdk m w f x)) = completions w"
  by (simp add: callToolByFullName_def Let_def callTool_completions)

lemma execToolUse_completions:
  "completions (snd (snd (execToolUse llm sdk m w u))) = completions w"
  using callToolByFullName_completions[of sdk m w "tu_name u" "tu_input u"]
  by (auto simp: execToolUse_def split: prod.splits sum.splits)

lemma execToolUses_completions:
  "completions (snd (snd (execToolUses llm sdk m calls rs w us))) = completions w"
proof (induction us arbitrary: calls rs w)
  case Nil
  then show ?case by simp
next
  case (Cons u us)
  obtain c r w1 where e: "execToolUse llm sdk m w u = (c, r, w1)"
    by (cases "execToolUse llm sdk m w u") auto
  then have "completions w1 = completions w"
    using execToolUse_completions[of llm sdk m w u] by simp
  then show ?case using Cons e by simp
qed

lemma tryAnthropic_never_final:
  assumes "never_final_anthropic llm"
  shows "\<exists>msgs1 calls1 w1. tryAnthropic llm sdk c m sys tls msgs calls its w
            = (Inr (Next msgs1), calls1, w1) \<and> completions w1 = completions w + 1"
proof -
  obtain response where r: "messages_create llm w (anthropicRequest c sys tls msgs) = Inr response"
    "stop_reason response \<noteq> end_turn"
    using assms unfolding never_final_anthropic_def by blast
  show ?thesis
  proof (cases "stop_reason response = tool_use")
    case True
    obtain calls1 rs w2 where
      e: "execToolUses llm sdk m calls [] (llm_called w) (toolUseBlocks (content response))
            = (calls1, rs, w2)"
      by (cases "execToolUses llm sdk m calls [] (llm_called w) (toolUseBlocks (content response))") auto
    have "completions w2 = completions (llm_called w)"
      using execToolUses_completions[of llm sdk m calls "[]" "llm_called w"
          "toolUseBlocks (content response)"] e by simp
    then show ?thesis using r True e by (simp add: tryAnthropic_def llm_called_def)
  next
    case False
    then show ?thesis using r by (simp add: tryAnthropic_def llm_called_def)
  qed
qed

lemma loopAnthropic_never_final:
  assumes "never_final_anthropic llm"
  shows "its \<le> maxIterations c \<Longrightarrow>
     \<exists>calls1 w1. loopAnthropic llm sdk c m sys tls msgs calls its w
        = (\<lparr>success = False, answer = limit_answer Anthropic (maxIterations c),
            toolCalls = calls1, iterations = maxIterations c,
            error = Some ''Max iterations reached''\<rparr>, w1)
        \<and> completions w1 = completions w + (maxIterations c - its)"
proof (induction "maxIterations c - its" arbitrary: its msgs calls w)
  case 0
  then have "its = maxIterations c" by simp
  then show ?case by (simp add: limit_answer_def loopAnthropic.simps)
next
  case (Suc k)
  then have lt: "its < maxIterations c" by simp
  obtain msgs1 calls1 w1 where
    t: "tryAnthropic llm sdk c m sys tls msgs calls (its + 1) w = (Inr (Next msgs1), calls1, w1)"
    and cw: "completions w1 = completions w + 1"
    using tryAnthropic_never_final[OF assms] by blast
  have "k = maxIterations c - (its + 1)" using Suc(2) by simp
  from Suc(1)[OF this, of msgs1 calls1 w1] lt
  obtain calls2 w2 where
    l: "loopAnthropic llm sdk c m sys tls msgs1 calls1 (its + 1) w1
        = (\<lparr>success = False, answer = limit_answer Anthropic (maxIterations c),
            toolCalls = calls2, iterations = maxIterations c,
            error = Some ''Max iterations reached''\<rparr>, w2)"
    and c2: "completions w2 = completions w1 + (maxIterations c - (its + 1))"
    by auto
  have "loopAnthropic llm sdk c m sys tls msgs calls its w
        = loopAnthropic llm sdk c m sys tls msgs1 calls1 (its + 1) w1"
    using lt t by (subst loopAnthropic.simps) simp
  then show ?case using l c2 cw lt by auto
qed

lemma execToolCalls_parse_ok:
  "\<forall>tc \<in> set tcs. \<exists>a. JSON_parse llm (tc_arguments tc) = Inr a \<Longrightarrow>
   \<exists>msgs1 calls1 w1. execToolCalls llm sdk m msgs calls w tcs = (Inr msgs1, calls1, w1)
      \<and> completions w1 = completions w"
proof (induction tcs arbitrary: msgs calls w)
  case Nil
  then show ?case by simp
next
  case (Cons tc tcs)
  obtain a where a: "JSON_parse llm (tc_arguments tc) = Inr a" using Cons.prems by auto
  obtain r w1 where d: "callToolByFullName sdk m w (tc_name tc) a = (r, w1)"
    by (cases "callToolByFullName sdk m w (tc_name tc) a") auto
  then have cw: "completions w1 = completions w"
    using callToolByFullName_completions[of sdk m w "tc_name tc" a] by simp
  have rest: "\<forall>tc \<in> set tcs. \<exists>a. JSON_parse llm (tc_arguments tc) = Inr a"
    using Cons.prems by simp
  show ?case
  proof (cases r)
    case (Inl e)
    then show ?thesis using Cons.IH[OF rest, of _ _ w1] a d cw by simp
  next
    case (Inr v)
    then show ?thesis using Cons.IH[OF rest, of _ _ w1] a d cw by simp
  qed
qed

lemma tryOpenAI_never_final:
  assumes "never_final_openai llm"
  shows "\<exists>msgs1 calls1 w1. tryOpenAI llm sdk c m tls msgs calls its w
            = (Inr (Next msgs1), calls1, w1) \<and> completions w1 = completions w + 1"
proof -
  obtain response choice rest tcs where
    r: "chat_completions_create llm w (openaiRequest c tls msgs) = Inr response"
      "choices response = choice # rest" "finish_reason choice \<noteq> ''stop''"
      "tool_calls (choice_message choice) = Some tcs"
      "\<forall>tc \<in> set tcs. \<exists>a. JSON_parse llm (tc_arguments tc) = Inr a"
    using assms unfolding never_final_openai_def by blast
  show ?thesis
  proof (cases "tcs = []")
    case True
    then show ?thesis using r by (simp add: tryOpenAI_def llm_called_def Let_def)
  next
    case False
    obtain msgs1 calls1 w1 where
      e: "execToolCalls llm sdk m (msgs @ [AssistantMsg (choice_message choice)]) calls
            (llm_called w) tcs = (Inr msgs1, calls1, w1)"
      and cw: "completions w1 = completions (llm_called w)"
      using execToolCalls_parse_ok[OF r(5)] by blast
    then show ?thesis using r False by (simp add: tryOpenAI_def llm_called_def Let_def)
  qed
qed

lemma loopOpenAI_never_final:
  assumes "never_final_openai llm"
  shows "its \<le> maxIterations c \<Longrightarrow>
     \<exists>calls1 w1. loopOpenAI llm sdk c m tls msgs calls its w
        = (\<lparr>success = False, answer = limit_answer OpenAI (maxIterations c),
            toolCalls = calls1, iterations = maxIterations c,
            error = Some ''Max iterations reached''\<rparr>, w1)
        \<and> completions w1 = completions w + (maxIterations c - its)"
proof (induction "maxIterations c - its" arbitrary: its msgs calls w)
  case 0
  then have "its = maxIterations c" by simp
  then show ?case by (simp add: limit_answer_def loopOpenAI.simps)
next
  case (Suc k)
  then have lt: "its < maxIterations c" by simp
  obtain msgs1 calls1 w1 where
    t: "tryOpenAI llm sdk c m tls msgs calls (its + 1) w = (Inr (Next msgs1), calls1, w1)"
    and cw: "completions w1 = completions w + 1"
    using tryOpenAI_never_final[OF assms] by blast
  have "k = maxIterations c - (its + 1)" using Suc(2) by simp
  from Suc(1)[OF this, of msgs1 calls1 w1] lt
  obtain calls2 w2 where
    l: "loopOpenAI llm sdk c m tls msgs1 calls1 (its + 1) w1
        = (\<lparr>success = False, answer = limit_answer OpenAI (maxIterations c),
            toolCalls = calls2, iterations = maxIterations c,
            error = Some ''Max iterations reached''\<rparr>, w2)"
    and c2: "completions w2 = completions w1 + (maxIterations c - (its + 1))"
    by auto
  have "loopOpenAI llm sdk c m tls msgs calls its w
        = loopOpenAI llm sdk c m tls msgs1 calls1 (its + 1) w1"
    using lt t by (subst loopOpenAI.simps) simp
  then show ?case using l c2 cw lt by auto
qed

lemma new_McpAgent_fields:
  assumes "new_McpAgent hasAnthropic hasOpenAI registry cfg = Inr ag"
  shows "maxIterations (config ag) = (case cfg_maxIterations cfg of None \<Rightarrow> 10 | Some k \<Rightarrow> k)"
    and "agent_provider ag = Anthropic \<Longrightarrow> anthropic ag"
    and "agent_provider ag = OpenAI \<Longrightarrow> openai ag"
    and "provider (config ag) = agent_provider ag"
  using assms by (auto simp: new_McpAgent_def Let_def split: if_splits)

lemma new_anthropic_agent: "new_McpAgent True False new_ToolRegistry default_config = Inr anthropic_agent"
  by (simp add: new_McpAgent_def default_config_def anthropic_agent_def Let_def)

lemma new_openai_agent: "new_McpAgent False True new_ToolRegistry default_config = Inr openai_agent"
  by (simp add: new_McpAgent_def default_config_def openai_agent_def Let_def)

lemma looping_never_final: "never_final looping_llm Anthropic"
  by (simp add: never_final_def never_final_anthropic_def looping_llm_def)

lemma run_returns:
  assumes "new_McpAgent hasAnthropic hasOpenAI registry cfg = Inr ag"
  shows "\<exists>r w1. run llm sdk ag m w userPrompt ctx = (Inr r, w1)"
proof (cases "agent_provider ag")
  case Anthropic
  then have "anthropic ag" using new_McpAgent_fields(2)[OF assms] by simp
  then show ?thesis using Anthropic
    by (simp add: run_def runWithAnthropic_def Let_def split: prod.splits)
next
  case OpenAI
  then have "openai ag" using new_McpAgent_fields(3)[OF assms] by simp
  then show ?thesis using OpenAI
    by (simp add: run_def runWithOpenAI_def Let_def split: prod.splits)
qed

section \<open>What the loops record\<close>

lemma execToolUse_id: "tool_use_id (fst (snd (execToolUse llm sdk m w u))) = tu_id u"
  by (simp add: execToolUse_def split: prod.splits sum.splits)

lemma execToolUse_record:
  "rec_tool (fst (execToolUse llm sdk m w u)) = tu_name u
   \<and> rec_args (fst (execToolUse llm sdk m w u)) = tu_input u"
  by (simp add: execToolUse_def split: prod.splits sum.splits)

lemma execToolUses_results:
  "execToolUses llm sdk m calls rs w us = (calls1, rs1, w1) \<Longrightarrow>
     map tool_use_id rs1 = map tool_use_id rs @ map tu_id us
   \<and> map rec_tool calls1 = map rec_tool calls @ map tu_name us
   \<and> map rec_args calls1 = map rec_args calls @ map tu_input us"
proof (induction us arbitrary: calls rs w)
  case Nil
  then show ?case by simp
next
  case (Cons u us)
  obtain c r w2 where e: "execToolUse llm sdk m w u = (c, r, w2)"
    by (cases "execToolUse llm sdk m w u") auto
  with Cons.prems have "execToolUses llm sdk m (calls @ [c]) (rs @ [r]) w2 us = (calls1, rs1, w1)"
    by simp
  from Cons.IH[OF this] show ?case
    using execToolUse_id[of llm sdk m w u] execToolUse_record[of llm sdk m w u] e by simp
qed

lemma execToolCalls_results:
  "execToolCalls llm sdk m msgs calls w tcs = (Inr msgs1, calls1, w1) \<Longrightarrow>
     \<exists>tms. msgs1 = msgs @ tms \<and> tool_call_ids tms = map tc_id tcs
         \<and> length tms = length tcs
         \<and> map rec_tool calls1 = map rec_tool calls @ map tc_name tcs"
proof (induction tcs arbitrary: msgs calls w)
  case Nil
  then show ?case by simp
next
  case (Cons tc tcs)
  from Cons.prems obtain a where a: "JSON_parse llm (tc_arguments tc) = Inr a"
    by (cases "JSON_parse llm (tc_arguments tc)") auto
  obtain r w2 where d: "callToolByFullName sdk m w (tc_name tc) a = (r, w2)"
    by (cases "callToolByFullName sdk m w (tc_name tc) a") auto
  show ?case
  proof (cases r)
    case (Inl e)
    with Cons.prems a d have
      "execToolCalls llm sdk m
         (msgs @ [ToolMsg (tc_id tc) (JSON_stringify llm (error_payload (message e)))])
         (calls @ [\<lparr>rec_tool = tc_name tc, rec_args = a,
                    rec_result = error_payload (message e)\<rparr>]) w2 tcs
       = (Inr msgs1, calls1, w1)" by simp
    from Cons.IH[OF this] show ?thesis by auto
  next
    case (Inr v)
    with Cons.prems a d have
      "execToolCalls llm sdk m (msgs @ [ToolMsg (tc_id tc) (JSON_stringify llm v)])
         (calls @ [\<lparr>rec_tool = tc_name tc, rec_args = a, rec_result = v\<rparr>]) w2 tcs
       = (Inr msgs1, calls1, w1)" by simp
    from Cons.IH[OF this] show ?thesis by auto
  qed
qed

lemma ghost_dispatch:
  "callToolByFullName demo_sdk manager0 w ''ghost__tool'' x = (Inl (ServerNotConnected ''ghost''), w)"
  by (simp add: callToolByFullName_def callTool_def element_def falsy_def manager0_def map_get_def)

text \<open>The requests of one response are processed from left to right, and each adds one
  record and one result to what is there.\<close>

lemma execToolUses_append:
  "execToolUses llm sdk m calls rs w (xs @ ys)
     = (case execToolUses llm sdk m calls rs w xs of
          (c1, r1, w1) \<Rightarrow> execToolUses llm sdk m c1 r1 w1 ys)"
  by (induction xs arbitrary: calls rs w) (auto split: prod.splits)

lemma execToolUses_extends:
  "execToolUses llm sdk m calls rs w us = (calls1, rs1, w1) \<Longrightarrow>
   \<exists>cs ts. calls1 = calls @ cs \<and> rs1 = rs @ ts \<and> length cs = length us \<and> length ts = length us"
proof (induction us arbitrary: calls rs w)
  case Nil
  then show ?case by simp
next
  case (Cons u us)
  obtain c r w2 where e: "execToolUse llm sdk m w u = (c, r, w2)"
    by (cases "execToolUse llm sdk m w u") auto
  with Cons.prems have "execToolUses llm sdk m (calls @ [c]) (rs @ [r]) w2 us = (calls1, rs1, w1)"
    by simp
  from Cons.IH[OF this] obtain cs ts where
    "calls1 = (calls @ [c]) @ cs" "rs1 = (rs @ [r]) @ ts" "length cs = length us"
    "length ts = length us" by blast
  then have "calls1 = calls @ (c # cs) \<and> rs1 = rs @ (r # ts)
      \<and> length (c # cs) = length (u # us) \<and> length (r # ts) = length (u # us)" by simp
  then show ?case by blast
qed

lemma execToolCalls_append:
  "execToolCalls llm sdk m msgs calls w (xs @ ys)
     = (case execToolCalls llm sdk m msgs calls w xs of
          (Inl e, c1, w1) \<Rightarrow> (Inl e, c1, w1)
        | (Inr msgs1, c1, w1) \<Rightarrow> execToolCalls llm sdk m msgs1 c1 w1 ys)"
  by (induction xs arbitrary: msgs calls w) (auto split: prod.splits sum.splits)

lemma execToolCalls_extends:
  "execToolCalls llm sdk m msgs calls w tcs = (Inr msgs1, calls1, w1) \<Longrightarrow>
   \<exists>tms cs. msgs1 = msgs @ tms \<and> calls1 = calls @ cs
      \<and> length tms = length tcs \<and> length cs = length tcs"
proof (induction tcs arbitrary: msgs calls w)
  case Nil
  then show ?case by simp
next
  case (Cons tc tcs)
  from Cons.prems obtain a where a: "JSON_parse llm (tc_arguments tc) = Inr a"
    by (cases "JSON_parse llm (tc_arguments tc)") auto
  obtain r w2 where d: "callToolByFullName sdk m w (tc_name tc) a = (r, w2)"
    by (cases "callToolByFullName sdk m w (tc_name tc) a") auto
  from Cons.prems a d obtain t c where
    "execToolCalls llm sdk m (msgs @ [t]) (calls @ [c]) w2 tcs = (Inr msgs1, calls1, w1)"
    by (cases r) auto
  from Cons.IH[OF this] obtain tms cs where
    "msgs1 = (msgs @ [t]) @ tms" "calls1 = (calls @ [c]) @ cs" "length tms = length tcs"
    "length cs = length tcs" by blast
  then have "msgs1 = msgs @ (t # tms) \<and> calls1 = calls @ (c # cs)
      \<and> length (t # tms) = length (tc # tcs) \<and> length (c # cs) = length (tc # tcs)" by simp
  then show ?case by blast
qed

lemma singleton_nth: "length xs = Suc 0 \<Longrightarrow> xs = [xs ! 0]"
  by (cases xs) auto

section \<open>The bridge after its initialisation\<close>

lemma initialize_bridge0:
  "initialize (Some \<lparr>servers = [(''demo'', demo_config)], defaults_activeServers = None\<rparr>)
     (new_AgentBridge (bridge_config bridge0)) = Inr bridge0"
  by (simp add: initialize_def new_AgentBridge_def bridge0_def falsy_def Let_def)

lemma initialize_bridge_claude:
  "initialize (Some \<lparr>servers = [(''demo'', demo_config)], defaults_activeServers = None\<rparr>)
     (new_AgentBridge (bridge_config bridge_claude)) = Inr bridge_claude"
  by (simp add: initialize_def new_AgentBridge_def bridge_claude_def falsy_def Let_def)

lemma buildSystemPrompt_snd: "snd (buildSystemPrompt b c) = (b, c)"
  by (simp add: buildSystemPrompt_def Let_def)

section \<open>Connecting, disconnecting and the registry\<close>

lemma map_set_others: "p \<in> set ps \<Longrightarrow> fst p \<noteq> k \<Longrightarrow> p \<in> set (map_set k v ps)"
  by (induction ps) auto

lemma map_set_subset: "set (map_set k v ps) \<subseteq> insert (k, v) (set ps)"
  by (induction ps) auto

lemma map_set_keys: "fst ` set (map_set k v ps) = insert k (fst ` set ps)"
  by (induction ps) auto

lemma map_delete_absent: "map_of ps k = None \<Longrightarrow> map_delete k ps = ps"
  by (induction ps) (auto simp: map_delete_def split: if_splits)

lemma getAllTools_map_delete:
  "getAllTools (m\<lparr>connections := map_delete n (connections m)\<rparr>)
     = filter (\<lambda>t. serverName t \<noteq> n) (getAllTools m)"
proof -
  have "concat (map (\<lambda>(s, c). map (with_server s) (tools c)) (filter (\<lambda>p. fst p \<noteq> n) cs))
      = filter (\<lambda>t. serverName t \<noteq> n) (concat (map (\<lambda>(s, c). map (with_server s) (tools c)) cs))"
    for cs :: "(string \<times> McpServerConnection) list"
    by (induction cs) (auto simp: filter_map o_def)
  then show ?thesis by (simp add: getAllTools_def map_delete_def)
qed

lemma disconnect_total:
  assumes "\<forall>c. map_get (connections m) n = Some c \<longrightarrow> client_close sdk w (client c) = None"
  shows "\<exists>w2. disconnect sdk m w n
            = (Inr (), m\<lparr>connections := map_delete n (connections m)\<rparr>, w2)"
proof (cases "map_get (connections m) n")
  case None
  then have "map_delete n (connections m) = connections m"
    by (simp add: map_delete_absent map_get_def)
  then show ?thesis using None by (simp add: disconnect_def)
next
  case (Some c)
  then show ?thesis using assms by (simp add: disconnect_def)
qed

lemma register_tools:
  "registry_tools (register r t)
     = map_set (serverName t @ ''__'' @ tool_name t) t (registry_tools r)"
  by (simp add: register_def Let_def split: option.splits)

lemma fold_register_keys:
  "fst ` set (registry_tools (fold (\<lambda>t r. register r (f t)) ts r))
     = fst ` set (registry_tools r)
       \<union> (\<lambda>t. serverName (f t) @ ''__'' @ tool_name (f t)) ` set ts"
proof (induction ts arbitrary: r)
  case Nil
  then show ?case by simp
next
  case (Cons t ts)
  show ?case
    by (simp add: Cons.IH register_tools map_set_keys)
qed

lemma fold_register_keyed:
  "\<forall>p \<in> set (registry_tools r). fst p = serverName (snd p) @ ''__'' @ tool_name (snd p) \<Longrightarrow>
   \<forall>p \<in> set (registry_tools (fold (\<lambda>t r. register r (f t)) ts r)).
      fst p = serverName (snd p) @ ''__'' @ tool_name (snd p)"
proof (induction ts arbitrary: r)
  case Nil
  then show ?case by simp
next
  case (Cons t ts)
  have "\<forall>p \<in> set (registry_tools (register r (f t))).
      fst p = serverName (snd p) @ ''__'' @ tool_name (snd p)"
    using Cons.prems map_set_subset[of "serverName (f t) @ ''__'' @ tool_name (f t)" "f t"
        "registry_tools r"]
    by (auto simp: register_tools)
  from Cons.IH[OF this] show ?case by simp
qed

lemma main_registry_names:
  "set (map llm_name (getForLLM (main_registry m))) = set (map llm_name (getToolsForLLM m))"
proof -
  define f where "f = (\<lambda>t :: ServerTool.
      \<lparr>tool_name = tool_name t, tool_description = tool_description t,
       inputSchema = inputSchema t, serverName = serverName t,
       category = None :: string option, tags = None :: string list option,
       priority = None :: int option\<rparr>)"
  have mr: "main_registry m = fold (\<lambda>t r. register r (f t)) (getAllTools m) new_ToolRegistry"
    by (simp add: main_registry_def f_def)
  have keyed: "\<forall>p \<in> set (registry_tools (main_registry m)).
      fst p = serverName (snd p) @ ''__'' @ tool_name (snd p)"
    unfolding mr by (rule fold_register_keyed) (simp add: new_ToolRegistry_def)
  have "map llm_name (getForLLM (main_registry m)) = map fst (registry_tools (main_registry m))"
    using keyed by (simp add: getForLLM_def getAll_def o_def)
  moreover have "fst ` set (registry_tools (main_registry m))
      = (\<lambda>t. serverName (f t) @ ''__'' @ tool_name (f t)) ` set (getAllTools m)"
    unfolding mr by (simp add: fold_register_keys new_ToolRegistry_def)
  then have "set (map fst (registry_tools (main_registry m)))
      = set (map (\<lambda>t. serverName t @ ''__'' @ tool_name t) (getAllTools m))"
    by (simp add: f_def)
  moreover have "map llm_name (getToolsForLLM m)
      = map (\<lambda>t. serverName t @ ''__'' @ tool_name t) (getAllTools m)"
    by (simp add: getToolsForLLM_def namespaced_def o_def)
  ultimately show ?thesis by simp
qed

lemma unregister_tools:
  "registry_tools (unregister r f) = map_delete f (registry_tools r)"
  by (auto simp: unregister_def Let_def map_delete_absent map_get_def split: option.splits)

lemma fold_unregister_tools:
  "registry_tools (fold (\<lambda>f r. unregister r f) fs r)
     = filter (\<lambda>p. fst p \<notin> set fs) (registry_tools r)"
  by (induction fs arbitrary: r) (auto simp: unregister_tools map_delete_def intro: filter_cong)

lemma unregisterServer_removes:
  "\<forall>t \<in> set (getAll (unregisterServer r n)). serverName t \<noteq> n"
  by (force simp: getAll_def unregisterServer_def fold_unregister_tools)

lemma connectServer_total:
  assumes "\<not> falsy (command cfg)" and "\<not> map_has (bridge_connections b) n"
    and "client_connect sdk w (the (command cfg)) (case args cfg of None \<Rightarrow> [] | Some a \<Rightarrow> a) = None"
    and "listTools sdk (start_process w n) (spawned w) = Inr ts"
  shows "\<exists>b1 w1. connectServer sdk b w n cfg = (Inr (), b1, w1)
       \<and> allTools b1 = allTools b @ map (with_server n) ts
       \<and> map_keys (bridge_connections b1) = map_keys (bridge_connections b) @ [n]"
  using assms
  by (simp add: connectServer_def Let_def map_has_def map_set_new map_keys_def)

lemma main_registry_demo:
  "main_registry demo_manager
     = \<lparr>registry_tools =
          [(''demo__add'',
            \<lparr>tool_name = ''add'', tool_description = Some ''Adds two numbers'',
             inputSchema = JObj [], serverName = ''demo'',
             category = None, tags = None, priority = None\<rparr>)],
        categoryIndex = [], tagIndex = []\<rparr>"
  by (simp add: main_registry_def demo_manager_eq getAllTools_def with_server_def add_tool_def
      register_def new_ToolRegistry_def falsy_def Let_def)

section \<open>What the renderings read\<close>

lemma take5_nonempty: "take 5 xs = take 5 ys \<Longrightarrow> (xs = []) = (ys = [])"
  by (metis take_eq_Nil zero_neq_numeral)

lemma falsy_value_None [simp]: "falsy_value None"
  by (simp add: falsy_value_def)

lemma list_inputs:
  assumes "(case xs of None \<Rightarrow> [] | Some l \<Rightarrow> l) = (case ys of None \<Rightarrow> [] | Some l \<Rightarrow> l)"
  shows "has_length xs = has_length ys" and "has_length xs \<Longrightarrow> the xs = the ys"
  using assms by (auto simp: has_length_def split: option.splits)

lemma string_inputs:
  assumes "(case x of None \<Rightarrow> [] | Some s \<Rightarrow> s) = (case y of None \<Rightarrow> [] | Some s \<Rightarrow> s)"
  shows "falsy x = falsy y" and "\<not> falsy x \<Longrightarrow> the x = the y"
  using assms by (auto simp: falsy_def split: option.splits)

lemma value_inputs:
  assumes "(if falsy_value x then None else x) = (if falsy_value y then None else y)"
  shows "falsy_value x = falsy_value y" and "\<not> falsy_value x \<Longrightarrow> x = y"
  using assms by (auto split: if_splits)

section \<open>Namespaced tool names\<close>

text \<open>
  C1, as the code has it. For every connected backend \<open>s\<close> and every tool \<open>t0\<close> it declares,
  the catalog for the LLM holds an entry named \<open>s @ ''__'' @ tool_name t0\<close>. When neither
  name contains the separator and the backend name does not end in an underscore, splitting
  that entry's name at the separator gives exactly the backend name and the local tool
  name, and joining the segments again gives the entry's name.
\<close>

theorem namespaced_name_roundtrip:
  assumes "(s, connection) \<in> set (connections m)" and "t0 \<in> set (tools connection)"
    and "\<not> contains_sep s" and "\<not> contains_sep (tool_name t0)"
    and "s = [] \<or> last s \<noteq> CHR ''_''"
  shows "\<exists>l \<in> set (getToolsForLLM m).
           llm_name l = namespaced s (tool_name t0)
         \<and> js_split (llm_name l) = [s, tool_name t0]
         \<and> join separator (js_split (llm_name l)) = llm_name l"
proof -
  obtain l where l: "l \<in> set (getToolsForLLM m)" "llm_name l = namespaced s (tool_name t0)"
    using in_getToolsForLLM[OF assms(1,2)] by blast
  have "js_split (namespaced s (tool_name t0)) = [s, tool_name t0]"
    unfolding namespaced_def using js_split_append[OF assms(3,5)] js_split_no_sep[OF assms(4)]
    by simp
  then show ?thesis using l by (auto simp: separator_def namespaced_def)
qed

theorem namespaced_name_roundtrip_witness:
  "\<exists>l \<in> set (getToolsForLLM demo_manager).
           llm_name l = namespaced ''demo'' (tool_name add_tool)
         \<and> js_split (llm_name l) = [''demo'', tool_name add_tool]
         \<and> join separator (js_split (llm_name l)) = llm_name l"
  using namespaced_name_roundtrip[of "''demo''"
      "\<lparr>conn_name = ''demo'', conn_config = demo_config, client = 0,
        tools = [add_tool], resources = []\<rparr>" demo_manager add_tool]
  by (simp add: demo_manager_eq add_tool_def)

text \<open>
  C1 as stated fails for a backend name that ends in an underscore: neither \<open>dev_\<close> nor
  \<open>add\<close> contains the separator, but the catalog's name \<open>dev___add\<close> splits into \<open>dev\<close>
  and \<open>_add\<close>, and a call by that name is routed to a backend \<open>dev\<close> that is not connected.
\<close>

theorem namespaced_name_roundtrip_counterexample:
  "map_keys (connections trailing_manager) = [''dev_'']
   \<and> map tool_name (getAllTools trailing_manager) = [''add'']
   \<and> \<not> contains_sep ''dev_'' \<and> \<not> contains_sep ''add''
   \<and> map llm_name (getToolsForLLM trailing_manager) = [''dev___add'']
   \<and> js_split ''dev___add'' = [''dev'', ''_add'']
   \<and> js_split ''dev___add'' \<noteq> [''dev_'', ''add'']
   \<and> fst (callToolByFullName demo_sdk trailing_manager world0 ''dev___add'' JNull)
       = Inl (ServerNotConnected ''dev'')"
  by (simp add: trailing_manager_def connectStdio_def demo_sdk_def manager0_def world0_def
      demo_config_def falsy_def start_process_def Let_def map_keys_def getAllTools_def
      getToolsForLLM_def with_server_def add_tool_def namespaced_def callToolByFullName_def
      callTool_def element_def map_get_def)

text \<open>The added condition is needed: no backend name that ends in an underscore
  round-trips.\<close>

lemma trailing_underscore_breaks_roundtrip:
  assumes "s \<noteq> []" and "last s = CHR ''_''"
  shows "js_split (namespaced s t) \<noteq> [s, t]"
proof
  assume eq: "js_split (namespaced s t) = [s, t]"
  obtain s' where s: "s = s' @ ''_''"
    using assms by (metis append_butlast_last_id)
  have "namespaced s t = s' @ ''__'' @ (CHR ''_'' # t)"
    by (simp add: namespaced_def s)
  then have "length (hd (js_split (namespaced s t))) \<le> length s'"
    using js_split_first_length[of s' "CHR ''_'' # t"] by simp
  then show False using eq s by simp
qed

section \<open>A call to a backend that is not connected\<close>

text \<open>
  C2, as the code has it. When the backend part of a full name has no connection, the call
  fails with the not-connected error and nothing else happens: no backend is started and
  no request is sent (the world is unchanged). This holds for the manager and for the
  bridge, whether or not the backend is known to the configuration; neither has a path
  from a tool call to a connect.
\<close>

theorem call_of_unconnected_backend:
  "(js_split f = a # b # rest \<and> a \<noteq> [] \<and> b \<noteq> [] \<and> map_get (connections m) a = None \<longrightarrow>
      callToolByFullName sdk m w f x = (Inl (ServerNotConnected a), w))
   \<and> (js_split f = a # b # rest \<and> a \<noteq> [] \<and> b \<noteq> []
        \<and> map_get (bridge_connections br) a = None \<longrightarrow>
      bridge_callTool sdk br w f x = (Inl (ServerNotConnected a), w))"
  by (simp add: callToolByFullName_def bridge_callTool_def callTool_def Let_def element_def
      falsy_def)

theorem call_of_unconnected_backend_witness:
  "js_split ''demo__add'' = [''demo'', ''add'']
   \<and> map_get (connections manager0) ''demo'' = None
   \<and> map_get (bridge_connections bridge0) ''demo'' = None
   \<and> map_of (servers (the (serversConfig bridge0))) ''demo'' = Some demo_config
   \<and> callToolByFullName demo_sdk manager0 world0 ''demo__add'' JNull
       = (Inl (ServerNotConnected ''demo''), world0)
   \<and> bridge_callTool demo_sdk bridge0 world0 ''demo__add'' JNull
       = (Inl (ServerNotConnected ''demo''), world0)"
  using call_of_unconnected_backend[of "''demo__add''" "''demo''" "''add''" "[]" manager0
      demo_sdk world0 JNull bridge0]
  by (simp add: manager0_def bridge0_def map_get_def)

text \<open>
  C2 as stated fails: the bridge knows \<open>demo\<close> from its configuration and has no
  connection to it; the call to \<open>demo__add\<close> ends with the not-connected error, no
  process was started and no request was sent. The manager behaves the same.
\<close>

theorem call_of_unconnected_backend_counterexample:
  "map_of (servers (the (serversConfig bridge0))) ''demo'' = Some demo_config
   \<and> \<not> map_has (bridge_connections bridge0) ''demo''
   \<and> fst (bridge_callTool demo_sdk bridge0 world0 ''demo__add'' JNull)
       = Inl (ServerNotConnected ''demo'')
   \<and> spawned (snd (bridge_callTool demo_sdk bridge0 world0 ''demo__add'' JNull)) = 0
   \<and> live (snd (bridge_callTool demo_sdk bridge0 world0 ''demo__add'' JNull)) = []
   \<and> sent (snd (bridge_callTool demo_sdk bridge0 world0 ''demo__add'' JNull)) = []
   \<and> \<not> map_has (connections manager0) ''demo''
   \<and> fst (callToolByFullName demo_sdk manager0 world0 ''demo__add'' JNull)
       = Inl (ServerNotConnected ''demo'')
   \<and> spawned (snd (callToolByFullName demo_sdk manager0 world0 ''demo__add'' JNull)) = 0
   \<and> live (snd (callToolByFullName demo_sdk manager0 world0 ''demo__add'' JNull)) = []
   \<and> sent (snd (callToolByFullName demo_sdk manager0 world0 ''demo__add'' JNull)) = []"
  by (simp add: callToolByFullName_def bridge_callTool_def callTool_def Let_def element_def
      falsy_def manager0_def bridge0_def map_get_def map_has_def world0_def)

section \<open>Tool errors stay inside the loop\<close>

text \<open>
  C3. Take any iteration of the agent's loop in which the provider asked for tools, and
  any of the requested tools, at any position among the requests: \<open>pre\<close> are the
  requests before it, \<open>post\<close> those after it. When the call by full name raises an error
  for it (invalid name, backend not connected, an error from the backend), in the world
  the requests before it have left, then the iteration does not end the run: the loop goes
  on with the next iteration, and the conversation it goes on with is the old one extended
  by the assistant turn and the tool-result turn. That turn has one result per request, in
  the order of the requests, and the result at the position of the failed request carries
  the payload \<open>{error: message}\<close> (flagged \<open>is_error\<close> for Anthropic); the same payload
  is recorded in \<open>toolCalls\<close> at that position. For OpenAI this is stated for requests
  whose arguments are JSON.
\<close>

theorem tool_errors_stay_in_loop:
  "(its < maxIterations c
      \<and> messages_create llm w (anthropicRequest c sys tls msgs) = Inr response
      \<and> stop_reason response = tool_use
      \<and> toolUseBlocks (content response) = pre @ u # post
      \<and> execToolUses llm sdk m calls [] (llm_called w) pre = (calls1, results1, w1)
      \<and> callToolByFullName sdk m w1 (tu_name u) (tu_input u) = (Inl x, w2) \<longrightarrow>
    (\<exists>calls3 results3 w3.
        loopAnthropic llm sdk c m sys tls msgs calls its w
          = loopAnthropic llm sdk c m sys tls
              (msgs @ [AssistantContent (content response), UserToolResults results3])
              calls3 (its + 1) w3
      \<and> map tool_use_id results3 = map tu_id (pre @ u # post)
      \<and> results3 ! length pre
          = \<lparr>tool_use_id = tu_id u,
             result_content = JSON_stringify llm (error_payload (message x)),
             is_error = True\<rparr>
      \<and> length calls3 = length calls + length (pre @ u # post)
      \<and> calls3 ! (length calls + length pre)
          = \<lparr>rec_tool = tu_name u, rec_args = tu_input u,
             rec_result = error_payload (message x)\<rparr>))
   \<and> (its < maxIterations c
      \<and> chat_completions_create llm w (openaiRequest c tls omsgs) = Inr oresponse
      \<and> choices oresponse = choice # others
      \<and> finish_reason choice \<noteq> ''stop''
      \<and> tool_calls (choice_message choice) = Some (opre @ tc # opost)
      \<and> execToolCalls llm sdk m (omsgs @ [AssistantMsg (choice_message choice)]) calls
            (llm_called w) opre = (Inr omsgs1, calls1, w1)
      \<and> JSON_parse llm (tc_arguments tc) = Inr a
      \<and> callToolByFullName sdk m w1 (tc_name tc) a = (Inl x, w2)
      \<and> (\<forall>t \<in> set opost. \<exists>v. JSON_parse llm (tc_arguments t) = Inr v) \<longrightarrow>
    (\<exists>calls3 tms w3.
        loopOpenAI llm sdk c m tls omsgs calls its w
          = loopOpenAI llm sdk c m tls
              (omsgs @ [AssistantMsg (choice_message choice)] @ tms) calls3 (its + 1) w3
      \<and> tool_call_ids tms = map tc_id (opre @ tc # opost)
      \<and> length tms = length (opre @ tc # opost)
      \<and> tms ! length opre
          = ToolMsg (tc_id tc) (JSON_stringify llm (error_payload (message x)))
      \<and> length calls3 = length calls + length (opre @ tc # opost)
      \<and> calls3 ! (length calls + length opre)
          = \<lparr>rec_tool = tc_name tc, rec_args = a, rec_result = error_payload (message x)\<rparr>))"
proof (intro conjI impI)
  assume h: "its < maxIterations c
      \<and> messages_create llm w (anthropicRequest c sys tls msgs) = Inr response
      \<and> stop_reason response = tool_use
      \<and> toolUseBlocks (content response) = pre @ u # post
      \<and> execToolUses llm sdk m calls [] (llm_called w) pre = (calls1, results1, w1)
      \<and> callToolByFullName sdk m w1 (tu_name u) (tu_input u) = (Inl x, w2)"
  define res where "res = \<lparr>tool_use_id = tu_id u,
             result_content = JSON_stringify llm (error_payload (message x)),
             is_error = True\<rparr>"
  define rc where "rc = \<lparr>rec_tool = tu_name u, rec_args = tu_input u,
             rec_result = error_payload (message x)\<rparr>"
  obtain calls3 results3 w3 where
    e3: "execToolUses llm sdk m (calls1 @ [rc]) (results1 @ [res]) w2 post = (calls3, results3, w3)"
    by (cases "execToolUses llm sdk m (calls1 @ [rc]) (results1 @ [res]) w2 post") auto
  have whole: "execToolUses llm sdk m calls [] (llm_called w) (toolUseBlocks (content response))
      = (calls3, results3, w3)"
    using h e3 by (simp add: execToolUses_append execToolUse_def res_def rc_def)
  from h execToolUses_extends[of llm sdk m calls "[]" "llm_called w" pre calls1 results1 w1]
  obtain cs1 where p1: "calls1 = calls @ cs1" "length cs1 = length pre"
    "length results1 = length pre" by auto
  from execToolUses_extends[OF e3] obtain cs3 ts3 where
    p3: "calls3 = (calls1 @ [rc]) @ cs3" "results3 = (results1 @ [res]) @ ts3"
      "length cs3 = length post" "length ts3 = length post" by blast
  have r: "results3 ! length pre = res" using p1 p3 by (simp add: nth_append)
  have c: "calls3 ! (length calls + length pre) = rc" using p1 p3 by (simp add: nth_append)
  have l: "length calls3 = length calls + length (pre @ u # post)" using p1 p3 by simp
  have ids: "map tool_use_id results3 = map tu_id (pre @ u # post)"
    using execToolUses_results[OF whole] h by simp
  have "loopAnthropic llm sdk c m sys tls msgs calls its w
          = loopAnthropic llm sdk c m sys tls
              (msgs @ [AssistantContent (content response), UserToolResults results3])
              calls3 (its + 1) w3"
    using h whole by (subst loopAnthropic.simps) (simp add: tryAnthropic_def)
  with ids r c l show "\<exists>calls3 results3 w3.
        loopAnthropic llm sdk c m sys tls msgs calls its w
          = loopAnthropic llm sdk c m sys tls
              (msgs @ [AssistantContent (content response), UserToolResults results3])
              calls3 (its + 1) w3
      \<and> map tool_use_id results3 = map tu_id (pre @ u # post)
      \<and> results3 ! length pre
          = \<lparr>tool_use_id = tu_id u,
             result_content = JSON_stringify llm (error_payload (message x)),
             is_error = True\<rparr>
      \<and> length calls3 = length calls + length (pre @ u # post)
      \<and> calls3 ! (length calls + length pre)
          = \<lparr>rec_tool = tu_name u, rec_args = tu_input u,
             rec_result = error_payload (message x)\<rparr>"
    unfolding res_def rc_def by blast
next
  assume h: "its < maxIterations c
      \<and> chat_completions_create llm w (openaiRequest c tls omsgs) = Inr oresponse
      \<and> choices oresponse = choice # others
      \<and> finish_reason choice \<noteq> ''stop''
      \<and> tool_calls (choice_message choice) = Some (opre @ tc # opost)
      \<and> execToolCalls llm sdk m (omsgs @ [AssistantMsg (choice_message choice)]) calls
            (llm_called w) opre = (Inr omsgs1, calls1, w1)
      \<and> JSON_parse llm (tc_arguments tc) = Inr a
      \<and> callToolByFullName sdk m w1 (tc_name tc) a = (Inl x, w2)
      \<and> (\<forall>t \<in> set opost. \<exists>v. JSON_parse llm (tc_arguments t) = Inr v)"
  define tm where "tm = ToolMsg (tc_id tc) (JSON_stringify llm (error_payload (message x)))"
  define rc where "rc = \<lparr>rec_tool = tc_name tc, rec_args = a,
      rec_result = error_payload (message x)\<rparr>"
  define start where "start = omsgs @ [AssistantMsg (choice_message choice)]"
  from h have p: "\<forall>t \<in> set opost. \<exists>v. JSON_parse llm (tc_arguments t) = Inr v" by blast
  from execToolCalls_parse_ok[OF p, of sdk m "omsgs1 @ [tm]" "calls1 @ [rc]" w2]
  obtain msgs3 calls3 w3 where
    e3: "execToolCalls llm sdk m (omsgs1 @ [tm]) (calls1 @ [rc]) w2 opost = (Inr msgs3, calls3, w3)"
    by blast
  have whole: "execToolCalls llm sdk m start calls (llm_called w) (opre @ tc # opost)
      = (Inr msgs3, calls3, w3)"
    using h e3 by (simp add: execToolCalls_append tm_def rc_def start_def)
  from h execToolCalls_extends[of llm sdk m start calls "llm_called w" opre omsgs1 calls1 w1]
  obtain tms1 cs1 where p1: "omsgs1 = start @ tms1" "calls1 = calls @ cs1"
    "length tms1 = length opre" "length cs1 = length opre" unfolding start_def by auto
  from execToolCalls_extends[OF e3] obtain tms3 cs3 where
    p3: "msgs3 = (omsgs1 @ [tm]) @ tms3" "calls3 = (calls1 @ [rc]) @ cs3"
      "length tms3 = length opost" "length cs3 = length opost" by blast
  define tms where "tms = tms1 @ [tm] @ tms3"
  have m3: "msgs3 = omsgs @ [AssistantMsg (choice_message choice)] @ tms"
    using p1 p3 by (simp add: tms_def start_def)
  from execToolCalls_results[OF whole] obtain tms' where
    "msgs3 = start @ tms'" "tool_call_ids tms' = map tc_id (opre @ tc # opost)" by blast
  then have ids: "tool_call_ids tms = map tc_id (opre @ tc # opost)"
    using m3 by (simp add: start_def)
  have len: "length tms = length (opre @ tc # opost)" using p1 p3 by (simp add: tms_def)
  have t: "tms ! length opre = tm" using p1 by (simp add: tms_def nth_append)
  have l: "length calls3 = length calls + length (opre @ tc # opost)" using p1 p3 by simp
  have cc: "calls3 ! (length calls + length opre) = rc" using p1 p3 by (simp add: nth_append)
  have "loopOpenAI llm sdk c m tls omsgs calls its w
          = loopOpenAI llm sdk c m tls msgs3 calls3 (its + 1) w3"
    using h whole by (subst loopOpenAI.simps) (simp add: tryOpenAI_def Let_def start_def)
  with m3 ids len t l cc show "\<exists>calls3 tms w3.
        loopOpenAI llm sdk c m tls omsgs calls its w
          = loopOpenAI llm sdk c m tls
              (omsgs @ [AssistantMsg (choice_message choice)] @ tms) calls3 (its + 1) w3
      \<and> tool_call_ids tms = map tc_id (opre @ tc # opost)
      \<and> length tms = length (opre @ tc # opost)
      \<and> tms ! length opre
          = ToolMsg (tc_id tc) (JSON_stringify llm (error_payload (message x)))
      \<and> length calls3 = length calls + length (opre @ tc # opost)
      \<and> calls3 ! (length calls + length opre)
          = \<lparr>rec_tool = tc_name tc, rec_args = a, rec_result = error_payload (message x)\<rparr>"
    unfolding tm_def rc_def by blast
qed

text \<open>
  An instance: the provider asks for a tool of a backend that is not connected. The tool
  result it is given next reads \<open>{"error":"Server 'ghost' nicht verbunden"}\<close>; the run goes
  on, the provider answers with that text, and the run ends with \<open>success = True\<close> after
  two iterations.
\<close>

theorem tool_errors_stay_in_loop_witness:
  "(\<exists>calls3 results3 w3.
       loopAnthropic recovering_llm demo_sdk (config anthropic_agent) manager0
           DEFAULT_SYSTEM_PROMPT [] [UserText ''hello''] [] 0 world0
         = loopAnthropic recovering_llm demo_sdk (config anthropic_agent) manager0
             DEFAULT_SYSTEM_PROMPT []
             [UserText ''hello'', AssistantContent [ToolUseBlock ghost_use],
              UserToolResults results3]
             calls3 1 w3
     \<and> results3
         = [\<lparr>tool_use_id = ''t1'',
             result_content = ''{'' @ dquote @ ''error'' @ dquote @ '':'' @ dquote
                @ ''Server '' @ quote @ ''ghost'' @ quote @ '' nicht verbunden'' @ dquote @ ''}'',
             is_error = True\<rparr>]
     \<and> calls3
         = [\<lparr>rec_tool = ''ghost__tool'', rec_args = JObj [],
             rec_result = JObj [(''error'', JStr (''Server '' @ quote @ ''ghost'' @ quote
                                                   @ '' nicht verbunden''))]\<rparr>])
   \<and> run recovering_llm demo_sdk anthropic_agent manager0 world0 ''hello'' None
       = (Inr \<lparr>success = True,
               answer = ''{'' @ dquote @ ''error'' @ dquote @ '':'' @ dquote
                  @ ''Server '' @ quote @ ''ghost'' @ quote @ '' nicht verbunden'' @ dquote @ ''}'',
               toolCalls =
                 [\<lparr>rec_tool = ''ghost__tool'', rec_args = JObj [],
                   rec_result = JObj [(''error'', JStr (''Server '' @ quote @ ''ghost'' @ quote
                                                         @ '' nicht verbunden''))]\<rparr>],
               iterations = 2, error = None\<rparr>,
          world0\<lparr>completions := 2\<rparr>)
   \<and> (\<exists>calls3 tms w3.
       loopOpenAI recovering_llm demo_sdk (config openai_agent) manager0 []
           [UserMsg ''hello''] [] 0 world0
         = loopOpenAI recovering_llm demo_sdk (config openai_agent) manager0 []
             ([UserMsg ''hello'',
               AssistantMsg \<lparr>msg_content = None, tool_calls = Some [ghost_call]\<rparr>] @ tms)
             calls3 1 w3
     \<and> tms
         = [ToolMsg ''c1''
              (''{'' @ dquote @ ''error'' @ dquote @ '':'' @ dquote
                @ ''Server '' @ quote @ ''ghost'' @ quote @ '' nicht verbunden'' @ dquote @ ''}'')]
     \<and> calls3
         = [\<lparr>rec_tool = ''ghost__tool'', rec_args = JObj [],
             rec_result = JObj [(''error'', JStr (''Server '' @ quote @ ''ghost'' @ quote
                                                   @ '' nicht verbunden''))]\<rparr>])
   \<and> run recovering_llm demo_sdk openai_agent manager0 world0 ''hello'' None
       = (Inr \<lparr>success = True,
               answer = ''{'' @ dquote @ ''error'' @ dquote @ '':'' @ dquote
                  @ ''Server '' @ quote @ ''ghost'' @ quote @ '' nicht verbunden'' @ dquote @ ''}'',
               toolCalls =
                 [\<lparr>rec_tool = ''ghost__tool'', rec_args = JObj [],
                   rec_result = JObj [(''error'', JStr (''Server '' @ quote @ ''ghost'' @ quote
                                                         @ '' nicht verbunden''))]\<rparr>],
               iterations = 2, error = None\<rparr>,
          world0\<lparr>completions := 2\<rparr>)"
proof -
  note A = tool_errors_stay_in_loop[THEN conjunct1, rule_format]
  note B = tool_errors_stay_in_loop[THEN conjunct2, rule_format]
  define resp where "resp = \<lparr>stop_reason = tool_use, content = [ToolUseBlock ghost_use]\<rparr>"
  have a: "\<exists>calls3 results3 w3.
       loopAnthropic recovering_llm demo_sdk (config anthropic_agent) manager0
           DEFAULT_SYSTEM_PROMPT [] [UserText ''hello''] [] 0 world0
         = loopAnthropic recovering_llm demo_sdk (config anthropic_agent) manager0
             DEFAULT_SYSTEM_PROMPT []
             [UserText ''hello'', AssistantContent [ToolUseBlock ghost_use],
              UserToolResults results3]
             calls3 1 w3
     \<and> results3
         = [\<lparr>tool_use_id = ''t1'',
             result_content = ''{'' @ dquote @ ''error'' @ dquote @ '':'' @ dquote
                @ ''Server '' @ quote @ ''ghost'' @ quote @ '' nicht verbunden'' @ dquote @ ''}'',
             is_error = True\<rparr>]
     \<and> calls3
         = [\<lparr>rec_tool = ''ghost__tool'', rec_args = JObj [],
             rec_result = JObj [(''error'', JStr (''Server '' @ quote @ ''ghost'' @ quote
                                                   @ '' nicht verbunden''))]\<rparr>]"
  proof -
    have h: "0 < maxIterations (config anthropic_agent)
        \<and> messages_create recovering_llm world0
              (anthropicRequest (config anthropic_agent) DEFAULT_SYSTEM_PROMPT []
                 [UserText ''hello'']) = Inr resp
        \<and> stop_reason resp = tool_use
        \<and> toolUseBlocks (content resp) = [] @ ghost_use # []
        \<and> execToolUses recovering_llm demo_sdk manager0 [] [] (llm_called world0) []
            = ([], [], llm_called world0)
        \<and> callToolByFullName demo_sdk manager0 (llm_called world0) (tu_name ghost_use)
              (tu_input ghost_use)
            = (Inl (ServerNotConnected ''ghost''), llm_called world0)"
      using ghost_dispatch[of "llm_called world0" "JObj []"]
      by (simp add: anthropic_agent_def recovering_llm_def resp_def anthropicRequest_def
          toolUseBlocks_def List.map_filter_def ghost_use_def)
    from A[OF h] obtain calls3 results3 w3 where
      l: "loopAnthropic recovering_llm demo_sdk (config anthropic_agent) manager0
            DEFAULT_SYSTEM_PROMPT [] [UserText ''hello''] [] 0 world0
          = loopAnthropic recovering_llm demo_sdk (config anthropic_agent) manager0
              DEFAULT_SYSTEM_PROMPT []
              ([UserText ''hello''] @ [AssistantContent (content resp), UserToolResults results3])
              calls3 (0 + 1) w3"
      and ids: "map tool_use_id results3 = map tu_id ([] @ ghost_use # [])"
      and r: "results3 ! length ([] :: ToolUse list)
          = \<lparr>tool_use_id = tu_id ghost_use,
             result_content = JSON_stringify recovering_llm
                (error_payload (message (ServerNotConnected ''ghost''))),
             is_error = True\<rparr>"
      and len: "length calls3 = length ([] :: ToolCallRecord list) + length ([] @ ghost_use # [])"
      and c: "calls3 ! (length ([] :: ToolCallRecord list) + length ([] :: ToolUse list))
          = \<lparr>rec_tool = tu_name ghost_use, rec_args = tu_input ghost_use,
             rec_result = error_payload (message (ServerNotConnected ''ghost''))\<rparr>"
      by blast
    from ids have "length results3 = Suc 0"
      using length_map[of tool_use_id results3] by simp
    from singleton_nth[OF this] r have r3: "results3
         = [\<lparr>tool_use_id = ''t1'',
             result_content = ''{'' @ dquote @ ''error'' @ dquote @ '':'' @ dquote
                @ ''Server '' @ quote @ ''ghost'' @ quote @ '' nicht verbunden'' @ dquote @ ''}'',
             is_error = True\<rparr>]"
      by (simp add: ghost_use_def recovering_llm_def stringify0_def error_payload_def)
    from len have "length calls3 = Suc 0" by simp
    from singleton_nth[OF this] c have c3: "calls3
         = [\<lparr>rec_tool = ''ghost__tool'', rec_args = JObj [],
             rec_result = JObj [(''error'', JStr (''Server '' @ quote @ ''ghost'' @ quote
                                                   @ '' nicht verbunden''))]\<rparr>]"
      by (simp add: ghost_use_def error_payload_def)
    from l have fin: "loopAnthropic recovering_llm demo_sdk (config anthropic_agent) manager0
           DEFAULT_SYSTEM_PROMPT [] [UserText ''hello''] [] 0 world0
         = loopAnthropic recovering_llm demo_sdk (config anthropic_agent) manager0
             DEFAULT_SYSTEM_PROMPT []
             [UserText ''hello'', AssistantContent [ToolUseBlock ghost_use],
              UserToolResults results3]
             calls3 1 w3"
      by (simp add: resp_def)
    show ?thesis by (intro exI conjI) (rule fin, rule r3, rule c3)
  qed
  have b: "run recovering_llm demo_sdk anthropic_agent manager0 world0 ''hello'' None
       = (Inr \<lparr>success = True,
               answer = ''{'' @ dquote @ ''error'' @ dquote @ '':'' @ dquote
                  @ ''Server '' @ quote @ ''ghost'' @ quote @ '' nicht verbunden'' @ dquote @ ''}'',
               toolCalls =
                 [\<lparr>rec_tool = ''ghost__tool'', rec_args = JObj [],
                   rec_result = JObj [(''error'', JStr (''Server '' @ quote @ ''ghost'' @ quote
                                                         @ '' nicht verbunden''))]\<rparr>],
               iterations = 2, error = None\<rparr>,
          world0\<lparr>completions := 2\<rparr>)"
    using ghost_dispatch
    by (simp add: run_def runWithAnthropic_def anthropic_agent_def loopAnthropic.simps
        tryAnthropic_def recovering_llm_def anthropicRequest_def toolUseBlocks_def
        List.map_filter_def ghost_use_def execToolUse_def textContent_def stringify0_def
        error_payload_def llm_called_def world0_def Let_def)
  define ch where "ch = \<lparr>finish_reason = ''tool_calls'',
      choice_message = \<lparr>msg_content = None, tool_calls = Some [ghost_call]\<rparr>\<rparr>"
  have c: "\<exists>calls3 tms w3.
       loopOpenAI recovering_llm demo_sdk (config openai_agent) manager0 []
           [UserMsg ''hello''] [] 0 world0
         = loopOpenAI recovering_llm demo_sdk (config openai_agent) manager0 []
             ([UserMsg ''hello'',
               AssistantMsg \<lparr>msg_content = None, tool_calls = Some [ghost_call]\<rparr>] @ tms)
             calls3 1 w3
     \<and> tms
         = [ToolMsg ''c1''
              (''{'' @ dquote @ ''error'' @ dquote @ '':'' @ dquote
                @ ''Server '' @ quote @ ''ghost'' @ quote @ '' nicht verbunden'' @ dquote @ ''}'')]
     \<and> calls3
         = [\<lparr>rec_tool = ''ghost__tool'', rec_args = JObj [],
             rec_result = JObj [(''error'', JStr (''Server '' @ quote @ ''ghost'' @ quote
                                                   @ '' nicht verbunden''))]\<rparr>]"
  proof -
    have h: "0 < maxIterations (config openai_agent)
        \<and> chat_completions_create recovering_llm world0
              (openaiRequest (config openai_agent) [] [UserMsg ''hello''])
            = Inr \<lparr>choices = [ch]\<rparr>
        \<and> choices \<lparr>choices = [ch]\<rparr> = ch # []
        \<and> finish_reason ch \<noteq> ''stop''
        \<and> tool_calls (choice_message ch) = Some ([] @ ghost_call # [])
        \<and> execToolCalls recovering_llm demo_sdk manager0
              ([UserMsg ''hello''] @ [AssistantMsg (choice_message ch)]) []
              (llm_called world0) []
            = (Inr ([UserMsg ''hello''] @ [AssistantMsg (choice_message ch)]), [],
               llm_called world0)
        \<and> JSON_parse recovering_llm (tc_arguments ghost_call) = Inr (JObj [])
        \<and> callToolByFullName demo_sdk manager0 (llm_called world0) (tc_name ghost_call) (JObj [])
            = (Inl (ServerNotConnected ''ghost''), llm_called world0)
        \<and> (\<forall>t \<in> set []. \<exists>v. JSON_parse recovering_llm (tc_arguments t) = Inr v)"
      using ghost_dispatch[of "llm_called world0" "JObj []"]
      by (simp add: openai_agent_def recovering_llm_def ch_def openaiRequest_def
          ghost_call_def parse0_def)
    from B[OF h] obtain calls3 tms w3 where
      l: "loopOpenAI recovering_llm demo_sdk (config openai_agent) manager0 []
            [UserMsg ''hello''] [] 0 world0
          = loopOpenAI recovering_llm demo_sdk (config openai_agent) manager0 []
              ([UserMsg ''hello''] @ [AssistantMsg (choice_message ch)] @ tms) calls3 (0 + 1) w3"
      and tl: "length tms = length ([] @ ghost_call # [])"
      and t: "tms ! length ([] :: ToolCall list)
          = ToolMsg (tc_id ghost_call)
              (JSON_stringify recovering_llm
                 (error_payload (message (ServerNotConnected ''ghost''))))"
      and len: "length calls3 = length ([] :: ToolCallRecord list) + length ([] @ ghost_call # [])"
      and cc: "calls3 ! (length ([] :: ToolCallRecord list) + length ([] :: ToolCall list))
          = \<lparr>rec_tool = tc_name ghost_call, rec_args = JObj [],
             rec_result = error_payload (message (ServerNotConnected ''ghost''))\<rparr>"
      by blast
    from tl have "length tms = Suc 0" by simp
    from singleton_nth[OF this] t have t3: "tms
         = [ToolMsg ''c1''
              (''{'' @ dquote @ ''error'' @ dquote @ '':'' @ dquote
                @ ''Server '' @ quote @ ''ghost'' @ quote @ '' nicht verbunden'' @ dquote @ ''}'')]"
      by (simp add: ghost_call_def recovering_llm_def stringify0_def error_payload_def)
    from len have "length calls3 = Suc 0" by simp
    from singleton_nth[OF this] cc have c3: "calls3
         = [\<lparr>rec_tool = ''ghost__tool'', rec_args = JObj [],
             rec_result = JObj [(''error'', JStr (''Server '' @ quote @ ''ghost'' @ quote
                                                   @ '' nicht verbunden''))]\<rparr>]"
      by (simp add: ghost_call_def error_payload_def)
    from l have fin: "loopOpenAI recovering_llm demo_sdk (config openai_agent) manager0 []
           [UserMsg ''hello''] [] 0 world0
         = loopOpenAI recovering_llm demo_sdk (config openai_agent) manager0 []
             ([UserMsg ''hello'',
               AssistantMsg \<lparr>msg_content = None, tool_calls = Some [ghost_call]\<rparr>] @ tms)
             calls3 1 w3"
      by (simp add: ch_def)
    show ?thesis by (intro exI conjI) (rule fin, rule t3, rule c3)
  qed
  have d: "run recovering_llm demo_sdk openai_agent manager0 world0 ''hello'' None
       = (Inr \<lparr>success = True,
               answer = ''{'' @ dquote @ ''error'' @ dquote @ '':'' @ dquote
                  @ ''Server '' @ quote @ ''ghost'' @ quote @ '' nicht verbunden'' @ dquote @ ''}'',
               toolCalls =
                 [\<lparr>rec_tool = ''ghost__tool'', rec_args = JObj [],
                   rec_result = JObj [(''error'', JStr (''Server '' @ quote @ ''ghost'' @ quote
                                                         @ '' nicht verbunden''))]\<rparr>],
               iterations = 2, error = None\<rparr>,
          world0\<lparr>completions := 2\<rparr>)"
    using ghost_dispatch
    by (simp add: run_def runWithOpenAI_def openai_agent_def loopOpenAI.simps
        tryOpenAI_def recovering_llm_def openaiRequest_def ghost_call_def parse0_def
        stringify0_def error_payload_def llm_called_def world0_def Let_def)
  show ?thesis by (intro conjI) (rule a b c d)+
qed

section \<open>The iteration cap\<close>

text \<open>
  C4. For an agent the constructor built, a run against a provider that never gives a
  final answer returns a result (no exception) with \<open>success = False\<close>, the error
  \<open>Max iterations reached\<close> and the answer that names the limit; its iteration count is
  exactly the configured maximum (10 when the configuration gives none), and the provider
  was asked exactly that many times. The cap is a natural number.
\<close>

theorem iteration_cap:
  assumes "new_McpAgent hasAnthropic hasOpenAI registry cfg = Inr ag"
    and "never_final llm (agent_provider ag)"
  shows "\<exists>r w1. run llm sdk ag m w userPrompt ctx = (Inr r, w1)
           \<and> \<not> success r
           \<and> iterations r = (case cfg_maxIterations cfg of None \<Rightarrow> 10 | Some k \<Rightarrow> k)
           \<and> error r = Some ''Max iterations reached''
           \<and> answer r = limit_answer (agent_provider ag) (iterations r)
           \<and> completions w1 = completions w + iterations r"
proof (cases "agent_provider ag")
  case Anthropic
  then have nf: "never_final_anthropic llm" using assms(2) by (simp add: never_final_def)
  have a: "anthropic ag" using new_McpAgent_fields(2)[OF assms(1)] Anthropic by simp
  define sys where "sys = systemPrompt (config ag)
      @ (case ctx of None \<Rightarrow> [] | Some x \<Rightarrow> fst (buildContextSection (JSON_stringify llm) x))"
  from loopAnthropic_never_final[OF nf, of 0 "config ag" sdk m sys "getForLLM (agent_registry ag)"
      "[UserText userPrompt]" "[]" w]
  obtain calls1 w1 where
    "loopAnthropic llm sdk (config ag) m sys (getForLLM (agent_registry ag)) [UserText userPrompt] [] 0 w
       = (\<lparr>success = False, answer = limit_answer Anthropic (maxIterations (config ag)),
           toolCalls = calls1, iterations = maxIterations (config ag),
           error = Some ''Max iterations reached''\<rparr>, w1)"
    "completions w1 = completions w + maxIterations (config ag)"
    by auto
  then show ?thesis
    using Anthropic a new_McpAgent_fields(1)[OF assms(1)]
    by (simp add: run_def runWithAnthropic_def Let_def sys_def)
next
  case OpenAI
  then have nf: "never_final_openai llm" using assms(2) by (simp add: never_final_def)
  have a: "openai ag" using new_McpAgent_fields(3)[OF assms(1)] OpenAI by simp
  define sys where "sys = systemPrompt (config ag)
      @ (case ctx of None \<Rightarrow> [] | Some x \<Rightarrow> fst (buildContextSection (JSON_stringify llm) x))"
  from loopOpenAI_never_final[OF nf, of 0 "config ag" sdk m "getForLLM (agent_registry ag)"
      "[SystemMsg sys, UserMsg userPrompt]" "[]" w]
  obtain calls1 w1 where
    "loopOpenAI llm sdk (config ag) m (getForLLM (agent_registry ag)) [SystemMsg sys, UserMsg userPrompt] [] 0 w
       = (\<lparr>success = False, answer = limit_answer OpenAI (maxIterations (config ag)),
           toolCalls = calls1, iterations = maxIterations (config ag),
           error = Some ''Max iterations reached''\<rparr>, w1)"
    "completions w1 = completions w + maxIterations (config ag)"
    by auto
  then show ?thesis
    using OpenAI a new_McpAgent_fields(1)[OF assms(1)]
    by (simp add: run_def runWithOpenAI_def Let_def sys_def)
qed

theorem iteration_cap_witness:
  "\<exists>r w1. run looping_llm demo_sdk anthropic_agent manager0 world0 ''hello'' None = (Inr r, w1)
           \<and> \<not> success r
           \<and> iterations r = 10
           \<and> error r = Some ''Max iterations reached''
           \<and> answer r = ''Maximale Anzahl an Iterationen (10) erreicht.''
           \<and> completions w1 = 10"
  using iteration_cap[OF new_anthropic_agent, of looping_llm demo_sdk manager0 world0 "''hello''" None]
    looping_never_final
  by (auto simp: anthropic_agent_def default_config_def world0_def limit_answer_def string_of_nat.simps)

section \<open>A failing provider\<close>

text \<open>
  C5, as the code has it. In the agent's loops a rejected provider request ends the run at
  once, at whatever iteration it happens: the loop returns a result with
  \<open>success = False\<close>, the provider's message as \<open>error\<close> and inside \<open>answer\<close>, the
  tool calls recorded so far and the number of the iteration that failed; the world has
  seen exactly the one failed request and nothing after it. For an agent the constructor
  built, a run whose first provider request is rejected returns that result with one
  iteration. In the bridge's loops the rejected request also ends the run at once and is
  not repeated, but the exception leaves the loop and \<^verbatim>\<open>runAgent\<close>: there is no
  result object.
\<close>

theorem provider_failure:
  "(its < maxIterations c \<and> messages_create llm w (anthropicRequest c sys tls msgs) = Inl e \<longrightarrow>
      loopAnthropic llm sdk c m sys tls msgs calls its w
        = (\<lparr>success = False,
            answer = ''Fehler w'' @ auml @ ''hrend der Agent-Ausf'' @ uuml @ ''hrung: '' @ e,
            toolCalls = calls, iterations = its + 1, error = Some e\<rparr>,
           llm_called w))
   \<and> (its < maxIterations c \<and> chat_completions_create llm w (openaiRequest c tls omsgs) = Inl e \<longrightarrow>
      loopOpenAI llm sdk c m tls omsgs calls its w
        = (\<lparr>success = False, answer = ''Fehler: '' @ e,
            toolCalls = calls, iterations = its + 1, error = Some e\<rparr>,
           llm_called w))
   \<and> (new_McpAgent hasAnthropic hasOpenAI registry cfg = Inr ag
        \<and> agent_provider ag = Anthropic \<and> 0 < maxIterations (config ag)
        \<and> messages_create llm w
            (anthropicRequest (config ag)
               (systemPrompt (config ag)
                @ (case ctx of
                     None \<Rightarrow> []
                   | Some x \<Rightarrow> fst (buildContextSection (JSON_stringify llm) x)))
               (getForLLM (agent_registry ag)) [UserText userPrompt]) = Inl e \<longrightarrow>
      run llm sdk ag m w userPrompt ctx
        = (Inr \<lparr>success = False,
                answer = ''Fehler w'' @ auml @ ''hrend der Agent-Ausf'' @ uuml @ ''hrung: '' @ e,
                toolCalls = [], iterations = 1, error = Some e\<rparr>,
           llm_called w))
   \<and> (new_McpAgent hasAnthropic hasOpenAI registry cfg = Inr ag
        \<and> agent_provider ag = OpenAI \<and> 0 < maxIterations (config ag)
        \<and> chat_completions_create llm w
            (openaiRequest (config ag) (getForLLM (agent_registry ag))
               [SystemMsg (systemPrompt (config ag)
                           @ (case ctx of
                                None \<Rightarrow> []
                              | Some x \<Rightarrow> fst (buildContextSection (JSON_stringify llm) x))),
                UserMsg userPrompt]) = Inl e \<longrightarrow>
      run llm sdk ag m w userPrompt ctx
        = (Inr \<lparr>success = False, answer = ''Fehler: '' @ e,
                toolCalls = [], iterations = 1, error = Some e\<rparr>,
           llm_called w))
   \<and> (its < 10 \<and> chat_completions_create llm w (bridge_openaiRequest b omsgs) = Inl e \<longrightarrow>
      bridge_loopOpenAI llm sdk b omsgs its w = (Inl (Thrown e), llm_called w))
   \<and> (its < 10 \<and> messages_create llm w (bridge_anthropicRequest b sys msgs) = Inl e \<longrightarrow>
      bridge_loopAnthropic llm sdk b sys msgs its w = (Inl (Thrown e), llm_called w))
   \<and> (bridge_provider (bridge_config b) = P_openai \<and> openai_ready b
        \<and> chat_completions_create llm w
            (bridge_openaiRequest b
               [SystemMsg (fst (buildSystemPrompt b bctx)), UserMsg userPrompt]) = Inl e \<longrightarrow>
      runAgent llm sdk b w userPrompt bctx = (Inl (Thrown e), llm_called w))
   \<and> (bridge_provider (bridge_config b) \<noteq> P_openai \<and> anthropic_ready b
        \<and> messages_create llm w
            (bridge_anthropicRequest b (fst (buildSystemPrompt b bctx)) [UserText userPrompt])
          = Inl e \<longrightarrow>
      runAgent llm sdk b w userPrompt bctx = (Inl (Thrown e), llm_called w))"
proof (intro conjI impI)
  assume "its < maxIterations c \<and> messages_create llm w (anthropicRequest c sys tls msgs) = Inl e"
  then show "loopAnthropic llm sdk c m sys tls msgs calls its w
        = (\<lparr>success = False,
            answer = ''Fehler w'' @ auml @ ''hrend der Agent-Ausf'' @ uuml @ ''hrung: '' @ e,
            toolCalls = calls, iterations = its + 1, error = Some e\<rparr>,
           llm_called w)"
    by (subst loopAnthropic.simps) (simp add: tryAnthropic_def)
next
  assume "its < maxIterations c \<and> chat_completions_create llm w (openaiRequest c tls omsgs) = Inl e"
  then show "loopOpenAI llm sdk c m tls omsgs calls its w
        = (\<lparr>success = False, answer = ''Fehler: '' @ e,
            toolCalls = calls, iterations = its + 1, error = Some e\<rparr>,
           llm_called w)"
    by (subst loopOpenAI.simps) (simp add: tryOpenAI_def)
next
  assume h: "new_McpAgent hasAnthropic hasOpenAI registry cfg = Inr ag
        \<and> agent_provider ag = Anthropic \<and> 0 < maxIterations (config ag)
        \<and> messages_create llm w
            (anthropicRequest (config ag)
               (systemPrompt (config ag)
                @ (case ctx of
                     None \<Rightarrow> []
                   | Some x \<Rightarrow> fst (buildContextSection (JSON_stringify llm) x)))
               (getForLLM (agent_registry ag)) [UserText userPrompt]) = Inl e"
  then have a: "anthropic ag" using new_McpAgent_fields(2)[of hasAnthropic hasOpenAI registry cfg ag]
    by blast
  show "run llm sdk ag m w userPrompt ctx
        = (Inr \<lparr>success = False,
                answer = ''Fehler w'' @ auml @ ''hrend der Agent-Ausf'' @ uuml @ ''hrung: '' @ e,
                toolCalls = [], iterations = 1, error = Some e\<rparr>,
           llm_called w)"
    using h a
    by (simp add: run_def runWithAnthropic_def Let_def)
       (subst loopAnthropic.simps, simp add: tryAnthropic_def)
next
  assume h: "new_McpAgent hasAnthropic hasOpenAI registry cfg = Inr ag
        \<and> agent_provider ag = OpenAI \<and> 0 < maxIterations (config ag)
        \<and> chat_completions_create llm w
            (openaiRequest (config ag) (getForLLM (agent_registry ag))
               [SystemMsg (systemPrompt (config ag)
                           @ (case ctx of
                                None \<Rightarrow> []
                              | Some x \<Rightarrow> fst (buildContextSection (JSON_stringify llm) x))),
                UserMsg userPrompt]) = Inl e"
  then have a: "openai ag" using new_McpAgent_fields(3)[of hasAnthropic hasOpenAI registry cfg ag]
    by blast
  show "run llm sdk ag m w userPrompt ctx
        = (Inr \<lparr>success = False, answer = ''Fehler: '' @ e,
                toolCalls = [], iterations = 1, error = Some e\<rparr>,
           llm_called w)"
    using h a
    by (simp add: run_def runWithOpenAI_def Let_def)
       (subst loopOpenAI.simps, simp add: tryOpenAI_def)
next
  assume "its < 10 \<and> chat_completions_create llm w (bridge_openaiRequest b omsgs) = Inl e"
  then show "bridge_loopOpenAI llm sdk b omsgs its w = (Inl (Thrown e), llm_called w)"
    by (subst bridge_loopOpenAI.simps) simp
next
  assume "its < 10 \<and> messages_create llm w (bridge_anthropicRequest b sys msgs) = Inl e"
  then show "bridge_loopAnthropic llm sdk b sys msgs its w = (Inl (Thrown e), llm_called w)"
    by (subst bridge_loopAnthropic.simps) simp
next
  assume h: "bridge_provider (bridge_config b) = P_openai \<and> openai_ready b
        \<and> chat_completions_create llm w
            (bridge_openaiRequest b
               [SystemMsg (fst (buildSystemPrompt b bctx)), UserMsg userPrompt]) = Inl e"
  obtain s where s: "buildSystemPrompt b bctx = (s, b, bctx)"
    using buildSystemPrompt_snd[of b bctx] by (cases "buildSystemPrompt b bctx") auto
  show "runAgent llm sdk b w userPrompt bctx = (Inl (Thrown e), llm_called w)"
    using h s by (simp add: runAgent_def bridge_runWithOpenAI_def)
      (subst bridge_loopOpenAI.simps, simp)
next
  assume h: "bridge_provider (bridge_config b) \<noteq> P_openai \<and> anthropic_ready b
        \<and> messages_create llm w
            (bridge_anthropicRequest b (fst (buildSystemPrompt b bctx)) [UserText userPrompt])
          = Inl e"
  obtain s where s: "buildSystemPrompt b bctx = (s, b, bctx)"
    using buildSystemPrompt_snd[of b bctx] by (cases "buildSystemPrompt b bctx") auto
  show "runAgent llm sdk b w userPrompt bctx = (Inl (Thrown e), llm_called w)"
    using h s by (simp add: runAgent_def bridge_runWithAnthropic_def)
      (subst bridge_loopAnthropic.simps, simp)
qed

theorem provider_failure_witness:
  "run failing_llm demo_sdk anthropic_agent manager0 world0 ''hello'' None
     = (Inr \<lparr>success = False,
             answer = ''Fehler w'' @ auml @ ''hrend der Agent-Ausf'' @ uuml
                      @ ''hrung: 401 Unauthorized'',
             toolCalls = [], iterations = 1, error = Some ''401 Unauthorized''\<rparr>,
        world0\<lparr>completions := 1\<rparr>)
   \<and> run failing_llm demo_sdk openai_agent manager0 world0 ''hello'' None
     = (Inr \<lparr>success = False, answer = ''Fehler: 401 Unauthorized'',
             toolCalls = [], iterations = 1, error = Some ''401 Unauthorized''\<rparr>,
        world0\<lparr>completions := 1\<rparr>)
   \<and> loopAnthropic failing_llm demo_sdk (config anthropic_agent) manager0 [] []
        [UserText ''hello''] [] 3 world0
     = (\<lparr>success = False,
         answer = ''Fehler w'' @ auml @ ''hrend der Agent-Ausf'' @ uuml
                  @ ''hrung: 401 Unauthorized'',
         toolCalls = [], iterations = 4, error = Some ''401 Unauthorized''\<rparr>,
        world0\<lparr>completions := 1\<rparr>)
   \<and> loopOpenAI failing_llm demo_sdk (config openai_agent) manager0 []
        [UserMsg ''hello''] [] 3 world0
     = (\<lparr>success = False, answer = ''Fehler: 401 Unauthorized'',
         toolCalls = [], iterations = 4, error = Some ''401 Unauthorized''\<rparr>,
        world0\<lparr>completions := 1\<rparr>)
   \<and> bridge_loopOpenAI failing_llm demo_sdk bridge0 [UserMsg ''hello''] 3 world0
     = (Inl (Thrown ''401 Unauthorized''), world0\<lparr>completions := 1\<rparr>)
   \<and> bridge_loopAnthropic failing_llm demo_sdk bridge_claude [] [UserText ''hello''] 3 world0
     = (Inl (Thrown ''401 Unauthorized''), world0\<lparr>completions := 1\<rparr>)
   \<and> runAgent failing_llm demo_sdk bridge0 world0 ''hello'' bridge_context0
     = (Inl (Thrown ''401 Unauthorized''), world0\<lparr>completions := 1\<rparr>)
   \<and> runAgent failing_llm demo_sdk bridge_claude world0 ''hello'' bridge_context0
     = (Inl (Thrown ''401 Unauthorized''), world0\<lparr>completions := 1\<rparr>)"
proof -
  note t = provider_failure[where its = 3 and c = "config anthropic_agent" and llm = failing_llm
      and w = world0 and sys = "[]" and tls = "[]"
      and msgs = "[UserText ''hello'']" and e = "''401 Unauthorized''" and sdk = demo_sdk
      and m = manager0 and calls = "[]" and hasAnthropic = True and hasOpenAI = False
      and registry = new_ToolRegistry and cfg = default_config and ag = anthropic_agent
      and omsgs = "[UserMsg ''hello'']" and b = bridge0 and userPrompt = "''hello''"
      and ctx = None and bctx = bridge_context0]
  note u = provider_failure[where its = 3 and c = "config openai_agent" and llm = failing_llm
      and w = world0 and tls = "[]" and sys = "[]" and msgs = "[UserText ''hello'']"
      and omsgs = "[UserMsg ''hello'']"
      and e = "''401 Unauthorized''" and sdk = demo_sdk
      and m = manager0 and calls = "[]" and hasAnthropic = False and hasOpenAI = True
      and registry = new_ToolRegistry and cfg = default_config and ag = openai_agent
      and b = bridge_claude and userPrompt = "''hello''" and ctx = None
      and bctx = bridge_context0]
  have a: "run failing_llm demo_sdk anthropic_agent manager0 world0 ''hello'' None
     = (Inr \<lparr>success = False,
             answer = ''Fehler w'' @ auml @ ''hrend der Agent-Ausf'' @ uuml
                      @ ''hrung: 401 Unauthorized'',
             toolCalls = [], iterations = 1, error = Some ''401 Unauthorized''\<rparr>,
        world0\<lparr>completions := 1\<rparr>)"
    using t new_anthropic_agent
    by (simp add: anthropic_agent_def failing_llm_def llm_called_def world0_def)
  have b: "run failing_llm demo_sdk openai_agent manager0 world0 ''hello'' None
     = (Inr \<lparr>success = False, answer = ''Fehler: 401 Unauthorized'',
             toolCalls = [], iterations = 1, error = Some ''401 Unauthorized''\<rparr>,
        world0\<lparr>completions := 1\<rparr>)"
    using u new_openai_agent
    by (simp add: openai_agent_def failing_llm_def llm_called_def world0_def)
  have c: "loopAnthropic failing_llm demo_sdk (config anthropic_agent) manager0 [] []
        [UserText ''hello''] [] 3 world0
     = (\<lparr>success = False,
         answer = ''Fehler w'' @ auml @ ''hrend der Agent-Ausf'' @ uuml
                  @ ''hrung: 401 Unauthorized'',
         toolCalls = [], iterations = 4, error = Some ''401 Unauthorized''\<rparr>,
        world0\<lparr>completions := 1\<rparr>)"
    using t by (simp add: anthropic_agent_def failing_llm_def llm_called_def world0_def)
  have d: "loopOpenAI failing_llm demo_sdk (config openai_agent) manager0 []
        [UserMsg ''hello''] [] 3 world0
     = (\<lparr>success = False, answer = ''Fehler: 401 Unauthorized'',
         toolCalls = [], iterations = 4, error = Some ''401 Unauthorized''\<rparr>,
        world0\<lparr>completions := 1\<rparr>)"
    using u by (simp add: openai_agent_def failing_llm_def llm_called_def world0_def)
  have e: "bridge_loopOpenAI failing_llm demo_sdk bridge0 [UserMsg ''hello''] 3 world0
     = (Inl (Thrown ''401 Unauthorized''), world0\<lparr>completions := 1\<rparr>)"
    using t by (simp add: failing_llm_def llm_called_def world0_def)
  have f: "bridge_loopAnthropic failing_llm demo_sdk bridge_claude [] [UserText ''hello''] 3 world0
     = (Inl (Thrown ''401 Unauthorized''), world0\<lparr>completions := 1\<rparr>)"
    using u by (simp add: failing_llm_def llm_called_def world0_def)
  have g: "runAgent failing_llm demo_sdk bridge0 world0 ''hello'' bridge_context0
     = (Inl (Thrown ''401 Unauthorized''), world0\<lparr>completions := 1\<rparr>)"
    using t by (simp add: failing_llm_def llm_called_def world0_def bridge0_def)
  have h: "runAgent failing_llm demo_sdk bridge_claude world0 ''hello'' bridge_context0
     = (Inl (Thrown ''401 Unauthorized''), world0\<lparr>completions := 1\<rparr>)"
    using u by (simp add: failing_llm_def llm_called_def world0_def bridge_claude_def)
  show ?thesis by (intro conjI) (rule a b c d e f g h)+
qed

text \<open>
  C5 as stated fails at the bridge: after \<^verbatim>\<open>initialize\<close>, with a provider that rejects
  the request, \<^verbatim>\<open>runAgent\<close> ends with the provider's exception, for either provider.
\<close>

theorem provider_failure_counterexample:
  "initialize (Some \<lparr>servers = [(''demo'', demo_config)], defaults_activeServers = None\<rparr>)
     (new_AgentBridge (bridge_config bridge0)) = Inr bridge0
   \<and> runAgent failing_llm demo_sdk bridge0 world0 ''hello'' bridge_context0
     = (Inl (Thrown ''401 Unauthorized''), world0\<lparr>completions := 1\<rparr>)
   \<and> initialize (Some \<lparr>servers = [(''demo'', demo_config)], defaults_activeServers = None\<rparr>)
     (new_AgentBridge (bridge_config bridge_claude)) = Inr bridge_claude
   \<and> runAgent failing_llm demo_sdk bridge_claude world0 ''hello'' bridge_context0
     = (Inl (Thrown ''401 Unauthorized''), world0\<lparr>completions := 1\<rparr>)"
  by (simp add: initialize_bridge0 initialize_bridge_claude)
     (simp add: runAgent_def bridge_runWithOpenAI_def bridge_runWithAnthropic_def
      buildSystemPrompt_def Let_def
      bridge_loopOpenAI.simps bridge_loopAnthropic.simps bridge0_def bridge_claude_def
      failing_llm_def llm_called_def world0_def)

section \<open>Connecting a backend twice\<close>

text \<open>
  C6 at the manager. \<^verbatim>\<open>connectStdio\<close> does not look for an existing connection: a
  second \<^verbatim>\<open>connectStdio("demo", ...)\<close> succeeds, starts a second child process and
  replaces the map entry, and the first process (handle 0) stays alive with no connection
  that could close it. After the first connect there is one process for \<open>demo\<close>, after the
  second there are two.
\<close>

theorem duplicate_connectStdio:
  "(case connectStdio demo_sdk manager0 world0 ''demo'' demo_config of
      (r1, m1, w1) \<Rightarrow>
        (case connectStdio demo_sdk m1 w1 ''demo'' demo_config of
           (r2, m2, w2) \<Rightarrow>
             (processes_of w1 ''demo'', map client (map snd (connections m1)),
              isl r2, map_keys (connections m2),
              processes_of w2 ''demo'', map client (map snd (connections m2)))))
   = ([0], [0], False, [''demo''], [0, 1], [1])"
  by (simp add: connectStdio_def demo_sdk_def manager0_def world0_def demo_config_def
      falsy_def start_process_def Let_def processes_of_def map_keys_def)

text \<open>In general: every successful \<^verbatim>\<open>connectStdio\<close> starts one more process for the name
  and makes it the name's connection, whatever was connected before.\<close>

lemma connectStdio_spawns:
  "connectStdio sdk m w n cfg = (Inr c, m1, w1) \<Longrightarrow>
   processes_of w1 n = processes_of w n @ [client c] \<and> client c = spawned w
   \<and> map_get (connections m1) n = Some c"
  by (auto simp: connectStdio_def Let_def start_process_def processes_of_def map_get_def
      map_of_map_set split: if_splits option.splits sum.splits)

text \<open>The bridge has the guard: connecting a name that is connected changes nothing.\<close>

lemma connectServer_again:
  "map_has (bridge_connections b) n \<Longrightarrow> \<not> falsy (command cfg) \<Longrightarrow>
   connectServer sdk b w n cfg = (Inr (), b, w)"
  by (simp add: connectServer_def)

section \<open>The catalogs and the connections\<close>

text \<open>
  C7, as the code has it. The manager keeps no catalog of its own: \<^verbatim>\<open>getAllTools\<close> is
  computed from the connections. When the backend starts and lists its tools and resources,
  \<^verbatim>\<open>connectStdio\<close> succeeds and every listed tool is in the catalog under the backend's
  name, next to the tools of the other backends. When the backend's client closes (or the
  name has no connection), \<^verbatim>\<open>disconnect\<close> succeeds and the catalog is the old one
  without the tools of that backend. The bridge stores a tool list, and that list always
  equals the catalog its connections determine: this holds for a new bridge and is kept by
  \<^verbatim>\<open>connectServer\<close> and \<^verbatim>\<open>connectActiveServers\<close>; a connect of a new name appends
  the listed tools, and \<^verbatim>\<open>disconnectAll\<close> empties list and connections. The registry
  the agent reads is filled from \<^verbatim>\<open>getAllTools\<close> in \<^verbatim>\<open>main\<close> and then offers the
  names the manager's catalog has; \<^verbatim>\<open>unregisterServer\<close> removes every tool of a server
  from it.
\<close>

theorem catalog_follows_connections:
  "(\<not> falsy (command cfg)
      \<and> client_connect sdk w (the (command cfg)) (case args cfg of None \<Rightarrow> [] | Some a \<Rightarrow> a)
          = None
      \<and> listTools sdk (start_process w n) (spawned w) = Inr ts
      \<and> listResources sdk (start_process w n) (spawned w) = Inr rs \<longrightarrow>
    (\<exists>c m1 w1. connectStdio sdk m w n cfg = (Inr c, m1, w1)
       \<and> (\<forall>t \<in> set ts. with_server n t \<in> set (getAllTools m1))
       \<and> (\<forall>t \<in> set (getAllTools m). serverName t \<noteq> n \<longrightarrow> t \<in> set (getAllTools m1))))
   \<and> ((\<forall>c. map_get (connections m) n = Some c \<longrightarrow> client_close sdk w (client c) = None) \<longrightarrow>
    (\<exists>m2 w2. disconnect sdk m w n = (Inr (), m2, w2)
       \<and> (\<forall>t \<in> set (getAllTools m2). serverName t \<noteq> n)
       \<and> getAllTools m2 = filter (\<lambda>t. serverName t \<noteq> n) (getAllTools m)))
   \<and> catalog_consistent (new_AgentBridge bc)
   \<and> (catalog_consistent b \<longrightarrow>
        catalog_consistent (fst (snd (connectServer sdk b w n cfg)))
      \<and> catalog_consistent (fst (connectActiveServers sdk b w)))
   \<and> (\<not> falsy (command cfg) \<and> \<not> map_has (bridge_connections b) n
      \<and> client_connect sdk w (the (command cfg)) (case args cfg of None \<Rightarrow> [] | Some a \<Rightarrow> a)
          = None
      \<and> listTools sdk (start_process w n) (spawned w) = Inr ts \<longrightarrow>
    (\<exists>b1 w1. connectServer sdk b w n cfg = (Inr (), b1, w1)
       \<and> allTools b1 = allTools b @ map (with_server n) ts
       \<and> map_keys (bridge_connections b1) = map_keys (bridge_connections b) @ [n]))
   \<and> allTools (fst (disconnectAll sdk b w)) = []
   \<and> bridge_connections (fst (disconnectAll sdk b w)) = []
   \<and> set (map llm_name (getForLLM (main_registry m))) = set (map llm_name (getToolsForLLM m))
   \<and> (\<forall>t \<in> set (getAll (unregisterServer r n)). serverName t \<noteq> n)"
proof (intro conjI impI)
  assume h: "\<not> falsy (command cfg)
      \<and> client_connect sdk w (the (command cfg)) (case args cfg of None \<Rightarrow> [] | Some a \<Rightarrow> a)
          = None
      \<and> listTools sdk (start_process w n) (spawned w) = Inr ts
      \<and> listResources sdk (start_process w n) (spawned w) = Inr rs"
  define c where "c = \<lparr>conn_name = n, conn_config = cfg, client = spawned w,
      tools = ts, resources = rs\<rparr>"
  define m1 where "m1 = m\<lparr>connections := map_set n c (connections m)\<rparr>"
  have e: "connectStdio sdk m w n cfg = (Inr c, m1, start_process w n)"
    using h by (simp add: connectStdio_def Let_def c_def m1_def)
  have "(n, c) \<in> set (connections m1)" by (simp add: m1_def map_set_mem)
  moreover have "tools c = ts" by (simp add: c_def)
  ultimately have a: "\<forall>t \<in> set ts. with_server n t \<in> set (getAllTools m1)"
    unfolding set_getAllTools by blast
  have b: "\<forall>t \<in> set (getAllTools m). serverName t \<noteq> n \<longrightarrow> t \<in> set (getAllTools m1)"
  proof (intro ballI impI)
    fix t assume "t \<in> set (getAllTools m)" and ne: "serverName t \<noteq> n"
    then obtain s d t0 where sd: "(s, d) \<in> set (connections m)" "t0 \<in> set (tools d)"
      "t = with_server s t0" by (auto simp: set_getAllTools)
    with ne have "s \<noteq> n" by simp
    then have "(s, d) \<in> set (connections m1)"
      using sd(1) map_set_others[of "(s, d)" "connections m" n c] by (simp add: m1_def)
    then show "t \<in> set (getAllTools m1)" using sd by (auto simp: set_getAllTools)
  qed
  from e a b show "\<exists>c m1 w1. connectStdio sdk m w n cfg = (Inr c, m1, w1)
       \<and> (\<forall>t \<in> set ts. with_server n t \<in> set (getAllTools m1))
       \<and> (\<forall>t \<in> set (getAllTools m). serverName t \<noteq> n \<longrightarrow> t \<in> set (getAllTools m1))"
    by blast
next
  assume "\<forall>c. map_get (connections m) n = Some c \<longrightarrow> client_close sdk w (client c) = None"
  from disconnect_total[OF this] obtain w2 where
    d: "disconnect sdk m w n = (Inr (), m\<lparr>connections := map_delete n (connections m)\<rparr>, w2)"
    by blast
  have "getAllTools (m\<lparr>connections := map_delete n (connections m)\<rparr>)
      = filter (\<lambda>t. serverName t \<noteq> n) (getAllTools m)"
    by (rule getAllTools_map_delete)
  moreover from this
  have "\<forall>t \<in> set (getAllTools (m\<lparr>connections := map_delete n (connections m)\<rparr>)).
      serverName t \<noteq> n" by simp
  ultimately show "\<exists>m2 w2. disconnect sdk m w n = (Inr (), m2, w2)
       \<and> (\<forall>t \<in> set (getAllTools m2). serverName t \<noteq> n)
       \<and> getAllTools m2 = filter (\<lambda>t. serverName t \<noteq> n) (getAllTools m)"
    using d by blast
next
  show "catalog_consistent (new_AgentBridge bc)"
    by (simp add: catalog_consistent_def new_AgentBridge_def bridge_catalog_def)
next
  assume "catalog_consistent b"
  then show "catalog_consistent (fst (snd (connectServer sdk b w n cfg)))"
    and "catalog_consistent (fst (connectActiveServers sdk b w))"
    by (simp_all add: connectServer_consistent connectActiveServers_consistent)
next
  assume "\<not> falsy (command cfg) \<and> \<not> map_has (bridge_connections b) n
      \<and> client_connect sdk w (the (command cfg)) (case args cfg of None \<Rightarrow> [] | Some a \<Rightarrow> a)
          = None
      \<and> listTools sdk (start_process w n) (spawned w) = Inr ts"
  then show "\<exists>b1 w1. connectServer sdk b w n cfg = (Inr (), b1, w1)
       \<and> allTools b1 = allTools b @ map (with_server n) ts
       \<and> map_keys (bridge_connections b1) = map_keys (bridge_connections b) @ [n]"
    using connectServer_total by blast
next
  show "allTools (fst (disconnectAll sdk b w)) = []"
    and "bridge_connections (fst (disconnectAll sdk b w)) = []"
    using disconnectAll_consistent by blast+
next
  show "set (map llm_name (getForLLM (main_registry m))) = set (map llm_name (getToolsForLLM m))"
    by (rule main_registry_names)
next
  show "\<forall>t \<in> set (getAll (unregisterServer r n)). serverName t \<noteq> n"
    by (rule unregisterServer_removes)
qed

theorem catalog_follows_connections_witness:
  "with_server ''demo'' add_tool
     \<in> set (getAllTools (fst (snd (connectStdio demo_sdk manager0 world0 ''demo'' demo_config))))
   \<and> getAllTools demo_manager = [with_server ''demo'' add_tool]
   \<and> fst (disconnect demo_sdk demo_manager world1 ''demo'') = Inr ()
   \<and> getAllTools (fst (snd (disconnect demo_sdk demo_manager world1 ''demo''))) = []
   \<and> catalog_consistent bridge_demo
   \<and> allTools bridge_demo = [with_server ''demo'' add_tool]
   \<and> allTools (fst (disconnectAll demo_sdk bridge_demo world1)) = []
   \<and> set (map llm_name (getForLLM (main_registry demo_manager))) = {''demo__add''}
   \<and> getAll (unregisterServer (main_registry demo_manager) ''demo'') = []"
proof -
  note t = catalog_follows_connections[where sdk = demo_sdk and m = manager0 and w = world0
      and n = "''demo''" and cfg = demo_config and ts = "[add_tool]" and rs = "[]"
      and b = bridge0 and bc = "bridge_config bridge0" and r = "main_registry demo_manager"]
  note u = catalog_follows_connections[where sdk = demo_sdk and m = demo_manager and w = world1
      and n = "''demo''" and cfg = demo_config and ts = "[add_tool]" and rs = "[]"
      and b = bridge_demo and bc = "bridge_config bridge0" and r = "main_registry demo_manager"]
  have cfg: "\<not> falsy (command demo_config)
      \<and> client_connect demo_sdk world0 (the (command demo_config))
            (case args demo_config of None \<Rightarrow> [] | Some a \<Rightarrow> a) = None
      \<and> listTools demo_sdk (start_process world0 ''demo'') (spawned world0) = Inr [add_tool]
      \<and> listResources demo_sdk (start_process world0 ''demo'') (spawned world0) = Inr []"
    by (simp add: demo_config_def falsy_def demo_sdk_def)
  have tools: "getAllTools demo_manager = [with_server ''demo'' add_tool]"
    by (simp add: demo_manager_eq getAllTools_def)
  from t cfg obtain c m1 w1 where
    "connectStdio demo_sdk manager0 world0 ''demo'' demo_config = (Inr c, m1, w1)"
    "\<forall>t \<in> set [add_tool]. with_server ''demo'' t \<in> set (getAllTools m1)" by blast
  then have a: "with_server ''demo'' add_tool
     \<in> set (getAllTools (fst (snd (connectStdio demo_sdk manager0 world0 ''demo'' demo_config))))"
    by simp
  have cl: "\<forall>c. map_get (connections demo_manager) ''demo'' = Some c
      \<longrightarrow> client_close demo_sdk world1 (client c) = None"
    by (simp add: demo_sdk_def)
  from u cl obtain m2 w2 where
    d: "disconnect demo_sdk demo_manager world1 ''demo'' = (Inr (), m2, w2)"
      "getAllTools m2 = filter (\<lambda>t. serverName t \<noteq> ''demo'') (getAllTools demo_manager)"
    by blast
  then have b: "fst (disconnect demo_sdk demo_manager world1 ''demo'') = Inr ()"
    and c: "getAllTools (fst (snd (disconnect demo_sdk demo_manager world1 ''demo''))) = []"
    by (simp_all add: tools)
  have e: "catalog_consistent bridge_demo"
    using t bridge0_consistent by (simp add: bridge_demo_def)
  have pre: "\<not> map_has (bridge_connections bridge0) ''demo''"
    by (simp add: bridge0_def map_has_def)
  from t cfg pre obtain b1 w3 where
    "connectServer demo_sdk bridge0 world0 ''demo'' demo_config = (Inr (), b1, w3)"
    "allTools b1 = allTools bridge0 @ map (with_server ''demo'') [add_tool]" by blast
  then have f: "allTools bridge_demo = [with_server ''demo'' add_tool]"
    by (simp add: bridge_demo_def bridge0_def)
  have g: "allTools (fst (disconnectAll demo_sdk bridge_demo world1)) = []"
    using u by blast
  have "set (map llm_name (getForLLM (main_registry demo_manager)))
      = set (map llm_name (getToolsForLLM demo_manager))" using u by blast
  then have h: "set (map llm_name (getForLLM (main_registry demo_manager))) = {''demo__add''}"
    by (simp add: getToolsForLLM_def tools with_server_def add_tool_def namespaced_def)
  have i: "getAll (unregisterServer (main_registry demo_manager) ''demo'') = []"
    by (simp add: main_registry_demo unregisterServer_def unregister_def getAll_def map_get_def
        map_delete_def falsy_def Let_def)
  show ?thesis by (intro conjI) (rule a tools b c e f g h i)+
qed

text \<open>
  C7 as stated fails for the catalog the agent offers to the provider. \<^verbatim>\<open>main\<close> fills
  the registry while \<open>demo\<close> is connected. After \<^verbatim>\<open>disconnect("demo")\<close> the manager's
  catalog is empty, but the registry was not touched: the agent's next run still offers
  \<open>demo__add\<close>.
\<close>

theorem catalog_follows_connections_counterexample:
  "disconnect demo_sdk demo_manager world1 ''demo'' = (Inr (), manager0, world1\<lparr>live := []\<rparr>)
   \<and> getAllTools manager0 = []
   \<and> agent_registry demo_agent = main_registry demo_manager
   \<and> map llm_name (getForLLM (agent_registry demo_agent)) = [''demo__add'']
   \<and> run echo_llm demo_sdk demo_agent manager0 (world1\<lparr>live := []\<rparr>) ''hello'' None
       = (Inr \<lparr>success = True, answer = ''demo__add'', toolCalls = [], iterations = 1,
               error = None\<rparr>,
          world1\<lparr>live := [], completions := 1\<rparr>)"
proof -
  have r: "agent_registry demo_agent = main_registry demo_manager"
    by (simp add: demo_agent_def demo_manager_def)
  have n: "map llm_name (getForLLM (agent_registry demo_agent)) = [''demo__add'']"
    by (simp add: r main_registry_demo getForLLM_def getAll_def)
  have "run echo_llm demo_sdk demo_agent manager0 (world1\<lparr>live := []\<rparr>) ''hello'' None
       = (Inr \<lparr>success = True, answer = ''demo__add'', toolCalls = [], iterations = 1,
               error = None\<rparr>,
          world1\<lparr>live := [], completions := 1\<rparr>)"
    using r n
    by (simp add: run_def runWithAnthropic_def demo_agent_def anthropic_agent_def
        loopAnthropic.simps tryAnthropic_def echo_llm_def anthropicRequest_def textContent_def
        llm_called_def world1_def Let_def)
  then show ?thesis
    using r n disconnect_demo by (simp add: getAllTools_def manager0_def)
qed

section \<open>Routing a call by its full name\<close>

text \<open>
  C8, as the code has it. Both \<^verbatim>\<open>callToolByFullName\<close> and the bridge's
  \<^verbatim>\<open>callTool\<close> split the full name at every separator and use the first two segments
  only: when both are non-empty the call goes to the backend named by the first segment
  with the second segment as the tool name, whatever segments follow. The call fails with
  the invalid-name error exactly when the first segment is empty or the second segment is
  missing or empty, and then nothing is sent to any backend (the world is unchanged).
\<close>

theorem full_name_routing:
  "(js_split f = a # b # rest \<and> a \<noteq> [] \<and> b \<noteq> [] \<longrightarrow>
      callToolByFullName sdk m w f x = callTool sdk m w a b x
    \<and> bridge_callTool sdk br w f x =
        (case map_get (bridge_connections br) a of
           None \<Rightarrow> (Inl (ServerNotConnected a), w)
         | Some connection \<Rightarrow>
            (case client_callTool sdk w (mc_client connection) b x of
               Inl e \<Rightarrow> (Inl (Thrown e), w\<lparr>sent := sent w @ [(mc_client connection, b, x)]\<rparr>)
             | Inr r \<Rightarrow> (Inr r, w\<lparr>sent := sent w @ [(mc_client connection, b, x)]\<rparr>))))
   \<and> (fst (callToolByFullName sdk m w f x) = Inl (InvalidToolNameExpected f)
        \<longleftrightarrow> invalid_full_name f)
   \<and> (fst (bridge_callTool sdk br w f x) = Inl (InvalidToolName f)
        \<longleftrightarrow> invalid_full_name f)
   \<and> (invalid_full_name f \<longrightarrow>
        callToolByFullName sdk m w f x = (Inl (InvalidToolNameExpected f), w)
      \<and> bridge_callTool sdk br w f x = (Inl (InvalidToolName f), w))"
proof -
  have inv: "invalid_full_name f \<Longrightarrow>
        callToolByFullName sdk m w f x = (Inl (InvalidToolNameExpected f), w)
      \<and> bridge_callTool sdk br w f x = (Inl (InvalidToolName f), w)"
    using falsy_elements[of f] by (simp add: callToolByFullName_def bridge_callTool_def Let_def)
  have ok: "\<not> invalid_full_name f \<Longrightarrow>
        fst (callToolByFullName sdk m w f x) \<noteq> Inl (InvalidToolNameExpected f)
      \<and> fst (bridge_callTool sdk br w f x) \<noteq> Inl (InvalidToolName f)"
    using falsy_elements[of f] callTool_not_invalid[of sdk m w _ _ x f]
    by (auto simp: callToolByFullName_def bridge_callTool_def Let_def split: option.splits sum.splits)
  have route: "js_split f = a # b # rest \<Longrightarrow> a \<noteq> [] \<Longrightarrow> b \<noteq> [] \<Longrightarrow>
      callToolByFullName sdk m w f x = callTool sdk m w a b x
    \<and> bridge_callTool sdk br w f x =
        (case map_get (bridge_connections br) a of
           None \<Rightarrow> (Inl (ServerNotConnected a), w)
         | Some connection \<Rightarrow>
            (case client_callTool sdk w (mc_client connection) b x of
               Inl e \<Rightarrow> (Inl (Thrown e), w\<lparr>sent := sent w @ [(mc_client connection, b, x)]\<rparr>)
             | Inr r \<Rightarrow> (Inr r, w\<lparr>sent := sent w @ [(mc_client connection, b, x)]\<rparr>)))"
    by (simp add: callToolByFullName_def bridge_callTool_def Let_def element_def falsy_def split: option.splits sum.splits)
  show ?thesis
  proof (intro conjI)
    show "fst (callToolByFullName sdk m w f x) = Inl (InvalidToolNameExpected f)
            \<longleftrightarrow> invalid_full_name f"
      using inv ok by (cases "invalid_full_name f") simp_all
    show "fst (bridge_callTool sdk br w f x) = Inl (InvalidToolName f)
            \<longleftrightarrow> invalid_full_name f"
      using inv ok by (cases "invalid_full_name f") simp_all
  qed (use inv route in simp_all)
qed

theorem full_name_routing_witness:
  "js_split ''demo__add__extra'' = [''demo'', ''add'', ''extra'']
   \<and> callToolByFullName demo_sdk demo_manager world0 ''demo__add__extra'' JNull
       = (Inr (JNum 8), world0\<lparr>sent := [(0, ''add'', JNull)]\<rparr>)
   \<and> bridge_callTool demo_sdk bridge_demo world0 ''demo__add__extra'' JNull
       = (Inr (JNum 8), world0\<lparr>sent := [(0, ''add'', JNull)]\<rparr>)
   \<and> invalid_full_name ''demo''
   \<and> callToolByFullName demo_sdk demo_manager world0 ''demo'' JNull
       = (Inl (InvalidToolNameExpected ''demo''), world0)
   \<and> bridge_callTool demo_sdk bridge_demo world0 ''demo'' JNull
       = (Inl (InvalidToolName ''demo''), world0)"
proof -
  have s: "js_split ''demo__add__extra'' = [''demo'', ''add'', ''extra'']" by simp
  have i: "invalid_full_name ''demo''" by (simp add: invalid_full_name_def)
  have c: "callTool demo_sdk demo_manager world0 ''demo'' ''add'' JNull = (Inr (JNum 8), world0\<lparr>sent := [(0, ''add'', JNull)]\<rparr>)"
    by (simp add: callTool_def demo_manager_eq map_get_def demo_sdk_def world0_def)
  show ?thesis
    using full_name_routing[of "''demo__add__extra''" "''demo''" "''add''" "[''extra'']" demo_sdk demo_manager world0 JNull bridge_demo]
      full_name_routing[of "''demo''" "[]" "[]" "[]" demo_sdk demo_manager world0 JNull bridge_demo]
      s i c
    by (simp add: bridge_demo_eq map_get_def demo_sdk_def world0_def)
qed

text \<open>
  C8 as stated fails: \<open>demo____add\<close> yields the segments \<open>demo\<close>, the empty string and
  \<open>add\<close>, two of them non-empty, and the call is still rejected as an invalid name.
\<close>

theorem full_name_routing_counterexample:
  "js_split ''demo____add'' = [''demo'', [], ''add'']
   \<and> length (filter (\<lambda>s. s \<noteq> []) (js_split ''demo____add'')) = 2
   \<and> callToolByFullName demo_sdk demo_manager world0 ''demo____add'' JNull
       = (Inl (InvalidToolNameExpected ''demo____add''), world0)
   \<and> bridge_callTool demo_sdk bridge_demo world0 ''demo____add'' JNull
       = (Inl (InvalidToolName ''demo____add''), world0)"
  by (simp add: callToolByFullName_def bridge_callTool_def element_def falsy_def)

section \<open>The record of tool calls\<close>

text \<open>
  C9 in the OpenAI loop of the agent. \<^verbatim>\<open>JSON.parse\<close> of a request's arguments stands
  before the inner \<^verbatim>\<open>try\<close>. The provider asks for three tools, \<open>c1\<close>, \<open>c2\<close> and
  \<open>c3\<close>, and the arguments of \<open>c2\<close> are not JSON: the first request is dispatched and
  recorded, then the run ends with \<open>success = False\<close>, and neither \<open>c2\<close> nor \<open>c3\<close> is in
  \<open>toolCalls\<close>.
\<close>

theorem malformed_arguments_drop_records:
  "chat_completions_create malformed_llm world1
      (openaiRequest (config openai_agent) []
         [SystemMsg (systemPrompt (config openai_agent)), UserMsg ''add''])
     = Inr three_requests
   \<and> map tc_id (the (tool_calls (choice_message (hd (choices three_requests)))))
     = [''c1'', ''c2'', ''c3'']
   \<and> run malformed_llm demo_sdk openai_agent demo_manager world1 ''add'' None
     = (Inr \<lparr>success = False, answer = ''Fehler: Unexpected end of JSON input'',
             toolCalls = [\<lparr>rec_tool = ''demo__add'', rec_args = JObj [], rec_result = JNum 8\<rparr>],
             iterations = 1, error = Some ''Unexpected end of JSON input''\<rparr>,
        world1\<lparr>sent := [(0, ''add'', JObj [])], completions := 1\<rparr>)"
  by (simp add: run_def runWithOpenAI_def openai_agent_def loopOpenAI.simps tryOpenAI_def
      malformed_llm_def three_requests_def parse0_def callToolByFullName_def callTool_def
      element_def falsy_def demo_manager_eq map_get_def demo_sdk_def llm_called_def world1_def
      Let_def)

text \<open>The bridge parses inside the \<^verbatim>\<open>try\<close>: arguments that are not JSON give an
  error result for that request and the loop goes on.\<close>

lemma bridge_execToolCall_parse_error:
  "JSON_parse llm (if tc_arguments tc = [] then ''{}'' else tc_arguments tc) = Inl e \<Longrightarrow>
   bridge_execToolCall llm sdk b w tc
     = (ToolMsg (tc_id tc) (JSON_stringify llm (error_payload e)), w)"
  by (simp add: bridge_execToolCall_def)

text \<open>In the Anthropic loop the input arrives parsed, and every request of a response is
  recorded once, in order.\<close>

lemma anthropic_records_requests:
  "messages_create llm w (anthropicRequest c sys tls msgs) = Inr response \<Longrightarrow>
   stop_reason response = tool_use \<Longrightarrow>
   tryAnthropic llm sdk c m sys tls msgs calls its w = (r, calls1, w1) \<Longrightarrow>
   map rec_tool calls1 = map rec_tool calls @ map tu_name (toolUseBlocks (content response))
   \<and> map rec_args calls1 = map rec_args calls @ map tu_input (toolUseBlocks (content response))"
  using execToolUses_results[of llm sdk m calls "[]" "llm_called w" "toolUseBlocks (content response)"]
  by (auto simp: tryAnthropic_def split: prod.splits)

section \<open>Rendering the context\<close>

text \<open>
  C10, as the code has it. The agent's \<^verbatim>\<open>buildContextSection\<close> returns the same string
  for two contexts that agree in what it reads of them, and it leaves the context as it
  was. The bridge's \<^verbatim>\<open>buildSystemPrompt\<close> returns the same string whenever the context
  and the bridge agree in what it reads of them (this includes the names of the connected
  backends and the number of tools), and it leaves both the bridge and the context as they
  were.
\<close>

theorem context_rendering:
  "(context_inputs c1 = context_inputs c2 \<longrightarrow>
      fst (buildContextSection s c1) = fst (buildContextSection s c2))
   \<and> snd (buildContextSection s c) = c
   \<and> (bridge_inputs b1 d1 = bridge_inputs b2 d2 \<longrightarrow>
      fst (buildSystemPrompt b1 d1) = fst (buildSystemPrompt b2 d2))
   \<and> snd (buildSystemPrompt b d) = (b, d)"
proof (intro conjI impI)
  assume h: "context_inputs c1 = context_inputs c2"
  then have w: "(case workspaceFolders c1 of None \<Rightarrow> [] | Some l \<Rightarrow> l)
        = (case workspaceFolders c2 of None \<Rightarrow> [] | Some l \<Rightarrow> l)"
    and p: "(case openFiles c1 of None \<Rightarrow> [] | Some l \<Rightarrow> l)
        = (case openFiles c2 of None \<Rightarrow> [] | Some l \<Rightarrow> l)"
    and f: "(case currentFile c1 of None \<Rightarrow> [] | Some s \<Rightarrow> s)
        = (case currentFile c2 of None \<Rightarrow> [] | Some s \<Rightarrow> s)"
    and e: "(case selection c1 of None \<Rightarrow> [] | Some s \<Rightarrow> s)
        = (case selection c2 of None \<Rightarrow> [] | Some s \<Rightarrow> s)"
    and v: "(if falsy_value (customContext c1) then None else customContext c1)
        = (if falsy_value (customContext c2) then None else customContext c2)"
    by (simp_all add: context_inputs_def)
  show "fst (buildContextSection s c1) = fst (buildContextSection s c2)"
    using list_inputs[OF w] list_inputs[OF p] string_inputs[OF f] string_inputs[OF e]
      value_inputs[OF v]
    by (simp add: buildContextSection_def Let_def)
next
  show "snd (buildContextSection s c) = c"
    by (simp add: buildContextSection_def Let_def)
next
  assume h: "bridge_inputs b1 d1 = bridge_inputs b2 d2"
  then have e: "(bc_openFiles d1 = []) = (bc_openFiles d2 = [])"
    using take5_nonempty[of "bc_openFiles d1" "bc_openFiles d2"] by (simp add: bridge_inputs_def)
  from h have f: "(case bc_currentFile d1 of None \<Rightarrow> [] | Some s \<Rightarrow> s)
        = (case bc_currentFile d2 of None \<Rightarrow> [] | Some s \<Rightarrow> s)"
    and g: "(case bc_selection d1 of None \<Rightarrow> [] | Some s \<Rightarrow> s)
        = (case bc_selection d2 of None \<Rightarrow> [] | Some s \<Rightarrow> s)"
    and r: "bc_workspaceFolders d1 = bc_workspaceFolders d2"
      "take 5 (bc_openFiles d1) = take 5 (bc_openFiles d2)"
      "map_keys (bridge_connections b1) = map_keys (bridge_connections b2)"
      "length (allTools b1) = length (allTools b2)"
    by (simp_all add: bridge_inputs_def)
  show "fst (buildSystemPrompt b1 d1) = fst (buildSystemPrompt b2 d2)"
    using r e string_inputs[OF f] string_inputs[OF g]
    by (simp add: buildSystemPrompt_def Let_def)
next
  show "snd (buildSystemPrompt b d) = (b, d)"
    by (simp add: buildSystemPrompt_def Let_def)
qed

theorem context_rendering_witness:
  "context_a \<noteq> context_c
   \<and> context_inputs context_a = context_inputs context_c
   \<and> fst (buildContextSection stringify0 context_a)
       = nl @ nl @ ''--- Aktueller Kontext ---'' @ nl @ ''Workspace: /work''
   \<and> fst (buildContextSection stringify0 context_c)
       = nl @ nl @ ''--- Aktueller Kontext ---'' @ nl @ ''Workspace: /work''
   \<and> snd (buildContextSection stringify0 context_c) = context_c
   \<and> six_files_a \<noteq> six_files_b
   \<and> bridge_inputs bridge_demo six_files_a = bridge_inputs bridge_demo six_files_b
   \<and> fst (buildSystemPrompt bridge_demo six_files_a)
       = fst (buildSystemPrompt bridge_demo six_files_b)
   \<and> snd (buildSystemPrompt bridge_demo six_files_a) = (bridge_demo, six_files_a)"
proof -
  note t = context_rendering[of context_a context_c stringify0 context_c
      bridge_demo six_files_a bridge_demo six_files_b bridge_demo six_files_a]
  have a: "context_a \<noteq> context_c" by (simp add: context_a_def context_c_def)
  have b: "context_inputs context_a = context_inputs context_c"
    by (simp add: context_inputs_def context_a_def context_c_def falsy_value_def)
  have c: "fst (buildContextSection stringify0 context_a)
       = nl @ nl @ ''--- Aktueller Kontext ---'' @ nl @ ''Workspace: /work''"
    by (simp add: buildContextSection_def context_a_def has_length_def falsy_def
        falsy_value_def Let_def)
  have d: "fst (buildContextSection stringify0 context_c)
       = nl @ nl @ ''--- Aktueller Kontext ---'' @ nl @ ''Workspace: /work''"
    using t b c by simp
  have e: "snd (buildContextSection stringify0 context_c) = context_c" using t by blast
  have f: "six_files_a \<noteq> six_files_b"
    by (simp add: six_files_a_def six_files_b_def bridge_context0_def)
  have g: "bridge_inputs bridge_demo six_files_a = bridge_inputs bridge_demo six_files_b"
    by (simp add: bridge_inputs_def six_files_a_def six_files_b_def)
  have h: "fst (buildSystemPrompt bridge_demo six_files_a)
       = fst (buildSystemPrompt bridge_demo six_files_b)" using t g by blast
  have i: "snd (buildSystemPrompt bridge_demo six_files_a) = (bridge_demo, six_files_a)"
    using t by blast
  show ?thesis by (intro conjI) (rule a b c d e f g h i)+
qed

text \<open>
  C10 as stated fails at the bridge: it renders one and the same context differently
  before and after a backend is connected.
\<close>

theorem context_rendering_counterexample:
  "connectServer demo_sdk bridge0 world0 ''demo'' demo_config = (Inr (), bridge_demo, world1)
   \<and> fst (buildSystemPrompt bridge0 bridge_context0)
       = join nl
           [''Du bist ein hilfreicher KI-Assistent in VS Code.'',
            ''Du hast Zugriff auf MCP-Tools um Aufgaben auszuf'' @ uuml @ ''hren.'',
            ''Antworte auf Deutsch, kurz und pr'' @ auml @ ''zise.'',
            [],
            ''--- Aktueller Kontext ---'',
            ''Workspace: /work'',
            [],
            ''Verf'' @ uuml @ ''gbare Server: '',
            ''Verf'' @ uuml @ ''gbare Tools: 0'']
   \<and> fst (buildSystemPrompt bridge_demo bridge_context0)
       = join nl
           [''Du bist ein hilfreicher KI-Assistent in VS Code.'',
            ''Du hast Zugriff auf MCP-Tools um Aufgaben auszuf'' @ uuml @ ''hren.'',
            ''Antworte auf Deutsch, kurz und pr'' @ auml @ ''zise.'',
            [],
            ''--- Aktueller Kontext ---'',
            ''Workspace: /work'',
            [],
            ''Verf'' @ uuml @ ''gbare Server: demo'',
            ''Verf'' @ uuml @ ''gbare Tools: 1'']
   \<and> fst (buildSystemPrompt bridge0 bridge_context0)
       \<noteq> fst (buildSystemPrompt bridge_demo bridge_context0)"
  by (simp add: connectServer_demo)
     (simp add: buildSystemPrompt_def Let_def falsy_def bridge0_def bridge_demo_eq
      bridge_context0_def map_keys_def string_of_nat.simps nl_def)

text \<open>The agent renders the custom context when it is truthy.\<close>

lemma custom_context_is_rendered:
  "fst (buildContextSection stringify0 context_b)
     = nl @ nl @ ''--- Aktueller Kontext ---'' @ nl @ ''Workspace: /work'' @ nl
       @ ''Zus'' @ auml @ ''tzlicher Kontext: {}''"
  by (simp add: buildContextSection_def context_b_def context_a_def has_length_def falsy_def
      falsy_value_def stringify0_def Let_def)

end
